theory Spec2Isabelle
  imports Complex_Main
begin

section \<open>Conventions of the embedding\<close>

text \<open>
  The C sources compute with \<^verbatim>\<open>double\<close>. Rounding, overflow and underflow are not
  modelled: a finite result is the exact real number.

  In energy\_injection.c and in the functions of the spectrum table (the analytic spectrum
  and \<^verbatim>\<open>primordial_spectrum_at_k\<close>) a double is a \<^typ>\<open>real\<close>. \<^verbatim>\<open>exp\<close>, \<^verbatim>\<open>log\<close>,
  \<^verbatim>\<open>sqrt\<close>, \<^verbatim>\<open>fabs\<close> and \<^verbatim>\<open>M_PI\<close> become \<^term>\<open>exp\<close>, \<^term>\<open>ln\<close>, \<^term>\<open>sqrt\<close>,
  \<^term>\<open>abs\<close> and \<^term>\<open>pi\<close>; \<^verbatim>\<open>pow\<close> with a whole exponent becomes a power, with a
  fractional exponent \<^term>\<open>(powr)\<close>. No branch of these functions tests a computed
  quotient.

  The inflation simulator tests the quantities it computes, and a zero denominator there
  sends an infinity or a NaN through the state and into the later tests. In that part a
  double is a value of the type \<open>double\<close> of the next section, which has the two zeros, the
  two infinities and NaN, with the arithmetic and the comparisons of IEEE 754 on them.
\<close>

section \<open>Doubles with the special values of IEEE 754\<close>

text \<open>
  A \<^verbatim>\<open>double\<close> of the inflation simulator: a finite number, held exactly as a real
  (\<open>Fin 0\<close> is the positive zero), the negative zero, the two infinities, or a NaN. The
  operations follow IEEE 754 on the special values: a NaN operand gives a NaN,
  \<open>inf - inf\<close>, \<open>0 * inf\<close>, \<open>0 / 0\<close> and \<open>inf / inf\<close> give a NaN, a non-zero number
  divided by a zero gives an infinity, the sign of a zero or infinite product or quotient
  is the exclusive or of the signs of the operands, \<open>x - x\<close> is the positive zero, and the
  sum of two zeros is negative only when both are. On finite non-zero results the
  operations are the exact ones of the reals.
\<close>

datatype double = Fin real | NegZero | PInf | MInf | NaN

definition is_zero :: "double \<Rightarrow> bool" where
  "is_zero x \<longleftrightarrow> x = Fin 0 \<or> x = NegZero"

definition is_inf :: "double \<Rightarrow> bool" where
  "is_inf x \<longleftrightarrow> x = PInf \<or> x = MInf"

definition is_finite :: "double \<Rightarrow> bool" where
  "is_finite x \<longleftrightarrow> x \<noteq> PInf \<and> x \<noteq> MInf \<and> x \<noteq> NaN"

definition sign_bit :: "double \<Rightarrow> bool" where
  "sign_bit x = (case x of Fin v \<Rightarrow> v < 0 | NegZero \<Rightarrow> True | PInf \<Rightarrow> False | MInf \<Rightarrow> True
                 | NaN \<Rightarrow> False)"

definition value_of :: "double \<Rightarrow> real" where
  "value_of x = (case x of Fin v \<Rightarrow> v | NegZero \<Rightarrow> 0 | PInf \<Rightarrow> 0 | MInf \<Rightarrow> 0 | NaN \<Rightarrow> 0)"

definition signed_zero :: "bool \<Rightarrow> double" where
  "signed_zero s = (if s then NegZero else Fin 0)"

definition signed_inf :: "bool \<Rightarrow> double" where
  "signed_inf s = (if s then MInf else PInf)"

text \<open>
  The arithmetic operators and the comparisons of C on doubles. A comparison with a NaN
  is false, so \<open>\<not> x < y\<close> does not give \<open>y \<le> x\<close>; the two zeros compare equal.
\<close>

instantiation double :: "{zero, one, plus, minus, uminus, times, inverse, abs, ord}"
begin

definition zero_double_def: "0 = Fin 0"

definition one_double_def: "1 = Fin 1"

definition plus_double_def:
  "x + y =
     (if x = NaN \<or> y = NaN \<or> (x = PInf \<and> y = MInf) \<or> (x = MInf \<and> y = PInf) then NaN
      else if x = PInf \<or> y = PInf then PInf
      else if x = MInf \<or> y = MInf then MInf
      else if x = NegZero then y
      else if y = NegZero then x
      else Fin (value_of x + value_of y))"

definition uminus_double_def:
  "- x = (case x of Fin v \<Rightarrow> if v = 0 then NegZero else Fin (- v) | NegZero \<Rightarrow> Fin 0
          | PInf \<Rightarrow> MInf | MInf \<Rightarrow> PInf | NaN \<Rightarrow> NaN)"

definition minus_double_def: "x - y = x + (- y :: double)"

definition times_double_def:
  "x * y =
     (if x = NaN \<or> y = NaN \<or> (is_zero x \<and> is_inf y) \<or> (is_inf x \<and> is_zero y) then NaN
      else if is_inf x \<or> is_inf y then signed_inf (sign_bit x \<noteq> sign_bit y)
      else if is_zero x \<or> is_zero y then signed_zero (sign_bit x \<noteq> sign_bit y)
      else Fin (value_of x * value_of y))"

definition divide_double_def:
  "divide x y =
     (if x = NaN \<or> y = NaN \<or> (is_zero x \<and> is_zero y) \<or> (is_inf x \<and> is_inf y) then NaN
      else if is_inf x \<or> is_zero y then signed_inf (sign_bit x \<noteq> sign_bit y)
      else if is_zero x \<or> is_inf y then signed_zero (sign_bit x \<noteq> sign_bit y)
      else Fin (value_of x / value_of y))"

definition inverse_double_def: "inverse x = divide (1 :: double) x"

definition abs_double_def:
  "\<bar>x\<bar> = (case x of Fin v \<Rightarrow> Fin \<bar>v\<bar> | NegZero \<Rightarrow> Fin 0 | PInf \<Rightarrow> PInf | MInf \<Rightarrow> PInf
           | NaN \<Rightarrow> NaN)"

definition less_double_def:
  "x < y \<longleftrightarrow>
     x \<noteq> NaN \<and> y \<noteq> NaN \<and> x \<noteq> PInf \<and> y \<noteq> MInf
     \<and> (x = MInf \<or> y = PInf \<or> value_of x < value_of y)"

definition less_eq_double_def:
  "x \<le> y \<longleftrightarrow>
     x \<noteq> NaN \<and> y \<noteq> NaN
     \<and> (x = MInf \<or> y = PInf \<or> (x \<noteq> PInf \<and> y \<noteq> MInf \<and> value_of x \<le> value_of y))"

instance ..

end

text \<open>Addition is associative, which makes the numerals available: \<open>2\<close> is \<open>Fin 2\<close>.\<close>

instance double :: semigroup_add
proof
  fix a b c :: double
  show "a + b + c = a + (b + c)"
    by (cases a; cases b; cases c) (simp_all add: plus_double_def value_of_def)
qed

instance double :: numeral ..

text \<open>
  \<^verbatim>\<open>sqrt\<close>, \<^verbatim>\<open>cos\<close> and \<^verbatim>\<open>sin\<close> of math.h, and \<^verbatim>\<open>pow\<close> with a whole exponent, which on
  the special values agrees with the repeated product.
\<close>

definition sqrt_double :: "double \<Rightarrow> double" where
  "sqrt_double x = (case x of Fin v \<Rightarrow> if v < 0 then NaN else Fin (sqrt v) | NegZero \<Rightarrow> NegZero
                    | PInf \<Rightarrow> PInf | MInf \<Rightarrow> NaN | NaN \<Rightarrow> NaN)"

definition cos_double :: "double \<Rightarrow> double" where
  "cos_double x = (case x of Fin v \<Rightarrow> Fin (cos v) | NegZero \<Rightarrow> Fin 1 | PInf \<Rightarrow> NaN
                   | MInf \<Rightarrow> NaN | NaN \<Rightarrow> NaN)"

definition sin_double :: "double \<Rightarrow> double" where
  "sin_double x = (case x of Fin v \<Rightarrow> Fin (sin v) | NegZero \<Rightarrow> NegZero | PInf \<Rightarrow> NaN
                   | MInf \<Rightarrow> NaN | NaN \<Rightarrow> NaN)"

primrec pow :: "double \<Rightarrow> nat \<Rightarrow> double" where
  "pow x 0 = 1"
| "pow x (Suc n) = x * pow x n"

text \<open>
  Modelled from the spec: the macro \<^verbatim>\<open>MIN\<close> is declared in common.h, which is not part of
  the sources at hand; \<^verbatim>\<open>MIN(a,b)\<close> is \<^verbatim>\<open>(((a)<(b)) ? (a) : (b))\<close>, which gives \<^verbatim>\<open>b\<close>
  when one of the two is a NaN.
\<close>

definition macro_MIN :: "double \<Rightarrow> double \<Rightarrow> double" where
  "macro_MIN a b = (if a < b then a else b)"

section \<open>HyRec: energy injection (energy\_injection.c)\<close>

text \<open>The fields of \<^verbatim>\<open>INJ_PARAMS\<close> that energy\_injection.c reads.\<close>

record INJ_PARAMS =
  odmh2 :: real
  pann :: real
  pann_halo :: real
  ann_z :: real
  ann_zmax :: real
  ann_zmin :: real
  ann_var :: real
  ann_z_halo :: real
  on_the_spot :: int
  Mpbh :: real
  fpbh :: real
  coll_ion :: int

text \<open>
  Modelled from the spec: \<^verbatim>\<open>square\<close> and \<^verbatim>\<open>cube\<close> are declared in hyrectools.h, which
  is not among the sources. The spec scales the rates by \<open>(1+z)\<^sup>3\<close> where the code
  writes \<^verbatim>\<open>cube(1.+z)\<close> or \<^verbatim>\<open>zp1*zp1*zp1\<close>; \<^verbatim>\<open>square\<close> is the second power likewise.
\<close>

definition square :: "real \<Rightarrow> real" where
  "square x = x * x"

definition cube :: "real \<Rightarrow> real" where
  "cube x = x * x * x"

definition dEdtdV_DM_ann :: "real \<Rightarrow> INJ_PARAMS \<Rightarrow> real" where
  "dEdtdV_DM_ann z params =
     (let var = ann_var params;
          zp1 = z + 1;
          zp1_ann = ann_z params + 1;
          zp1_max = ann_zmax params + 1;
          zp1_halo = ann_z_halo params + 1;
          zp1_min = ann_zmin params + 1;
          pann_tot0 = 0;
          pann_tot1 =
            (if pann params > 0 then
               (if zp1 > zp1_max then
                  pann params * exp (- var * square (ln (zp1_ann / zp1_max)))
                else if zp1 > zp1_min then
                  pann params * exp (var * (- square (ln (zp1_ann / zp1_max))
                                            + square (ln (zp1 / zp1_max))))
                else
                  pann params * exp (var * (- square (ln (zp1_ann / zp1_max))
                                            + square (ln (zp1_min / zp1_max)))))
               * (zp1 * zp1 * zp1)
             else pann_tot0);
          pann_tot2 =
            (if pann_halo params > 0 then
               (let u_min = zp1 / zp1_halo;
                    erfc = 1 / (1 + 0.278393 * u_min + 0.230389 * u_min * u_min
                                + 0.000972 * u_min * u_min * u_min
                                + 0.078108 * u_min * u_min * u_min * u_min) ^ 4
                in pann_tot1 + pann_halo params * erfc)
             else pann_tot1)
      in square (10537.4 * odmh2 params) * zp1 * zp1 * zp1 * (1 / 10 ^ 9) * pann_tot2)"

definition beta_pbh :: "real \<Rightarrow> real \<Rightarrow> real \<Rightarrow> real \<Rightarrow> real" where
  "beta_pbh M z xe Teff =
     (let a = 1 / (1 + z);
          vB = 9.09 * 10 ^ 3 * sqrt ((1 + xe) * Teff);
          tB = 1.33 * 10 ^ 26 * M / vB / vB / vB
      in 7.45 / 10 ^ 24 * xe / a / a / a / a * tB)"

definition gamma_pbh :: "real \<Rightarrow> real \<Rightarrow> real \<Rightarrow> real \<Rightarrow> real" where
  "gamma_pbh M z xe Teff = 3.67 * 10 ^ 3 / (1 + xe) * beta_pbh M z xe Teff"

definition lambda_pbh :: "real \<Rightarrow> real \<Rightarrow> real \<Rightarrow> real \<Rightarrow> real" where
  "lambda_pbh M z xe Teff =
     (let beta = beta_pbh M z xe Teff;
          gamma = gamma_pbh M z xe Teff;
          lam_ricotti = exp (4.5 / (3 + beta powr 0.75)) / square (sqrt (1 + beta) + 1);
          lam_ad = 0.6 powr 1.5 / 4;
          lam_iso = exp 1.5 / 4;
          lam_nodrag = lam_ad + (lam_iso - lam_ad)
                         * (gamma * gamma / (88 + gamma * gamma)) powr 0.22
      in lam_ricotti * lam_nodrag / lam_iso)"

definition Mdot_pbh :: "real \<Rightarrow> real \<Rightarrow> real \<Rightarrow> real \<Rightarrow> real" where
  "Mdot_pbh M z xe Teff =
     (let vB = 9.09 * 10 ^ 3 * sqrt ((1 + xe) * Teff)
      in 9.15 * 10 ^ 22 * M * M * cube ((1 + z) / vB) * lambda_pbh M z xe Teff)"

definition TS_over_me_pbh :: "real \<Rightarrow> real \<Rightarrow> real \<Rightarrow> real \<Rightarrow> int \<Rightarrow> real" where
  "TS_over_me_pbh M z xe Teff ci =
     (let gamma = gamma_pbh M z xe Teff;
          tau = 1.5 / (5 + gamma powr (2 / 3));
          YS0 = 2 / (1 + xe) * tau / 4 * (1 - 2.5 * tau) powr (1 / 3) * 1836;
          YS = (if ci = 1 then YS0 * ((1 + xe) / 2) ^ 8 else YS0)
      in YS / (1 + YS / 0.27) powr (1 / 3))"

definition eps_over_mdot_pbh :: "real \<Rightarrow> real \<Rightarrow> real \<Rightarrow> real \<Rightarrow> int \<Rightarrow> real" where
  "eps_over_mdot_pbh M z xe Teff ci =
     (let X = TS_over_me_pbh M z xe Teff ci;
          G = (if X < 1 then 4 / pi * sqrt (2 / pi / X) * (1 + 5.5 * X powr 1.25)
               else 13.5 / pi * (ln (2 * X * 0.56146 + 0.08) + 4 / 3))
      in X / 1836 / 137 * G)"

definition L_pbh :: "real \<Rightarrow> real \<Rightarrow> real \<Rightarrow> real \<Rightarrow> int \<Rightarrow> real" where
  "L_pbh M z xe Teff ci =
     (let Mdot = Mdot_pbh M z xe Teff;
          mdot = Mdot / (1.4 * 10 ^ 17 * M);
          eff = mdot * eps_over_mdot_pbh M z xe Teff ci
      in eff * Mdot * (9 * 10 ^ 20))"

definition vbc_rms_func :: "real \<Rightarrow> real" where
  "vbc_rms_func z = (if z < 10 ^ 3 then 3 * 10 ^ 6 * (1 + z) / 10 ^ 3 else 3 * 10 ^ 6)"

text \<open>
  One pass of the quadrature loop of \<^verbatim>\<open>L_pbh_av\<close>, for the index \<open>i\<close>, on the pair of
  accumulators \<open>(num, denom)\<close>; \<open>Nvbc\<close> is the local constant 50 of the source.
\<close>

definition L_pbh_av_body ::
  "real \<Rightarrow> real \<Rightarrow> real \<Rightarrow> real \<Rightarrow> int \<Rightarrow> nat \<Rightarrow> real \<Rightarrow> real \<Rightarrow> nat \<Rightarrow> real \<times> real \<Rightarrow> real \<times> real" where
  "L_pbh_av_body M z xe Tgas ci Nvbc vbc_rms vbc_max i acc =
     (let vbc = real i * vbc_max / (real Nvbc - 1);
          x = vbc / vbc_rms;
          P_vbc = x * x * exp (- 1.5 * x * x);
          denom = snd acc + P_vbc;
          Teff = Tgas + 1.21 / 10 ^ 8 * vbc * vbc / (1 + xe);
          num = fst acc + L_pbh M z xe Teff ci * P_vbc
      in (num, denom))"

definition L_pbh_av :: "real \<Rightarrow> real \<Rightarrow> real \<Rightarrow> real \<Rightarrow> int \<Rightarrow> real" where
  "L_pbh_av M z xe Tgas ci =
     (let Nvbc = 50;
          vbc_rms = vbc_rms_func z;
          vbc_max = 5 * vbc_rms;
          acc = fold (L_pbh_av_body M z xe Tgas ci Nvbc vbc_rms vbc_max) [0..<Nvbc] (0, 0)
      in fst acc / snd acc)"

definition dEdtdV_pbh :: "real \<Rightarrow> real \<Rightarrow> real \<Rightarrow> real \<Rightarrow> real \<Rightarrow> int \<Rightarrow> real" where
  "dEdtdV_pbh f M z xe Tgas ci =
     (let xe_used = (if xe < 1 then xe else 1)
      in if f > 0 then 7.07 / 10 ^ 52 / M * cube (1 + z) * f * L_pbh_av M z xe_used Tgas ci
         else 0)"

definition dEdtdV_inj :: "real \<Rightarrow> real \<Rightarrow> real \<Rightarrow> INJ_PARAMS \<Rightarrow> real" where
  "dEdtdV_inj z xe Tgas params =
     dEdtdV_DM_ann z params
       + dEdtdV_pbh (fpbh params) (Mpbh params) z xe Tgas (coll_ion params)"

text \<open>
  \<^verbatim>\<open>update_dEdtdV_dep\<close> overwrites the accumulator behind the pointer \<^verbatim>\<open>dEdtdV_dep\<close>;
  the model takes its old value as the last argument and returns the new one.
\<close>

definition update_dEdtdV_dep ::
  "real \<Rightarrow> real \<Rightarrow> real \<Rightarrow> real \<Rightarrow> real \<Rightarrow> real \<Rightarrow> INJ_PARAMS \<Rightarrow> real \<Rightarrow> real" where
  "update_dEdtdV_dep z_out dlna xe Tgas nH H params dEdtdV_dep =
     (let inj = dEdtdV_inj z_out xe Tgas params
      in if on_the_spot params = 1 then inj
         else (dEdtdV_dep * exp (- 7 * dlna) + 2 / 10 ^ 15 * dlna * nH / H * inj)
                / (1 + 2 / 10 ^ 15 * dlna * nH / H))"

definition chi_heat :: "real \<Rightarrow> real" where
  "chi_heat xe = (1 + 2 * xe) / 3"

definition chi_ion :: "real \<Rightarrow> real" where
  "chi_ion xe = (1 - xe) / 3"

definition chi_exc :: "real \<Rightarrow> real" where
  "chi_exc xe = 1 - chi_ion xe - chi_heat xe"

text \<open>A sample parameter set: no dark-matter annihilation, a chosen deposition mode and PBH fraction.\<close>

definition inj_params_example :: "int \<Rightarrow> real \<Rightarrow> INJ_PARAMS" where
  "inj_params_example ots f =
     \<lparr>odmh2 = 0.12, pann = 0, pann_halo = 0, ann_z = 600, ann_zmax = 2500, ann_zmin = 30,
      ann_var = 1, ann_z_halo = 30, on_the_spot = ots, Mpbh = 100, fpbh = f, coll_ion = 0\<rparr>"

section \<open>CLASS: primordial spectra (primordial.c)\<close>

subsection \<open>Enumerations, errors and structures\<close>

text \<open>
  The header primordial.h is not among the sources. The enumerations carry the
  constants that primordial.c names; \<open>other_shape\<close> stands for any potential tag besides
  the two the code treats, so that the \<^verbatim>\<open>default\<close> branch of its switch can be reached.
\<close>

datatype linear_or_logarithmic = linear_mode | logarithmic

datatype primordial_spectrum_type =
  analytic_Pk | inflation_V | inflation_H | inflation_V_end | external_Pk

datatype potential_shape = polynomial | natural | other_shape

datatype target_quantity = target_aH | target_phi | target_end_inflation

datatype integration_direction = backward | forward

datatype time_definition = conformal

text \<open>
  Every failure of the source returns \<^verbatim>\<open>_FAILURE_\<close> with a message; the model names each
  \<^verbatim>\<open>class_test\<close> and \<^verbatim>\<open>class_stop\<close> by a constructor. \<open>Spline_error\<close> and
  \<open>Integrator_error\<close> stand for failures reported by the external array and ODE
  utilities.
\<close>

datatype error =
    K_not_positive
  | K_out_of_range
  | Lnk_table_empty
  | Spline_error
  | Inconsistent_amplitude
  | Inconsistent_correlation
  | Unknown_potential
  | Bad_spec_type
  | Potential_not_positive
  | Potential_slope_not_negative
  | Hubble_negative
  | Hubble_slope_positive
  | Epsilon_crossing
  | Step_too_small
  | Integrator_error
  | Attractor_not_found
  | End_inflation_needs_V_end
  | Negative_curvature
  | Negative_tensor

text \<open>The fields of \<^verbatim>\<open>struct perturbs\<close> read by the functions modelled here.\<close>

record perturbs =
  has_scalars :: bool
  has_tensors :: bool
  index_md_scalars :: nat
  index_md_tensors :: nat
  has_ad :: bool
  has_bi :: bool
  has_cdi :: bool
  has_nid :: bool
  has_niv :: bool
  index_ic_ad :: nat
  index_ic_bi :: nat
  index_ic_cdi :: nat
  index_ic_nid :: nat
  index_ic_niv :: nat
  index_ic_ten :: nat

text \<open>
  \<^verbatim>\<open>struct primordial\<close>. A heap array is a store from index to value (two indices for
  the arrays of arrays); \<open>lnk\<close> is a list, whose length is the field \<^verbatim>\<open>lnk_size\<close>.
\<close>

record primordial =
  primordial_spec_type :: primordial_spectrum_type
  k_pivot :: real
  A_s :: real
  n_s :: real
  alpha_s :: real
  f_bi :: real
  n_bi :: real
  alpha_bi :: real
  f_cdi :: real
  n_cdi :: real
  alpha_cdi :: real
  f_nid :: real
  n_nid :: real
  alpha_nid :: real
  f_niv :: real
  n_niv :: real
  alpha_niv :: real
  c_ad_bi :: real
  n_ad_bi :: real
  alpha_ad_bi :: real
  c_ad_cdi :: real
  n_ad_cdi :: real
  alpha_ad_cdi :: real
  c_ad_nid :: real
  n_ad_nid :: real
  alpha_ad_nid :: real
  c_ad_niv :: real
  n_ad_niv :: real
  alpha_ad_niv :: real
  c_bi_cdi :: real
  n_bi_cdi :: real
  alpha_bi_cdi :: real
  c_bi_nid :: real
  n_bi_nid :: real
  alpha_bi_nid :: real
  c_bi_niv :: real
  n_bi_niv :: real
  alpha_bi_niv :: real
  c_cdi_nid :: real
  n_cdi_nid :: real
  alpha_cdi_nid :: real
  c_cdi_niv :: real
  n_cdi_niv :: real
  alpha_cdi_niv :: real
  c_nid_niv :: real
  n_nid_niv :: real
  alpha_nid_niv :: real
  r :: real
  n_t :: real
  alpha_t :: real
  md_size :: nat
  ic_size :: "nat \<Rightarrow> nat"
  ic_ic_size :: "nat \<Rightarrow> nat"
  lnk :: "real list"
  lnpk :: "nat \<Rightarrow> nat \<Rightarrow> real"
  ddlnpk :: "nat \<Rightarrow> nat \<Rightarrow> real"
  is_non_zero :: "nat \<Rightarrow> nat \<Rightarrow> bool"
  amplitude :: "nat \<Rightarrow> nat \<Rightarrow> real"
  tilt :: "nat \<Rightarrow> nat \<Rightarrow> real"
  running :: "nat \<Rightarrow> nat \<Rightarrow> real"
  potential :: potential_shape
  V0 :: double
  V1 :: double
  V2 :: double
  V3 :: double
  V4 :: double
  H0 :: double
  H1 :: double
  H2 :: double
  H3 :: double
  H4 :: double
  phi_pivot :: double
  index_in_a :: nat
  index_in_phi :: nat
  index_in_dphi :: nat
  in_bg_size :: nat
  index_in_ksi_re :: nat
  index_in_ksi_im :: nat
  index_in_dksi_re :: nat
  index_in_dksi_im :: nat
  index_in_ah_re :: nat
  index_in_ah_im :: nat
  index_in_dah_re :: nat
  index_in_dah_im :: nat
  in_size :: nat
  phi_min :: double
  phi_max :: double

text \<open>
  Modelled from the spec: the macros \<^verbatim>\<open>_scalars_\<close> and \<^verbatim>\<open>_tensors_\<close> are declared in
  perturbations.h, which is not among the sources. They tell whether the current mode
  index is the scalar or the tensor one (the spec's "perturbation mode-type (scalar,
  tensor, ...)"), using the flags and mode indices of \<^verbatim>\<open>ppt\<close> that primordial.c reads.
\<close>

definition scalars_md :: "perturbs \<Rightarrow> nat \<Rightarrow> bool" where
  "scalars_md ppt index_md \<longleftrightarrow> has_scalars ppt \<and> index_md = index_md_scalars ppt"

definition tensors_md :: "perturbs \<Rightarrow> nat \<Rightarrow> bool" where
  "tensors_md ppt index_md \<longleftrightarrow> has_tensors ppt \<and> index_md = index_md_tensors ppt"

text \<open>
  Modelled from the spec: the macro \<^verbatim>\<open>index_symmetric_matrix\<close> is declared in common.h,
  which is not among the sources. The spec describes "a symmetric upper-triangular
  packing: pair (i,j) with i\<le>j maps to a unique offset", an "upper-triangular linear
  offset"; with \<^verbatim>\<open>ic_ic_size = N(N+1)/2\<close> entries, row \<open>i1\<close> of the upper triangle starts
  after the \<open>N*i1 - i1(i1-1)/2\<close> entries of the rows before it.
\<close>

definition index_symmetric_matrix :: "nat \<Rightarrow> nat \<Rightarrow> nat \<Rightarrow> nat" where
  "index_symmetric_matrix i1 i2 N =
     (if i1 \<le> i2 then i2 + N * i1 - (i1 * (i1 + 1)) div 2
      else i1 + N * i2 - (i2 * (i2 + 1)) div 2)"

text \<open>Writing one cell of an array of arrays.\<close>

definition upd2 :: "(nat \<Rightarrow> nat \<Rightarrow> 'a) \<Rightarrow> nat \<Rightarrow> nat \<Rightarrow> 'a \<Rightarrow> (nat \<Rightarrow> nat \<Rightarrow> 'a)" where
  "upd2 f i j v = f(i := (f i)(j := v))"

text \<open>
  A \<^verbatim>\<open>for\<close> loop over the indices \<open>is\<close> whose body may fail: the first failure leaves the
  loop, as \<^verbatim>\<open>class_test\<close> and \<^verbatim>\<open>class_call\<close> return from the function.
\<close>

fun for_loop :: "nat list \<Rightarrow> (nat \<Rightarrow> 's \<Rightarrow> error + 's) \<Rightarrow> 's \<Rightarrow> error + 's" where
  "for_loop [] body s = Inr s"
| "for_loop (i # is) body s =
     (case body i s of Inl e \<Rightarrow> Inl e | Inr s' \<Rightarrow> for_loop is body s')"

subsection \<open>The analytic spectrum\<close>

text \<open>
  \<^verbatim>\<open>primordial_analytic_spectrum\<close> always returns \<^verbatim>\<open>_SUCCESS_\<close>; the model returns the
  value written to \<^verbatim>\<open>*pk\<close>.
\<close>

definition primordial_analytic_spectrum :: "primordial \<Rightarrow> nat \<Rightarrow> nat \<Rightarrow> real \<Rightarrow> real" where
  "primordial_analytic_spectrum ppm index_md index_ic1_ic2 k =
     (if is_non_zero ppm index_md index_ic1_ic2 then
        amplitude ppm index_md index_ic1_ic2
          * exp ((tilt ppm index_md index_ic1_ic2 - 1) * ln (k / k_pivot ppm)
                 + 0.5 * running ppm index_md index_ic1_ic2 * (ln (k / k_pivot ppm)) ^ 2)
      else 0)"

text \<open>
  The locals of \<^verbatim>\<open>primordial_analytic_spectrum_init\<close>. They are set to 0 once, at the
  top of the function, and keep their value from one loop pass to the next.
\<close>

record analytic_locals =
  one_amplitude :: real
  one_tilt :: real
  one_running :: real
  one_correlation :: real

text \<open>The chain of \<^verbatim>\<open>if\<close> statements of the diagonal loop (one pass, for \<open>index_ic1\<close>).\<close>

definition analytic_diag_select ::
  "perturbs \<Rightarrow> primordial \<Rightarrow> nat \<Rightarrow> nat \<Rightarrow> analytic_locals \<Rightarrow> analytic_locals" where
  "analytic_diag_select ppt ppm index_md index_ic1 l0 =
     (let l1 = (if scalars_md ppt index_md \<and> has_ad ppt \<and> index_ic1 = index_ic_ad ppt
                then l0\<lparr>one_amplitude := A_s ppm, one_tilt := n_s ppm, one_running := alpha_s ppm\<rparr>
                else l0);
          l2 = (if scalars_md ppt index_md \<and> has_bi ppt \<and> index_ic1 = index_ic_bi ppt
                then l1\<lparr>one_amplitude := A_s ppm * f_bi ppm * f_bi ppm, one_tilt := n_bi ppm, one_running := alpha_bi ppm\<rparr>
                else l1);
          l3 = (if scalars_md ppt index_md \<and> has_cdi ppt \<and> index_ic1 = index_ic_cdi ppt
                then l2\<lparr>one_amplitude := A_s ppm * f_cdi ppm * f_cdi ppm, one_tilt := n_cdi ppm, one_running := alpha_cdi ppm\<rparr>
                else l2);
          l4 = (if scalars_md ppt index_md \<and> has_nid ppt \<and> index_ic1 = index_ic_nid ppt
                then l3\<lparr>one_amplitude := A_s ppm * f_nid ppm * f_nid ppm, one_tilt := n_nid ppm, one_running := alpha_nid ppm\<rparr>
                else l3);
          l5 = (if scalars_md ppt index_md \<and> has_niv ppt \<and> index_ic1 = index_ic_niv ppt
                then l4\<lparr>one_amplitude := A_s ppm * f_niv ppm * f_niv ppm, one_tilt := n_niv ppm, one_running := alpha_niv ppm\<rparr>
                else l4);
          l6 = (if tensors_md ppt index_md \<and> index_ic1 = index_ic_ten ppt
                then l5\<lparr>one_amplitude := A_s ppm * r ppm, one_tilt := n_t ppm + 1,
                        one_running := alpha_t ppm\<rparr>
                else l5)
      in l6)"

definition analytic_diag_body ::
  "perturbs \<Rightarrow> nat \<Rightarrow> nat \<Rightarrow> analytic_locals \<times> primordial \<Rightarrow> error + analytic_locals \<times> primordial" where
  "analytic_diag_body ppt index_md index_ic1 s =
     (let ppm = snd s;
          l = analytic_diag_select ppt ppm index_md index_ic1 (fst s)
      in if one_amplitude l \<le> 0 then Inl Inconsistent_amplitude
         else
           (let index_ic1_ic2 = index_symmetric_matrix index_ic1 index_ic1 (ic_size ppm index_md)
            in Inr (l, ppm\<lparr>is_non_zero := upd2 (is_non_zero ppm) index_md index_ic1_ic2 True,
                           amplitude := upd2 (amplitude ppm) index_md index_ic1_ic2 (one_amplitude l),
                           tilt := upd2 (tilt ppm) index_md index_ic1_ic2 (one_tilt l),
                           running := upd2 (running ppm) index_md index_ic1_ic2 (one_running l)\<rparr>)))"

text \<open>
  The chain of \<^verbatim>\<open>if\<close> statements of the off-diagonal loop (one pass, for the pair
  \<open>index_ic1 < index_ic2\<close>). The second alternative of the first test compares
  \<open>index_ic1\<close> twice, as the source does.
\<close>

definition analytic_cross_select ::
  "perturbs \<Rightarrow> primordial \<Rightarrow> nat \<Rightarrow> nat \<Rightarrow> nat \<Rightarrow> analytic_locals \<Rightarrow> analytic_locals" where
  "analytic_cross_select ppt ppm index_md index_ic1 index_ic2 l0 =
     (let l1 = (if scalars_md ppt index_md \<and> has_ad ppt \<and> has_bi ppt \<and>
                   ((index_ic1 = index_ic_ad ppt \<and> index_ic2 = index_ic_bi ppt) \<or>
                    (index_ic1 = index_ic_ad ppt \<and> index_ic1 = index_ic_bi ppt))
                then l0\<lparr>one_tilt := n_ad_bi ppm, one_running := alpha_ad_bi ppm,
                        one_correlation := c_ad_bi ppm\<rparr>
                else l0);
          l2 = (if scalars_md ppt index_md \<and> has_ad ppt \<and> has_cdi ppt \<and>
                   ((index_ic1 = index_ic_ad ppt \<and> index_ic2 = index_ic_cdi ppt) \<or>
                    (index_ic2 = index_ic_ad ppt \<and> index_ic1 = index_ic_cdi ppt))
                then l1\<lparr>one_tilt := n_ad_cdi ppm, one_running := alpha_ad_cdi ppm,
                        one_correlation := c_ad_cdi ppm\<rparr>
                else l1);
          l3 = (if scalars_md ppt index_md \<and> has_ad ppt \<and> has_nid ppt \<and>
                   ((index_ic1 = index_ic_ad ppt \<and> index_ic2 = index_ic_nid ppt) \<or>
                    (index_ic2 = index_ic_ad ppt \<and> index_ic1 = index_ic_nid ppt))
                then l2\<lparr>one_tilt := n_ad_nid ppm, one_running := alpha_ad_nid ppm,
                        one_correlation := c_ad_nid ppm\<rparr>
                else l2);
          l4 = (if scalars_md ppt index_md \<and> has_ad ppt \<and> has_niv ppt \<and>
                   ((index_ic1 = index_ic_ad ppt \<and> index_ic2 = index_ic_niv ppt) \<or>
                    (index_ic2 = index_ic_ad ppt \<and> index_ic1 = index_ic_niv ppt))
                then l3\<lparr>one_tilt := n_ad_niv ppm, one_running := alpha_ad_niv ppm,
                        one_correlation := c_ad_niv ppm\<rparr>
                else l3);
          l5 = (if scalars_md ppt index_md \<and> has_bi ppt \<and> has_cdi ppt \<and>
                   ((index_ic1 = index_ic_bi ppt \<and> index_ic2 = index_ic_cdi ppt) \<or>
                    (index_ic2 = index_ic_bi ppt \<and> index_ic1 = index_ic_cdi ppt))
                then l4\<lparr>one_tilt := n_bi_cdi ppm, one_running := alpha_bi_cdi ppm,
                        one_correlation := c_bi_cdi ppm\<rparr>
                else l4);
          l6 = (if scalars_md ppt index_md \<and> has_bi ppt \<and> has_nid ppt \<and>
                   ((index_ic1 = index_ic_bi ppt \<and> index_ic2 = index_ic_nid ppt) \<or>
                    (index_ic2 = index_ic_bi ppt \<and> index_ic1 = index_ic_nid ppt))
                then l5\<lparr>one_tilt := n_bi_nid ppm, one_running := alpha_bi_nid ppm,
                        one_correlation := c_bi_nid ppm\<rparr>
                else l5);
          l7 = (if scalars_md ppt index_md \<and> has_bi ppt \<and> has_niv ppt \<and>
                   ((index_ic1 = index_ic_bi ppt \<and> index_ic2 = index_ic_niv ppt) \<or>
                    (index_ic2 = index_ic_bi ppt \<and> index_ic1 = index_ic_niv ppt))
                then l6\<lparr>one_tilt := n_bi_niv ppm, one_running := alpha_bi_niv ppm,
                        one_correlation := c_bi_niv ppm\<rparr>
                else l6);
          l8 = (if scalars_md ppt index_md \<and> has_cdi ppt \<and> has_nid ppt \<and>
                   ((index_ic1 = index_ic_cdi ppt \<and> index_ic2 = index_ic_nid ppt) \<or>
                    (index_ic2 = index_ic_cdi ppt \<and> index_ic1 = index_ic_nid ppt))
                then l7\<lparr>one_tilt := n_cdi_nid ppm, one_running := alpha_cdi_nid ppm,
                        one_correlation := c_cdi_nid ppm\<rparr>
                else l7);
          l9 = (if scalars_md ppt index_md \<and> has_cdi ppt \<and> has_niv ppt \<and>
                   ((index_ic1 = index_ic_cdi ppt \<and> index_ic2 = index_ic_niv ppt) \<or>
                    (index_ic2 = index_ic_cdi ppt \<and> index_ic1 = index_ic_niv ppt))
                then l8\<lparr>one_tilt := n_cdi_niv ppm, one_running := alpha_cdi_niv ppm,
                        one_correlation := c_cdi_niv ppm\<rparr>
                else l8);
          l10 = (if scalars_md ppt index_md \<and> has_nid ppt \<and> has_niv ppt \<and>
                   ((index_ic1 = index_ic_nid ppt \<and> index_ic2 = index_ic_niv ppt) \<or>
                    (index_ic2 = index_ic_nid ppt \<and> index_ic1 = index_ic_niv ppt))
                then l9\<lparr>one_tilt := n_nid_niv ppm, one_running := alpha_nid_niv ppm,
                        one_correlation := c_nid_niv ppm\<rparr>
                else l9)
      in l10)"

text \<open>The rest of one pass of the off-diagonal loop: the range test and the stores.\<close>

definition analytic_cross_store ::
  "nat \<Rightarrow> nat \<Rightarrow> nat \<Rightarrow> analytic_locals \<Rightarrow> primordial \<Rightarrow> error + primordial" where
  "analytic_cross_store index_md index_ic1 index_ic2 l ppm =
     (if one_correlation l < - 1 \<or> one_correlation l > 1 then Inl Inconsistent_correlation
      else
        (let index_ic1_ic2 = index_symmetric_matrix index_ic1 index_ic2 (ic_size ppm index_md);
             index_ic1_ic1 = index_symmetric_matrix index_ic1 index_ic1 (ic_size ppm index_md);
             index_ic2_ic2 = index_symmetric_matrix index_ic2 index_ic2 (ic_size ppm index_md)
         in if one_correlation l = 0 then
              Inr (ppm\<lparr>is_non_zero := upd2 (is_non_zero ppm) index_md index_ic1_ic2 False,
                       amplitude := upd2 (amplitude ppm) index_md index_ic1_ic2 0,
                       tilt := upd2 (tilt ppm) index_md index_ic1_ic2 0,
                       running := upd2 (running ppm) index_md index_ic1_ic2 0\<rparr>)
            else
              Inr (ppm\<lparr>is_non_zero := upd2 (is_non_zero ppm) index_md index_ic1_ic2 True,
                       amplitude := upd2 (amplitude ppm) index_md index_ic1_ic2
                         (sqrt (amplitude ppm index_md index_ic1_ic1
                                * amplitude ppm index_md index_ic2_ic2)
                          * one_correlation l),
                       tilt := upd2 (tilt ppm) index_md index_ic1_ic2
                         (0.5 * (tilt ppm index_md index_ic1_ic1 + tilt ppm index_md index_ic2_ic2)
                          + one_tilt l),
                       running := upd2 (running ppm) index_md index_ic1_ic2
                         (0.5 * (running ppm index_md index_ic1_ic1
                                 + running ppm index_md index_ic2_ic2)
                          + one_running l)\<rparr>)))"

definition analytic_cross_body ::
  "perturbs \<Rightarrow> nat \<Rightarrow> nat \<Rightarrow> nat \<Rightarrow> analytic_locals \<times> primordial
     \<Rightarrow> error + analytic_locals \<times> primordial" where
  "analytic_cross_body ppt index_md index_ic1 index_ic2 s =
     (let l = analytic_cross_select ppt (snd s) index_md index_ic1 index_ic2 (fst s)
      in case analytic_cross_store index_md index_ic1 index_ic2 l (snd s) of
           Inl e \<Rightarrow> Inl e
         | Inr ppm \<Rightarrow> Inr (l, ppm))"

text \<open>One pass of the loop over modes: the diagonal loop, then the off-diagonal one.\<close>

definition analytic_md_body ::
  "perturbs \<Rightarrow> nat \<Rightarrow> analytic_locals \<times> primordial \<Rightarrow> error + analytic_locals \<times> primordial" where
  "analytic_md_body ppt index_md s =
     (case for_loop [0..<ic_size (snd s) index_md] (analytic_diag_body ppt index_md) s of
        Inl e \<Rightarrow> Inl e
      | Inr s1 \<Rightarrow>
          for_loop [0..<ic_size (snd s) index_md]
            (\<lambda>index_ic1. for_loop [index_ic1 + 1..<ic_size (snd s) index_md]
                            (analytic_cross_body ppt index_md index_ic1)) s1)"

definition primordial_analytic_spectrum_init :: "perturbs \<Rightarrow> primordial \<Rightarrow> error + primordial" where
  "primordial_analytic_spectrum_init ppt ppm =
     (case for_loop [0..<md_size ppm] (analytic_md_body ppt)
             (\<lparr>one_amplitude = 0, one_tilt = 0, one_running = 0, one_correlation = 0\<rparr>, ppm) of
        Inl e \<Rightarrow> Inl e
      | Inr s \<Rightarrow> Inr (snd s))"

subsection \<open>The table of the analytic spectrum (primordial\_init)\<close>

text \<open>
  The body of the innermost loop of the analytic branch of \<^verbatim>\<open>primordial_init\<close>: the
  cell of \<^verbatim>\<open>lnpk\<close> for the sample \<open>index_k\<close> (wavenumber \<open>k\<close>) and the pair
  \<open>index_ic1 \<le> index_ic2\<close> of the mode \<open>index_md\<close>.
\<close>

definition init_table_cell ::
  "nat \<Rightarrow> real \<Rightarrow> nat \<Rightarrow> nat \<Rightarrow> nat \<Rightarrow> primordial \<Rightarrow> primordial" where
  "init_table_cell index_k k index_md index_ic1 index_ic2 ppm =
     (let N = ic_size ppm index_md;
          index_ic1_ic2 = index_symmetric_matrix index_ic1 index_ic2 N;
          cell = index_k * ic_ic_size ppm index_md + index_ic1_ic2
      in if is_non_zero ppm index_md index_ic1_ic2 then
           (let pk = primordial_analytic_spectrum ppm index_md index_ic1_ic2 k
            in if index_ic1 = index_ic2 then
                 ppm\<lparr>lnpk := upd2 (lnpk ppm) index_md cell (ln pk)\<rparr>
               else
                 (let pk1 = primordial_analytic_spectrum ppm index_md
                              (index_symmetric_matrix index_ic1 index_ic1 N) k;
                      pk2 = primordial_analytic_spectrum ppm index_md
                              (index_symmetric_matrix index_ic2 index_ic2 N) k
                  in if pk > sqrt (pk1 * pk2) then
                       ppm\<lparr>lnpk := upd2 (lnpk ppm) index_md cell 1\<rparr>
                     else if pk < - sqrt (pk1 * pk2) then
                       ppm\<lparr>lnpk := upd2 (lnpk ppm) index_md cell (- 1)\<rparr>
                     else
                       ppm\<lparr>lnpk := upd2 (lnpk ppm) index_md cell (pk / sqrt (pk1 * pk2))\<rparr>))
         else ppm\<lparr>lnpk := upd2 (lnpk ppm) index_md cell 0\<rparr>)"

text \<open>
  The four nested loops that fill the table, run after
  \<^verbatim>\<open>primordial_analytic_spectrum_init\<close> has succeeded.
\<close>

definition primordial_init_analytic_table :: "primordial \<Rightarrow> primordial" where
  "primordial_init_analytic_table ppm0 =
     fold (\<lambda>index_k.
        fold (\<lambda>index_md ppm.
           fold (\<lambda>index_ic1.
              fold (\<lambda>index_ic2. init_table_cell index_k (exp (lnk ppm0 ! index_k))
                                   index_md index_ic1 index_ic2)
                [index_ic1..<ic_size ppm index_md])
             [0..<ic_size ppm index_md] ppm)
          [0..<md_size ppm0])
       [0..<length (lnk ppm0)] ppm0"

subsection \<open>Reading the spectrum (primordial\_spectrum\_at\_k)\<close>

text \<open>
  The caller's array \<^verbatim>\<open>output\<close> is a store from the packed pair index to a value. The
  function returns its status (\<open>None\<close> for \<^verbatim>\<open>_SUCCESS_\<close>) together with the array as it
  stands on return, so that what an error leaves behind can be stated.
\<close>

type_synonym output_array = "nat \<Rightarrow> real"

text \<open>
  \<^verbatim>\<open>array_interpolate_spline\<close> belongs to the array utilities, outside primordial.c. It
  is a parameter of the model: from the abscissas \<open>lnk\<close>, the table and its second
  derivatives for the mode, the number of columns, the point and the caller's array it
  gives a status and the array it has written.
\<close>

type_synonym interpolate_spline =
  "real list \<Rightarrow> (nat \<Rightarrow> real) \<Rightarrow> (nat \<Rightarrow> real) \<Rightarrow> nat \<Rightarrow> real \<Rightarrow> output_array
     \<Rightarrow> error option \<times> output_array"

text \<open>The direct computation outside the table: both loops over \<open>index_ic1 \<le> index_ic2\<close>.\<close>

definition at_k_direct :: "primordial \<Rightarrow> nat \<Rightarrow> real \<Rightarrow> output_array \<Rightarrow> output_array" where
  "at_k_direct ppm index_md lnk_in output =
     fold (\<lambda>index_ic1.
        fold (\<lambda>index_ic2 out.
           (let index_ic1_ic2 =
                  index_symmetric_matrix index_ic1 index_ic2 (ic_size ppm index_md)
            in if is_non_zero ppm index_md index_ic1_ic2 then
                 out(index_ic1_ic2 :=
                       primordial_analytic_spectrum ppm index_md index_ic1_ic2 (exp lnk_in))
               else out(index_ic1_ic2 := 0)))
          [index_ic1..<ic_size ppm index_md])
       [0..<ic_size ppm index_md] output"

text \<open>Logarithmic mode after the direct computation: the diagonal loop, then the pairs.\<close>

definition at_k_log_diag :: "primordial \<Rightarrow> nat \<Rightarrow> output_array \<Rightarrow> output_array" where
  "at_k_log_diag ppm index_md output =
     fold (\<lambda>index_ic1 out.
        (let index_ic1_ic2 =
               index_symmetric_matrix index_ic1 index_ic1 (ic_size ppm index_md)
         in out(index_ic1_ic2 := ln (out index_ic1_ic2))))
       [0..<ic_size ppm index_md] output"

definition at_k_log_cross :: "primordial \<Rightarrow> nat \<Rightarrow> output_array \<Rightarrow> output_array" where
  "at_k_log_cross ppm index_md output =
     fold (\<lambda>index_ic1.
        fold (\<lambda>index_ic2 out.
           (let N = ic_size ppm index_md;
                index_ic1_ic2 = index_symmetric_matrix index_ic1 index_ic2 N
            in if is_non_zero ppm index_md index_ic1_ic2 then
                 out(index_ic1_ic2 :=
                       out index_ic1_ic2
                         / sqrt (out (index_symmetric_matrix index_ic1 index_ic1 N)
                                 * out (index_symmetric_matrix index_ic2 index_ic2 N)))
               else out))
          [index_ic1 + 1..<ic_size ppm index_md])
       [0..<ic_size ppm index_md] output"

text \<open>Linear mode after the interpolation: the diagonal loop, then the pairs.\<close>

definition at_k_exp_diag :: "primordial \<Rightarrow> nat \<Rightarrow> output_array \<Rightarrow> output_array" where
  "at_k_exp_diag ppm index_md output =
     fold (\<lambda>index_ic1 out.
        (let index_ic1_ic2 =
               index_symmetric_matrix index_ic1 index_ic1 (ic_size ppm index_md)
         in out(index_ic1_ic2 := exp (out index_ic1_ic2))))
       [0..<ic_size ppm index_md] output"

definition at_k_lin_cross :: "primordial \<Rightarrow> nat \<Rightarrow> output_array \<Rightarrow> output_array" where
  "at_k_lin_cross ppm index_md output =
     fold (\<lambda>index_ic1.
        fold (\<lambda>index_ic2 out.
           (let N = ic_size ppm index_md;
                index_ic1_ic2 = index_symmetric_matrix index_ic1 index_ic2 N
            in if is_non_zero ppm index_md index_ic1_ic2 then
                 out(index_ic1_ic2 :=
                       out index_ic1_ic2
                         * sqrt (out (index_symmetric_matrix index_ic1 index_ic1 N)
                                 * out (index_symmetric_matrix index_ic2 index_ic2 N)))
               else out(index_ic1_ic2 := 0)))
          [index_ic1 + 1..<ic_size ppm index_md])
       [0..<ic_size ppm index_md] output"

text \<open>
  The part of \<^verbatim>\<open>primordial_spectrum_at_k\<close> after \<open>lnk\<close> has been inferred from the
  input. With an empty table the source would read \<^verbatim>\<open>lnk[-1]\<close>, which C leaves
  undefined; the model answers \<open>Lnk_table_empty\<close> there.
\<close>

definition spectrum_at_lnk ::
  "interpolate_spline \<Rightarrow> primordial \<Rightarrow> nat \<Rightarrow> linear_or_logarithmic \<Rightarrow> real \<Rightarrow> output_array
     \<Rightarrow> error option \<times> output_array" where
  "spectrum_at_lnk array_interpolate_spline ppm index_md mode lnk_in output =
     (if lnk ppm = [] then (Some Lnk_table_empty, output)
      else if lnk_in > lnk ppm ! (length (lnk ppm) - 1) \<or> lnk_in < lnk ppm ! 0 then
        (if primordial_spec_type ppm \<noteq> analytic_Pk then (Some K_out_of_range, output)
         else
           (let out1 = at_k_direct ppm index_md lnk_in output
            in if mode = logarithmic then
                 (None, at_k_log_cross ppm index_md (at_k_log_diag ppm index_md out1))
               else (None, out1)))
      else
        (case array_interpolate_spline (lnk ppm) (lnpk ppm index_md) (ddlnpk ppm index_md)
                (ic_ic_size ppm index_md) lnk_in output of
           (Some e, out1) \<Rightarrow> (Some e, out1)
         | (None, out1) \<Rightarrow>
             if mode = linear_mode then
               (None, at_k_lin_cross ppm index_md (at_k_exp_diag ppm index_md out1))
             else (None, out1)))"

definition primordial_spectrum_at_k ::
  "interpolate_spline \<Rightarrow> primordial \<Rightarrow> nat \<Rightarrow> linear_or_logarithmic \<Rightarrow> real \<Rightarrow> output_array
     \<Rightarrow> error option \<times> output_array" where
  "primordial_spectrum_at_k array_interpolate_spline ppm index_md mode input output =
     (if mode = linear_mode then
        (if input \<le> 0 then (Some K_not_positive, output)
         else spectrum_at_lnk array_interpolate_spline ppm index_md mode (ln input) output)
      else spectrum_at_lnk array_interpolate_spline ppm index_md mode input output)"

section \<open>CLASS: the inflation simulator (primordial.c)\<close>

text \<open>
  In this part every \<^verbatim>\<open>double\<close> of the source is a \<^typ>\<open>double\<close>: the arguments and
  locals of the functions, the entries of the vectors, the workspace, and the fields of
  \<^verbatim>\<open>struct primordial\<close> and \<^verbatim>\<open>struct precision\<close> that these functions read. The
  expressions are those of the source, operator for operator, and every test is the
  comparison of the source, so that a NaN or an infinity takes the branch it takes in C.
\<close>

subsection \<open>Potential, Hubble function and slow-roll parameter\<close>

definition primordial_inflation_potential ::
  "primordial \<Rightarrow> double \<Rightarrow> error + double \<times> double \<times> double" where
  "primordial_inflation_potential ppm phi =
     (case potential ppm of
        polynomial \<Rightarrow>
          Inr (V0 ppm + (phi - phi_pivot ppm) * V1 ppm + pow (phi - phi_pivot ppm) 2 / 2 * V2 ppm
                 + pow (phi - phi_pivot ppm) 3 / 6 * V3 ppm
                 + pow (phi - phi_pivot ppm) 4 / 24 * V4 ppm,
               V1 ppm + (phi - phi_pivot ppm) * V2 ppm + pow (phi - phi_pivot ppm) 2 / 2 * V3 ppm
                 + pow (phi - phi_pivot ppm) 3 / 6 * V4 ppm,
               V2 ppm + (phi - phi_pivot ppm) * V3 ppm + pow (phi - phi_pivot ppm) 2 / 2 * V4 ppm)
      | natural \<Rightarrow>
          Inr (V0 ppm * (1 + cos_double (phi / V1 ppm)),
               - V0 ppm / V1 ppm * sin_double (phi / V1 ppm),
               - V0 ppm / V1 ppm / V1 ppm * cos_double (phi / V1 ppm))
      | other_shape \<Rightarrow> Inl Unknown_potential)"

definition primordial_inflation_hubble ::
  "primordial \<Rightarrow> double \<Rightarrow> double \<times> double \<times> double \<times> double" where
  "primordial_inflation_hubble ppm phi =
     (H0 ppm + phi * H1 ppm + pow phi 2 / 2 * H2 ppm + pow phi 3 / 6 * H3 ppm
        + pow phi 4 / 24 * H4 ppm,
      H1 ppm + phi * H2 ppm + pow phi 2 / 2 * H3 ppm + pow phi 3 / 6 * H4 ppm,
      H2 ppm + phi * H3 ppm + pow phi 2 / 2 * H4 ppm,
      H3 ppm + phi * H4 ppm)"

text \<open>
  The two checks compare with \<^verbatim>\<open><=\<close> and \<^verbatim>\<open>>=\<close> (\<^verbatim>\<open><\<close> and \<^verbatim>\<open>>\<close> for \<open>H\<close>): a NaN passes
  them.
\<close>

definition primordial_inflation_check_potential ::
  "primordial \<Rightarrow> double \<Rightarrow> error + double \<times> double \<times> double" where
  "primordial_inflation_check_potential ppm phi =
     (case primordial_inflation_potential ppm phi of
        Inl e \<Rightarrow> Inl e
      | Inr (V, dV, ddV) \<Rightarrow>
          if V \<le> 0 then Inl Potential_not_positive
          else if dV \<ge> 0 then Inl Potential_slope_not_negative
          else Inr (V, dV, ddV))"

definition primordial_inflation_check_hubble ::
  "primordial \<Rightarrow> double \<Rightarrow> error + double \<times> double \<times> double \<times> double" where
  "primordial_inflation_check_hubble ppm phi =
     (case primordial_inflation_hubble ppm phi of
        (H, dH, ddH, dddH) \<Rightarrow>
          if H < 0 then Inl Hubble_negative
          else if dH > 0 then Inl Hubble_slope_positive
          else Inr (H, dH, ddH, dddH))"

text \<open>
  The slow-roll parameter. Where \<open>V\<close> (or \<open>H\<close>) is zero the quotient is an infinity or a
  NaN, and so is \<open>epsilon\<close>.
\<close>

definition primordial_inflation_get_epsilon :: "primordial \<Rightarrow> double \<Rightarrow> error + double" where
  "primordial_inflation_get_epsilon ppm phi =
     (case primordial_spec_type ppm of
        inflation_V \<Rightarrow>
          (case primordial_inflation_potential ppm phi of
             Inl e \<Rightarrow> Inl e
           | Inr (V, dV, ddV) \<Rightarrow> Inr (1 / 16 / Fin pi * pow (dV / V) 2))
      | inflation_V_end \<Rightarrow>
          (case primordial_inflation_potential ppm phi of
             Inl e \<Rightarrow> Inl e
           | Inr (V, dV, ddV) \<Rightarrow> Inr (1 / 16 / Fin pi * pow (dV / V) 2))
      | inflation_H \<Rightarrow>
          (case primordial_inflation_hubble ppm phi of
             (H, dH, ddH, dddH) \<Rightarrow> Inr (1 / 4 / Fin pi * pow (dH / H) 2))
      | analytic_Pk \<Rightarrow> Inl Bad_spec_type
      | external_Pk \<Rightarrow> Inl Bad_spec_type)"

subsection \<open>Indices of the state vector\<close>

definition primordial_inflation_indices :: "primordial \<Rightarrow> primordial" where
  "primordial_inflation_indices ppm0 =
     (let index_in = 0;
          ppm1 = ppm0\<lparr>index_in_a := index_in\<rparr>;
          index_in = index_in + 1;
          ppm2 = ppm1\<lparr>index_in_phi := index_in\<rparr>;
          index_in = index_in + 1;
          ppm3 = (if primordial_spec_type ppm2 = inflation_V
                     \<or> primordial_spec_type ppm2 = inflation_V_end
                  then ppm2\<lparr>index_in_dphi := index_in\<rparr> else ppm2);
          index_in = (if primordial_spec_type ppm2 = inflation_V
                         \<or> primordial_spec_type ppm2 = inflation_V_end
                      then index_in + 1 else index_in)
      in ppm3\<lparr>in_bg_size := index_in,
              index_in_ksi_re := index_in, index_in_ksi_im := index_in + 1,
              index_in_dksi_re := index_in + 2, index_in_dksi_im := index_in + 3,
              index_in_ah_re := index_in + 4, index_in_ah_im := index_in + 5,
              index_in_dah_re := index_in + 6, index_in_dah_im := index_in + 7,
              in_size := index_in + 8\<rparr>)"

subsection \<open>The derivative function\<close>

text \<open>
  The vectors \<^verbatim>\<open>y\<close> and \<^verbatim>\<open>dy\<close> are stores from index to value, like the other arrays.
  \<^verbatim>\<open>struct primordial_inflation_parameters_and_workspace\<close> becomes the record
  \<open>pipaw\<close>; its fields carry the prefix \<open>pw_\<close> (the source calls them \<^verbatim>\<open>N\<close>,
  \<^verbatim>\<open>integrate\<close>, \<^verbatim>\<open>time\<close>, \<^verbatim>\<open>k\<close>, \<^verbatim>\<open>a2\<close>, \<^verbatim>\<open>V\<close>, ...), and its pointer \<^verbatim>\<open>ppm\<close> is
  the first argument of the functions that use it. The workspace fields, which the
  source leaves uninitialised, start at 0; they are written before they are read.
\<close>

type_synonym vector = "nat \<Rightarrow> double"

record pipaw =
  pw_N :: int
  pw_integrate :: integration_direction
  pw_time :: time_definition
  pw_k :: double
  pw_a2 :: double
  pw_V :: double
  pw_dV :: double
  pw_ddV :: double
  pw_aH :: double
  pw_H :: double
  pw_dH :: double
  pw_ddH :: double
  pw_dddH :: double
  pw_zpp_over_z :: double
  pw_app_over_a :: double

definition pipaw_new :: "int \<Rightarrow> integration_direction \<Rightarrow> time_definition \<Rightarrow> double \<Rightarrow> pipaw" where
  "pipaw_new N direction time k =
     \<lparr>pw_N = N, pw_integrate = direction, pw_time = time, pw_k = k, pw_a2 = 0, pw_V = 0,
      pw_dV = 0, pw_ddV = 0, pw_aH = 0, pw_H = 0, pw_dH = 0, pw_ddH = 0, pw_dddH = 0,
      pw_zpp_over_z = 0, pw_app_over_a = 0\<rparr>"

text \<open>The background part of \<^verbatim>\<open>primordial_inflation_derivs\<close>: the outer switch.\<close>

definition derivs_background ::
  "primordial \<Rightarrow> vector \<Rightarrow> vector \<Rightarrow> pipaw \<Rightarrow> error + vector \<times> pipaw" where
  "derivs_background ppm y dy pw0 =
     (let pw1 = pw0\<lparr>pw_a2 := y (index_in_a ppm) * y (index_in_a ppm)\<rparr>
      in if primordial_spec_type ppm = inflation_V \<or> primordial_spec_type ppm = inflation_V_end
         then
           (case primordial_inflation_potential ppm (y (index_in_phi ppm)) of
              Inl e \<Rightarrow> Inl e
            | Inr (V, dV, ddV) \<Rightarrow>
                (let pw2 = pw1\<lparr>pw_V := V, pw_dV := dV, pw_ddV := ddV\<rparr>
                 in case pw_integrate pw2 of
                      forward \<Rightarrow>
                        (let aH = sqrt_double ((8 * Fin pi / 3)
                                     * (0.5 * y (index_in_dphi ppm) * y (index_in_dphi ppm)
                                        + pw_a2 pw2 * pw_V pw2));
                             pw3 = pw2\<lparr>pw_aH := aH\<rparr>;
                             dy1 = dy(index_in_a ppm := y (index_in_a ppm) * pw_aH pw3);
                             dy2 = dy1(index_in_phi ppm := y (index_in_dphi ppm));
                             dy3 = dy2(index_in_dphi ppm :=
                                     - 2 * pw_aH pw3 * y (index_in_dphi ppm)
                                     - pw_a2 pw3 * pw_dV pw3);
                             pw4 = pw3\<lparr>pw_zpp_over_z :=
                                     2 * pw_aH pw3 * pw_aH pw3
                                     - pw_a2 pw3 * pw_ddV pw3
                                     - 4 * Fin pi
                                       * (7 * y (index_in_dphi ppm) * y (index_in_dphi ppm)
                                          + 4 * y (index_in_dphi ppm) / pw_aH pw3
                                            * pw_a2 pw3 * pw_dV pw3)
                                     + 32 * Fin pi * Fin pi * pow (y (index_in_dphi ppm)) 4
                                       / pow (pw_aH pw3) 2\<rparr>;
                             pw5 = pw4\<lparr>pw_app_over_a :=
                                     2 * pw_aH pw4 * pw_aH pw4
                                     - 4 * Fin pi * y (index_in_dphi ppm)
                                       * y (index_in_dphi ppm)\<rparr>
                         in Inr (dy3, pw5))
                    | backward \<Rightarrow>
                        (let aH = sqrt_double ((8 * Fin pi / 3) * pw_a2 pw2 * pw_V pw2);
                             pw3 = pw2\<lparr>pw_aH := aH\<rparr>;
                             dy1 = dy(index_in_a ppm := y (index_in_a ppm) * pw_aH pw3);
                             dy2 = dy1(index_in_phi ppm :=
                                     - pw_a2 pw3 * pw_dV pw3 / 3 / pw_aH pw3)
                         in Inr (dy2, pw3))))
         else if primordial_spec_type ppm = inflation_H then
           (case primordial_inflation_hubble ppm (y (index_in_phi ppm)) of
              (H, dH, ddH, dddH) \<Rightarrow>
                (let pw2 = pw1\<lparr>pw_H := H, pw_dH := dH, pw_ddH := ddH, pw_dddH := dddH\<rparr>;
                     dy1 = dy(index_in_a ppm := pw_a2 pw2 * pw_H pw2);
                     dy2 = dy1(index_in_phi ppm :=
                             - 1 / 4 / Fin pi * y (index_in_a ppm) * pw_dH pw2);
                     pw3 = pw2\<lparr>pw_zpp_over_z :=
                             2 * pw_a2 pw2 * pw_H pw2 * pw_H pw2
                             - 3 / 4 / Fin pi * pw_a2 pw2 * pw_H pw2 * pw_ddH pw2
                             + 1 / 16 / Fin pi / Fin pi * pw_a2 pw2 * pw_ddH pw2 * pw_ddH pw2
                             + 1 / 16 / Fin pi / Fin pi * pw_a2 pw2 * pw_dH pw2 * pw_dddH pw2
                             - 1 / 4 / Fin pi / Fin pi * pw_a2 pw2 * pw_dH pw2 * pw_dH pw2
                               * pw_ddH pw2 / pw_H pw2
                             + 1 / 2 / Fin pi * pw_a2 pw2 * pw_dH pw2 * pw_dH pw2
                             + 1 / 8 / Fin pi / Fin pi * pw_a2 pw2 * pw_dH pw2 * pw_dH pw2
                               * pw_dH pw2 * pw_dH pw2 / pw_H pw2 / pw_H pw2\<rparr>;
                     pw4 = pw3\<lparr>pw_app_over_a :=
                             2 * pw_a2 pw3 * pw_H pw3 * pw_H pw3
                             - 4 * Fin pi * dy2 (index_in_phi ppm) * dy2 (index_in_phi ppm)\<rparr>
                 in Inr (dy2, pw4)))
         else Inl Bad_spec_type)"

text \<open>The perturbation part: the eight assignments after the test on \<^verbatim>\<open>N\<close>.\<close>

definition derivs_perturbations :: "primordial \<Rightarrow> vector \<Rightarrow> vector \<Rightarrow> pipaw \<Rightarrow> vector" where
  "derivs_perturbations ppm y dy pw =
     (let dy1 = dy(index_in_ksi_re ppm := y (index_in_dksi_re ppm));
          dy2 = dy1(index_in_ksi_im ppm := y (index_in_dksi_im ppm));
          dy3 = dy2(index_in_dksi_re ppm :=
                  - (pw_k pw * pw_k pw - pw_zpp_over_z pw) * y (index_in_ksi_re ppm));
          dy4 = dy3(index_in_dksi_im ppm :=
                  - (pw_k pw * pw_k pw - pw_zpp_over_z pw) * y (index_in_ksi_im ppm));
          dy5 = dy4(index_in_ah_re ppm := y (index_in_dah_re ppm));
          dy6 = dy5(index_in_ah_im ppm := y (index_in_dah_im ppm));
          dy7 = dy6(index_in_dah_re ppm :=
                  - (pw_k pw * pw_k pw - pw_app_over_a pw) * y (index_in_ah_re ppm));
          dy8 = dy7(index_in_dah_im ppm :=
                  - (pw_k pw * pw_k pw - pw_app_over_a pw) * y (index_in_ah_im ppm))
      in dy8)"

definition primordial_inflation_derivs ::
  "primordial \<Rightarrow> double \<Rightarrow> vector \<Rightarrow> vector \<Rightarrow> pipaw \<Rightarrow> error + vector \<times> pipaw" where
  "primordial_inflation_derivs ppm tau y dy pw =
     (case derivs_background ppm y dy pw of
        Inl e \<Rightarrow> Inl e
      | Inr (dy1, pw1) \<Rightarrow>
          if pw_N pw1 \<le> int (in_bg_size ppm) then Inr (dy1, pw1)
          else Inr (derivs_perturbations ppm y dy1 pw1, pw1))"

subsection \<open>The generic integrator and the loops that drive it\<close>

text \<open>
  \<^verbatim>\<open>generic_integrator\<close> is the external ODE service. It is a parameter of the model:
  from the derivative function, the interval, the state, the workspace and the two
  tolerances it gives the advanced state and workspace, or \<open>None\<close> when it reports a
  failure. Starting and cleaning it up only manage memory and are left out.
\<close>

type_synonym derivs_fun = "double \<Rightarrow> vector \<Rightarrow> vector \<Rightarrow> pipaw \<Rightarrow> error + vector \<times> pipaw"

type_synonym generic_integrator =
  "derivs_fun \<Rightarrow> double \<Rightarrow> double \<Rightarrow> vector \<Rightarrow> pipaw \<Rightarrow> double \<Rightarrow> double
     \<Rightarrow> (vector \<times> pipaw) option"

text \<open>
  What the simulator relies on from the integrator: asked for a system of \<open>N\<close>
  equations, it leaves \<open>N\<close> as it is and writes only the first \<open>N\<close> components.
\<close>

definition integrator_frame :: "generic_integrator \<Rightarrow> bool" where
  "integrator_frame gi \<longleftrightarrow>
     (\<forall>f t0 t1 y pw tol minv y1 pw1.
        gi f t0 t1 y pw tol minv = Some (y1, pw1) \<longrightarrow>
        pw_N pw1 = pw_N pw \<and> (\<forall>i. pw_N pw \<le> int i \<longrightarrow> y1 i = y i))"

text \<open>
  A \<^verbatim>\<open>while\<close> loop that may run forever, with fuel: \<open>None\<close> says that the loop wanted
  one more pass than the fuel allows. The body returns the next state or an error.
\<close>

fun loop_fuel :: "nat \<Rightarrow> ('s \<Rightarrow> bool) \<Rightarrow> ('s \<Rightarrow> error + 's) \<Rightarrow> 's \<Rightarrow> (error + 's) option" where
  "loop_fuel 0 c b s = (if c s then None else Some (Inr s))"
| "loop_fuel (Suc n) c b s =
     (if c s then (case b s of Inl e \<Rightarrow> Some (Inl e) | Inr s' \<Rightarrow> loop_fuel n c b s')
      else Some (Inr s))"

text \<open>
  The state of a loop after \<open>m\<close> passes that all went through: the condition held
  before each pass and the body gave a next state (\<open>passed\<close> keeps the next state of a
  pass and drops an error or a lack of fuel).
\<close>

definition passed :: "(error + 's) option \<Rightarrow> 's option" where
  "passed res = (case res of Some (Inr s) \<Rightarrow> Some s | Some (Inl e) \<Rightarrow> None | None \<Rightarrow> None)"

fun after_passes :: "('s \<Rightarrow> bool) \<Rightarrow> ('s \<Rightarrow> 's option) \<Rightarrow> nat \<Rightarrow> 's \<Rightarrow> 's option" where
  "after_passes c nxt 0 s = Some s"
| "after_passes c nxt (Suc m) s =
     (if c s then (case nxt s of None \<Rightarrow> None | Some s' \<Rightarrow> after_passes c nxt m s') else None)"

text \<open>The fields of \<^verbatim>\<open>struct precision\<close> read by the functions modelled here.\<close>

record precision =
  primordial_inflation_bg_stepsize :: double
  primordial_inflation_tol_integration :: double
  primordial_inflation_attractor_maxit :: int
  smallest_allowed_variation :: double

subsection \<open>primordial\_inflation\_evolve\_background\<close>

text \<open>
  The variables that live across the passes of the loop: the vectors, the workspace, and
  the locals \<^verbatim>\<open>tau_end\<close>, \<^verbatim>\<open>dtau\<close>, \<^verbatim>\<open>aH\<close>, \<^verbatim>\<open>epsilon\<close> and \<^verbatim>\<open>quantity\<close>.
\<close>

record evolve_state =
  es_y :: vector
  es_dy :: vector
  es_pipaw :: pipaw
  es_tau_end :: double
  es_dtau :: double
  es_aH :: double
  es_epsilon :: double
  es_quantity :: double

definition sign_dtau_of :: "integration_direction \<Rightarrow> double" where
  "sign_dtau_of direction = (case direction of forward \<Rightarrow> 1 | backward \<Rightarrow> - 1)"

text \<open>The system size handed to the integrator.\<close>

definition evolve_N :: "primordial \<Rightarrow> integration_direction \<Rightarrow> int" where
  "evolve_N ppm direction =
     (if direction = backward
         \<and> (primordial_spec_type ppm = inflation_V \<or> primordial_spec_type ppm = inflation_V_end)
      then int (in_bg_size ppm) - 1 else int (in_bg_size ppm))"

text \<open>
  The step \<^verbatim>\<open>dtau\<close> and the expected next value \<^verbatim>\<open>quantity\<close>, as computed both before
  the loop and at the end of each pass. With \<open>aH = 0\<close> the quotient \<open>1 / aH\<close> is an
  infinity, and with \<open>dy[dphi] = 0\<close> the second argument of \<^verbatim>\<open>MIN\<close> is an infinity or a NaN.
\<close>

definition evolve_dtau ::
  "primordial \<Rightarrow> precision \<Rightarrow> integration_direction \<Rightarrow> vector \<Rightarrow> vector \<Rightarrow> double \<Rightarrow> double" where
  "evolve_dtau ppm ppr direction y dy aH =
     (if direction = forward
         \<and> (primordial_spec_type ppm = inflation_V \<or> primordial_spec_type ppm = inflation_V_end)
      then primordial_inflation_bg_stepsize ppr
             * macro_MIN (1 / aH) \<bar>y (index_in_dphi ppm) / dy (index_in_dphi ppm)\<bar>
      else sign_dtau_of direction * primordial_inflation_bg_stepsize ppr * (1 / aH))"

definition evolve_quantity ::
  "primordial \<Rightarrow> target_quantity \<Rightarrow> vector \<Rightarrow> vector \<Rightarrow> double \<Rightarrow> double \<Rightarrow> double" where
  "evolve_quantity ppm target y dy aH dtau =
     (case target of
        target_aH \<Rightarrow> aH + aH * aH * dtau
      | target_phi \<Rightarrow> y (index_in_phi ppm) + dy (index_in_phi ppm) * dtau
      | target_end_inflation \<Rightarrow>
          (- aH * aH + 4 * Fin pi * y (index_in_dphi ppm) * y (index_in_dphi ppm))
            / y (index_in_a ppm) / y (index_in_a ppm))"

text \<open>
  The derivatives at the current point, then \<^verbatim>\<open>aH\<close>, \<^verbatim>\<open>dtau\<close> and \<^verbatim>\<open>quantity\<close>: the
  statements shared by the start of the function and the end of each pass.
\<close>

definition evolve_refresh ::
  "primordial \<Rightarrow> precision \<Rightarrow> target_quantity \<Rightarrow> integration_direction \<Rightarrow> double \<Rightarrow> double
     \<Rightarrow> vector \<Rightarrow> vector \<Rightarrow> pipaw \<Rightarrow> error + evolve_state" where
  "evolve_refresh ppm ppr target direction epsilon tau_end y dy pw =
     (case primordial_inflation_derivs ppm tau_end y dy pw of
        Inl e \<Rightarrow> Inl e
      | Inr (dy1, pw1) \<Rightarrow>
          (let aH = dy1 (index_in_a ppm) / y (index_in_a ppm);
               dtau = evolve_dtau ppm ppr direction y dy1 aH;
               quantity = evolve_quantity ppm target y dy1 aH dtau
           in Inr \<lparr>es_y = y, es_dy = dy1, es_pipaw = pw1, es_tau_end = tau_end, es_dtau = dtau,
                   es_aH = aH, es_epsilon = epsilon, es_quantity = quantity\<rparr>))"

text \<open>
  Everything before the loop. Without \<^verbatim>\<open>check_epsilon\<close> the local \<^verbatim>\<open>epsilon\<close> is never
  read; the model gives it the value 0.
\<close>

definition evolve_start ::
  "primordial \<Rightarrow> precision \<Rightarrow> vector \<Rightarrow> vector \<Rightarrow> target_quantity \<Rightarrow> bool
     \<Rightarrow> integration_direction \<Rightarrow> time_definition \<Rightarrow> error + evolve_state" where
  "evolve_start ppm ppr y dy target check_epsilon direction time =
     (let pw = pipaw_new (evolve_N ppm direction) direction time 0
      in case (if check_epsilon then primordial_inflation_get_epsilon ppm (y (index_in_phi ppm))
               else Inr 0) of
           Inl e \<Rightarrow> Inl e
         | Inr epsilon \<Rightarrow>
             (case evolve_refresh ppm ppr target direction epsilon 0 y dy pw of
                Inl e \<Rightarrow> Inl e
              | Inr s \<Rightarrow>
                  if target = target_end_inflation
                     \<and> primordial_spec_type ppm \<noteq> inflation_V_end
                  then Inl End_inflation_needs_V_end
                  else Inr s))"

text \<open>
  The first half of a pass: the check of the potential or of \<open>H\<close>, the new interval,
  the test \<^verbatim>\<open>fabs(dtau/tau_start) < smallest_allowed_variation\<close> and the call of the
  integrator. It gives the advanced vector and workspace and the new \<^verbatim>\<open>tau_end\<close>. In the
  first pass \<^verbatim>\<open>tau_start\<close> is 0: the quotient is an infinity or a NaN and the test fails.
\<close>

definition evolve_advance ::
  "generic_integrator \<Rightarrow> primordial \<Rightarrow> precision \<Rightarrow> evolve_state
     \<Rightarrow> error + vector \<times> pipaw \<times> double" where
  "evolve_advance gi ppm ppr s =
     (case (if primordial_spec_type ppm = inflation_V \<or> primordial_spec_type ppm = inflation_V_end
            then (case primordial_inflation_check_potential ppm (es_y s (index_in_phi ppm)) of
                    Inl e \<Rightarrow> Inl e | Inr _ \<Rightarrow> Inr ())
            else (case primordial_inflation_check_hubble ppm (es_y s (index_in_phi ppm)) of
                    Inl e \<Rightarrow> Inl e | Inr _ \<Rightarrow> Inr ())) of
        Inl e \<Rightarrow> Inl e
      | Inr _ \<Rightarrow>
          (let tau_start = es_tau_end s;
               tau_end = tau_start + es_dtau s
           in if \<bar>es_dtau s / tau_start\<bar> < smallest_allowed_variation ppr
              then Inl Step_too_small
              else
                (case gi (primordial_inflation_derivs ppm) tau_start tau_end (es_y s) (es_pipaw s)
                        (primordial_inflation_tol_integration ppr)
                        (smallest_allowed_variation ppr) of
                   None \<Rightarrow> Inl Integrator_error
                 | Some (y1, pw1) \<Rightarrow> Inr (y1, pw1, tau_end))))"

text \<open>One pass of the loop.\<close>

definition evolve_step ::
  "generic_integrator \<Rightarrow> primordial \<Rightarrow> precision \<Rightarrow> target_quantity \<Rightarrow> bool
     \<Rightarrow> integration_direction \<Rightarrow> evolve_state \<Rightarrow> error + evolve_state" where
  "evolve_step gi ppm ppr target check_epsilon direction s =
     (case evolve_advance gi ppm ppr s of
        Inl e \<Rightarrow> Inl e
      | Inr (y1, pw1, tau_end) \<Rightarrow>
          if check_epsilon then
            (let epsilon_old = es_epsilon s
             in case primordial_inflation_get_epsilon ppm (y1 (index_in_phi ppm)) of
                  Inl e \<Rightarrow> Inl e
                | Inr epsilon \<Rightarrow>
                    if epsilon > 1 \<and> epsilon_old \<le> 1 then Inl Epsilon_crossing
                    else evolve_refresh ppm ppr target direction epsilon tau_end y1 (es_dy s) pw1)
          else evolve_refresh ppm ppr target direction (es_epsilon s) tau_end y1 (es_dy s) pw1)"

definition evolve_cond :: "integration_direction \<Rightarrow> double \<Rightarrow> evolve_state \<Rightarrow> bool" where
  "evolve_cond direction stop s \<longleftrightarrow> sign_dtau_of direction * (es_quantity s - stop) < 0"

text \<open>
  After the loop: the last step by a trapezoidal rule, and the derivatives there. A zero
  denominator in the step gives an infinite or NaN \<^verbatim>\<open>dtau\<close>, which the assignments spread
  over the vector.
\<close>

definition evolve_finish ::
  "primordial \<Rightarrow> target_quantity \<Rightarrow> double \<Rightarrow> integration_direction \<Rightarrow> evolve_state
     \<Rightarrow> error + vector \<times> vector" where
  "evolve_finish ppm target stop direction s =
     (let y = es_y s; dy = es_dy s
      in case (case target of
                 target_aH \<Rightarrow> Inr ((stop / es_aH s - 1) / es_aH s)
               | target_phi \<Rightarrow> Inr ((stop - y (index_in_phi ppm)) / dy (index_in_phi ppm))
               | target_end_inflation \<Rightarrow>
                   (case primordial_inflation_check_potential ppm (y (index_in_phi ppm)) of
                      Inl e \<Rightarrow> Inl e
                    | Inr _ \<Rightarrow>
                        Inr (- es_quantity s
                             / (8 * Fin pi / y (index_in_a ppm) / y (index_in_a ppm)
                                * dy (index_in_phi ppm) * dy (index_in_dphi ppm))))) of
           Inl e \<Rightarrow> Inl e
         | Inr dtau \<Rightarrow>
             (let y1 = y(index_in_a ppm := y (index_in_a ppm) + dy (index_in_a ppm) * dtau);
                  y2 = y1(index_in_phi ppm := y1 (index_in_phi ppm) + dy (index_in_phi ppm) * dtau);
                  y3 = (if direction = forward
                           \<and> (primordial_spec_type ppm = inflation_V
                               \<or> primordial_spec_type ppm = inflation_V_end)
                        then y2(index_in_dphi ppm :=
                                  y2 (index_in_dphi ppm) + dy (index_in_dphi ppm) * dtau)
                        else y2)
              in case primordial_inflation_derivs ppm (es_tau_end s) y3 dy (es_pipaw s) of
                   Inl e \<Rightarrow> Inl e
                 | Inr (dy1, pw1) \<Rightarrow> Inr (y3, dy1)))"

text \<open>
  The whole function. It returns the vectors \<^verbatim>\<open>y\<close> and \<^verbatim>\<open>dy\<close> as they stand on a
  successful return. For the target \<^verbatim>\<open>_end_inflation_\<close> the source overwrites \<^verbatim>\<open>stop\<close>
  with 0.
\<close>

definition primordial_inflation_evolve_background ::
  "generic_integrator \<Rightarrow> nat \<Rightarrow> primordial \<Rightarrow> precision \<Rightarrow> vector \<Rightarrow> vector \<Rightarrow> target_quantity
     \<Rightarrow> double \<Rightarrow> bool \<Rightarrow> integration_direction \<Rightarrow> time_definition
     \<Rightarrow> (error + vector \<times> vector) option" where
  "primordial_inflation_evolve_background gi fuel ppm ppr y dy target stop check_epsilon
       direction time =
     (case evolve_start ppm ppr y dy target check_epsilon direction time of
        Inl e \<Rightarrow> Some (Inl e)
      | Inr s0 \<Rightarrow>
          (let stop1 = (if target = target_end_inflation then 0 else stop)
           in case loop_fuel fuel (evolve_cond direction stop1)
                     (evolve_step gi ppm ppr target check_epsilon direction) s0 of
                None \<Rightarrow> None
              | Some (Inl e) \<Rightarrow> Some (Inl e)
              | Some (Inr s) \<Rightarrow> Some (evolve_finish ppm target stop1 direction s)))"

text \<open>The state of the loop of \<^verbatim>\<open>primordial_inflation_evolve_background\<close> after \<open>m\<close> passes.\<close>

definition evolve_passes ::
  "generic_integrator \<Rightarrow> primordial \<Rightarrow> precision \<Rightarrow> target_quantity \<Rightarrow> double \<Rightarrow> bool
     \<Rightarrow> integration_direction \<Rightarrow> nat \<Rightarrow> evolve_state \<Rightarrow> evolve_state option" where
  "evolve_passes gi ppm ppr target stop check_epsilon direction =
     after_passes (evolve_cond direction stop)
       (\<lambda>s. passed (Some (evolve_step gi ppm ppr target check_epsilon direction s)))"

subsection \<open>primordial\_inflation\_find\_attractor\<close>

text \<open>The locals that live across the passes of the loop, and the two vectors.\<close>

record attractor_state =
  at_counter :: int
  at_phi :: double
  at_dphidt_0new :: double
  at_dphidt_0old :: double
  at_y :: vector
  at_dy :: vector

text \<open>
  The loop test \<^verbatim>\<open>fabs(dphidt_0new/dphidt_0old-1.) >= precision\<close>. It fails when the
  quotient is a NaN.
\<close>

definition attractor_continue :: "double \<Rightarrow> attractor_state \<Rightarrow> bool" where
  "attractor_continue precision s \<longleftrightarrow> \<bar>at_dphidt_0new s / at_dphidt_0old s - 1\<bar> \<ge> precision"

text \<open>Before the loop: the check of the potential at \<open>phi_0\<close> and the first values.\<close>

definition attractor_start ::
  "primordial \<Rightarrow> double \<Rightarrow> double \<Rightarrow> vector \<Rightarrow> vector
     \<Rightarrow> error + (double \<times> double) \<times> attractor_state" where
  "attractor_start ppm phi_0 precision y dy =
     (case primordial_inflation_check_potential ppm phi_0 of
        Inl e \<Rightarrow> Inl e
      | Inr (V_0, dV_0, ddV_0) \<Rightarrow>
          (let dphidt_0new = - dV_0 / 3 / sqrt_double ((8 * Fin pi / 3) * V_0);
               phi = phi_0;
               counter = 0;
               dphidt_0old = dphidt_0new / (precision + 2)
           in Inr ((V_0, dV_0),
                   \<lparr>at_counter = counter, at_phi = phi, at_dphidt_0new = dphidt_0new,
                    at_dphidt_0old = dphidt_0old, at_y = y, at_dy = dy\<rparr>)))"

text \<open>One pass of the loop; \<open>None\<close> when the integration inside runs out of fuel.\<close>

definition attractor_body ::
  "generic_integrator \<Rightarrow> nat \<Rightarrow> primordial \<Rightarrow> precision \<Rightarrow> double \<Rightarrow> double \<Rightarrow> double
     \<Rightarrow> attractor_state \<Rightarrow> (error + attractor_state) option" where
  "attractor_body gi fuel ppm ppr phi_0 V_0 dV_0 s =
     (let counter = at_counter s + 1
      in if counter \<ge> primordial_inflation_attractor_maxit ppr then Some (Inl Attractor_not_found)
         else
           (let dphidt_0old = at_dphidt_0new s;
                phi = at_phi s + dV_0 / V_0 / 16 / Fin pi
            in case primordial_inflation_check_potential ppm phi of
                 Inl e \<Rightarrow> Some (Inl e)
               | Inr (V, dV, ddV) \<Rightarrow>
                   (let a = 1;
                        dphidt = - dV / 3 / sqrt_double ((8 * Fin pi / 3) * V);
                        y1 = (at_y s)(index_in_a ppm := a);
                        y2 = y1(index_in_phi ppm := phi);
                        y3 = y2(index_in_dphi ppm := a * dphidt)
                    in case primordial_inflation_evolve_background gi fuel ppm ppr y3 (at_dy s)
                              target_phi phi_0 True forward conformal of
                         None \<Rightarrow> None
                       | Some (Inl e) \<Rightarrow> Some (Inl e)
                       | Some (Inr (y4, dy4)) \<Rightarrow>
                           Some (Inr \<lparr>at_counter = counter, at_phi = phi,
                                      at_dphidt_0new = y4 (index_in_dphi ppm) / y4 (index_in_a ppm),
                                      at_dphidt_0old = dphidt_0old, at_y = y4, at_dy = dy4\<rparr>))))"

lemma attractor_body_counter:
  "attractor_body gi fuel ppm ppr phi_0 V_0 dV_0 s = Some (Inr s') \<Longrightarrow>
   at_counter s' = at_counter s + 1 \<and> at_counter s + 1 < primordial_inflation_attractor_maxit ppr"
  by (auto simp: attractor_body_def Let_def split: if_splits sum.splits option.splits prod.splits)

text \<open>
  The loop. It ends by itself: a pass that goes through raises the counter, and a pass
  that finds the counter at the maximum fails.
\<close>

function attractor_loop ::
  "generic_integrator \<Rightarrow> nat \<Rightarrow> primordial \<Rightarrow> precision \<Rightarrow> double \<Rightarrow> double \<Rightarrow> double \<Rightarrow> double
     \<Rightarrow> attractor_state \<Rightarrow> (error + attractor_state) option" where
  "attractor_loop gi fuel ppm ppr phi_0 precision V_0 dV_0 s =
     (if attractor_continue precision s then
        (case attractor_body gi fuel ppm ppr phi_0 V_0 dV_0 s of
           None \<Rightarrow> None
         | Some (Inl e) \<Rightarrow> Some (Inl e)
         | Some (Inr s') \<Rightarrow> attractor_loop gi fuel ppm ppr phi_0 precision V_0 dV_0 s')
      else Some (Inr s))"
  by pat_completeness auto
termination
proof (relation "measure (\<lambda>(gi, fuel, ppm, ppr, phi_0, precision, V_0, dV_0, s).
                   nat (primordial_inflation_attractor_maxit ppr - at_counter s))")
  show "wf (measure (\<lambda>(gi, fuel, ppm, ppr, phi_0, precision, V_0, dV_0, s).
                   nat (primordial_inflation_attractor_maxit ppr - at_counter s)))"
    by simp
next
  fix gi :: generic_integrator and fuel ppm ppr phi_0 precision V_0 dV_0 s x2 x1 and s' :: attractor_state
  assume "attractor_body gi fuel ppm ppr phi_0 V_0 dV_0 s = Some x2" and "x2 = Inr s'"
  then have "attractor_body gi fuel ppm ppr phi_0 V_0 dV_0 s = Some (Inr s')" by simp
  then have "at_counter s' = at_counter s + 1
             \<and> at_counter s + 1 < primordial_inflation_attractor_maxit ppr"
    by (rule attractor_body_counter)
  then show "((gi, fuel, ppm, ppr, phi_0, precision, V_0, dV_0, s'),
              (gi, fuel, ppm, ppr, phi_0, precision, V_0, dV_0, s))
             \<in> measure (\<lambda>(gi, fuel, ppm, ppr, phi_0, precision, V_0, dV_0, s).
                   nat (primordial_inflation_attractor_maxit ppr - at_counter s))"
    by simp
qed

text \<open>
  The whole function: on success the outputs \<^verbatim>\<open>*H_0\<close> and \<^verbatim>\<open>*dphidt_0\<close>, and the
  vectors as they stand.
\<close>

definition primordial_inflation_find_attractor ::
  "generic_integrator \<Rightarrow> nat \<Rightarrow> primordial \<Rightarrow> precision \<Rightarrow> double \<Rightarrow> double \<Rightarrow> vector \<Rightarrow> vector
     \<Rightarrow> (error + double \<times> double \<times> vector \<times> vector) option" where
  "primordial_inflation_find_attractor gi fuel ppm ppr phi_0 precision y dy =
     (case attractor_start ppm phi_0 precision y dy of
        Inl e \<Rightarrow> Some (Inl e)
      | Inr ((V_0, dV_0), s0) \<Rightarrow>
          (case attractor_loop gi fuel ppm ppr phi_0 precision V_0 dV_0 s0 of
             None \<Rightarrow> None
           | Some (Inl e) \<Rightarrow> Some (Inl e)
           | Some (Inr s) \<Rightarrow>
               (let dphidt_0 = at_dphidt_0new s;
                    H_0 = sqrt_double ((8 * Fin pi / 3)
                            * (0.5 * at_dphidt_0new s * at_dphidt_0new s + V_0))
                in Some (Inr (H_0, dphidt_0, at_y s, at_dy s)))))"


subsection \<open>The resets in primordial\_inflation\_spectra and primordial\_inflation\_solve\_inflation\<close>

text \<open>
  The first statements of a pass of the loop over wavenumbers of
  \<^verbatim>\<open>primordial_inflation_spectra\<close>: the background part of the running vector is set from
  \<^verbatim>\<open>y_ini\<close>. The test that guards the third assignment joins its two comparisons with
  \<^verbatim>\<open>&&\<close>, as the source does.
\<close>

definition spectra_init_background :: "primordial \<Rightarrow> vector \<Rightarrow> vector \<Rightarrow> vector" where
  "spectra_init_background ppm y_ini y =
     (let y1 = y(index_in_a ppm := y_ini (index_in_a ppm));
          y2 = y1(index_in_phi ppm := y_ini (index_in_phi ppm))
      in if primordial_spec_type ppm = inflation_V \<and> primordial_spec_type ppm = inflation_V_end
         then y2(index_in_dphi ppm := y_ini (index_in_dphi ppm))
         else y2)"

text \<open>
  From \<^verbatim>\<open>primordial_inflation_solve_inflation\<close>, before the check of the duration of
  inflation after the pivot: the state is set at the pivot. The guard of the third
  assignment is again a conjunction.
\<close>

definition solve_inflation_pivot_state :: "primordial \<Rightarrow> double \<Rightarrow> double \<Rightarrow> vector \<Rightarrow> vector" where
  "solve_inflation_pivot_state ppm a_pivot dphidt_pivot y =
     (let y1 = y(index_in_a ppm := a_pivot);
          y2 = y1(index_in_phi ppm := phi_pivot ppm)
      in if primordial_spec_type ppm = inflation_V \<and> primordial_spec_type ppm = inflation_V_end
         then y2(index_in_dphi ppm := a_pivot * dphidt_pivot)
         else y2)"

subsection \<open>Index lists of the pair loops\<close>

text \<open>
  The pairs visited by the two nested loops over \<open>index_ic1 \<le> index_ic2 < N\<close>, and by
  those over \<open>index_ic1 < index_ic2 < N\<close>, in the order of the source.
\<close>

definition upper_pairs :: "nat \<Rightarrow> (nat \<times> nat) list" where
  "upper_pairs N = concat (map (\<lambda>i. map (Pair i) [i..<N]) [0..<N])"

definition strict_pairs :: "nat \<Rightarrow> (nat \<times> nat) list" where
  "strict_pairs N = concat (map (\<lambda>i. map (Pair i) [i + 1..<N]) [0..<N])"

subsection \<open>Notions for the analysis of primordial\_analytic\_spectrum\_init\<close>

text \<open>
  \<^verbatim>\<open>primordial_analytic_spectrum_init\<close> writes four arrays of the structure and nothing
  else: \<open>static_part\<close> is the structure with these four arrays blanked, so that two
  structures with the same static part differ in these arrays only. The four values stored
  for one cell are its \<open>coefficients\<close>. \<open>diagonal_set\<close> says that every diagonal cell
  of a mode is flagged non-zero with a positive amplitude; \<open>cross_relation\<close> is what the
  stores at the end of one pass of the off-diagonal loop leave in the cell of the pair
  \<open>(i, j)\<close>, for the locals \<open>l\<close> of that pass; \<open>row_ready\<close> collects both for a mode, the
  locals of a pass being those selected by the chain of tests from the locals that the
  pass before left.
\<close>

definition static_part :: "primordial \<Rightarrow> primordial" where
  "static_part ppm = ppm\<lparr>is_non_zero := (\<lambda>_ _. False), amplitude := (\<lambda>_ _. 0),
                         tilt := (\<lambda>_ _. 0), running := (\<lambda>_ _. 0)\<rparr>"

definition coefficients :: "primordial \<Rightarrow> nat \<Rightarrow> nat \<Rightarrow> bool \<times> real \<times> real \<times> real" where
  "coefficients ppm index_md x =
     (is_non_zero ppm index_md x, amplitude ppm index_md x, tilt ppm index_md x,
      running ppm index_md x)"

definition diagonal_set :: "nat \<Rightarrow> primordial \<Rightarrow> nat \<Rightarrow> bool" where
  "diagonal_set N ppm index_md =
     (\<forall>i<N. is_non_zero ppm index_md (index_symmetric_matrix i i N)
            \<and> 0 < amplitude ppm index_md (index_symmetric_matrix i i N))"

definition cross_relation ::
  "nat \<Rightarrow> analytic_locals \<Rightarrow> primordial \<Rightarrow> nat \<Rightarrow> nat \<Rightarrow> nat \<Rightarrow> bool" where
  "cross_relation N l ppm index_md i j =
     (- 1 \<le> one_correlation l \<and> one_correlation l \<le> 1 \<and>
      (if one_correlation l = 0
       then \<not> is_non_zero ppm index_md (index_symmetric_matrix i j N)
       else coefficients ppm index_md (index_symmetric_matrix i j N) =
              (True,
               sqrt (amplitude ppm index_md (index_symmetric_matrix i i N)
                     * amplitude ppm index_md (index_symmetric_matrix j j N))
                 * one_correlation l,
               0.5 * (tilt ppm index_md (index_symmetric_matrix i i N)
                      + tilt ppm index_md (index_symmetric_matrix j j N)) + one_tilt l,
               0.5 * (running ppm index_md (index_symmetric_matrix i i N)
                      + running ppm index_md (index_symmetric_matrix j j N)) + one_running l)))"

definition row_ready :: "perturbs \<Rightarrow> primordial \<Rightarrow> nat \<Rightarrow> primordial \<Rightarrow> bool" where
  "row_ready ppt p0 index_md q =
     (diagonal_set (ic_size p0 index_md) q index_md
      \<and> (\<forall>i j. i < j \<and> j < ic_size p0 index_md \<longrightarrow>
            (\<exists>l0. cross_relation (ic_size p0 index_md)
                     (analytic_cross_select ppt p0 index_md i j l0) q index_md i j)))"

text \<open>
  The words of the specification for a pair of initial conditions. The scalar initial
  conditions are adiabatic, baryon isocurvature, CDM isocurvature, neutrino density and
  neutrino velocity; \<open>has_ic\<close> and \<open>index_ic\<close> read the flag and the index of one of them
  in \<^verbatim>\<open>ppt\<close>. \<open>configured_cross\<close> gives the correlation, the cross tilt and the cross
  running configured for an unordered pair of different initial conditions, the input
  parameters \<^verbatim>\<open>c_X_Y\<close>, \<^verbatim>\<open>n_X_Y\<close> and \<^verbatim>\<open>alpha_X_Y\<close>; it is not used for a pair of equal
  ones, where it is given the value \<open>(0, 0, 0)\<close>. \<open>ic_indices_distinct\<close> says that the
  initial conditions that are present have different indices. These notions are compared
  with the chain of tests of the source in the proofs.
\<close>

datatype initial_condition = ic_ad | ic_bi | ic_cdi | ic_nid | ic_niv

definition has_ic :: "perturbs \<Rightarrow> initial_condition \<Rightarrow> bool" where
  "has_ic ppt X =
     (case X of ic_ad \<Rightarrow> has_ad ppt | ic_bi \<Rightarrow> has_bi ppt | ic_cdi \<Rightarrow> has_cdi ppt
      | ic_nid \<Rightarrow> has_nid ppt | ic_niv \<Rightarrow> has_niv ppt)"

definition index_ic :: "perturbs \<Rightarrow> initial_condition \<Rightarrow> nat" where
  "index_ic ppt X =
     (case X of ic_ad \<Rightarrow> index_ic_ad ppt | ic_bi \<Rightarrow> index_ic_bi ppt
      | ic_cdi \<Rightarrow> index_ic_cdi ppt | ic_nid \<Rightarrow> index_ic_nid ppt
      | ic_niv \<Rightarrow> index_ic_niv ppt)"

fun configured_cross ::
  "primordial \<Rightarrow> initial_condition \<Rightarrow> initial_condition \<Rightarrow> real \<times> real \<times> real" where
  "configured_cross ppm ic_ad ic_bi = (c_ad_bi ppm, n_ad_bi ppm, alpha_ad_bi ppm)"
| "configured_cross ppm ic_ad ic_cdi = (c_ad_cdi ppm, n_ad_cdi ppm, alpha_ad_cdi ppm)"
| "configured_cross ppm ic_ad ic_nid = (c_ad_nid ppm, n_ad_nid ppm, alpha_ad_nid ppm)"
| "configured_cross ppm ic_ad ic_niv = (c_ad_niv ppm, n_ad_niv ppm, alpha_ad_niv ppm)"
| "configured_cross ppm ic_bi ic_cdi = (c_bi_cdi ppm, n_bi_cdi ppm, alpha_bi_cdi ppm)"
| "configured_cross ppm ic_bi ic_nid = (c_bi_nid ppm, n_bi_nid ppm, alpha_bi_nid ppm)"
| "configured_cross ppm ic_bi ic_niv = (c_bi_niv ppm, n_bi_niv ppm, alpha_bi_niv ppm)"
| "configured_cross ppm ic_cdi ic_nid = (c_cdi_nid ppm, n_cdi_nid ppm, alpha_cdi_nid ppm)"
| "configured_cross ppm ic_cdi ic_niv = (c_cdi_niv ppm, n_cdi_niv ppm, alpha_cdi_niv ppm)"
| "configured_cross ppm ic_nid ic_niv = (c_nid_niv ppm, n_nid_niv ppm, alpha_nid_niv ppm)"
| "configured_cross ppm ic_bi ic_ad = (c_ad_bi ppm, n_ad_bi ppm, alpha_ad_bi ppm)"
| "configured_cross ppm ic_cdi ic_ad = (c_ad_cdi ppm, n_ad_cdi ppm, alpha_ad_cdi ppm)"
| "configured_cross ppm ic_nid ic_ad = (c_ad_nid ppm, n_ad_nid ppm, alpha_ad_nid ppm)"
| "configured_cross ppm ic_niv ic_ad = (c_ad_niv ppm, n_ad_niv ppm, alpha_ad_niv ppm)"
| "configured_cross ppm ic_cdi ic_bi = (c_bi_cdi ppm, n_bi_cdi ppm, alpha_bi_cdi ppm)"
| "configured_cross ppm ic_nid ic_bi = (c_bi_nid ppm, n_bi_nid ppm, alpha_bi_nid ppm)"
| "configured_cross ppm ic_niv ic_bi = (c_bi_niv ppm, n_bi_niv ppm, alpha_bi_niv ppm)"
| "configured_cross ppm ic_nid ic_cdi = (c_cdi_nid ppm, n_cdi_nid ppm, alpha_cdi_nid ppm)"
| "configured_cross ppm ic_niv ic_cdi = (c_cdi_niv ppm, n_cdi_niv ppm, alpha_cdi_niv ppm)"
| "configured_cross ppm ic_niv ic_nid = (c_nid_niv ppm, n_nid_niv ppm, alpha_nid_niv ppm)"
| "configured_cross ppm _ _ = (0, 0, 0)"

definition ic_indices_distinct :: "perturbs \<Rightarrow> bool" where
  "ic_indices_distinct ppt \<longleftrightarrow>
     distinct (map (index_ic ppt) (filter (has_ic ppt) [ic_ad, ic_bi, ic_cdi, ic_nid, ic_niv]))"

subsection \<open>Sample configurations\<close>

text \<open>
  A structure with every field zero, the starting point of the samples. The sample
  \<open>ppt_ad_bi\<close> asks for scalars with an adiabatic and a baryon-isocurvature initial
  condition; \<open>ppm_ad_bi A c n_cross\<close> gives both the amplitude \<open>A\<close>, tilt 1 and no
  running, correlates them with coefficient \<open>c\<close> and cross tilt \<open>n_cross\<close>, and tabulates
  \<open>ln k\<close> on \<open>[0, 1]\<close> around the pivot \<open>k = 1\<close>.
\<close>

definition ppm_blank :: primordial where
  "ppm_blank =
     \<lparr>primordial_spec_type = analytic_Pk, k_pivot = 0, A_s = 0, n_s = 0, alpha_s = 0, f_bi = 0,
      n_bi = 0, alpha_bi = 0, f_cdi = 0, n_cdi = 0, alpha_cdi = 0, f_nid = 0, n_nid = 0,
      alpha_nid = 0, f_niv = 0, n_niv = 0, alpha_niv = 0, c_ad_bi = 0, n_ad_bi = 0,
      alpha_ad_bi = 0, c_ad_cdi = 0, n_ad_cdi = 0, alpha_ad_cdi = 0, c_ad_nid = 0,
      n_ad_nid = 0, alpha_ad_nid = 0, c_ad_niv = 0, n_ad_niv = 0, alpha_ad_niv = 0,
      c_bi_cdi = 0, n_bi_cdi = 0, alpha_bi_cdi = 0, c_bi_nid = 0, n_bi_nid = 0,
      alpha_bi_nid = 0, c_bi_niv = 0, n_bi_niv = 0, alpha_bi_niv = 0, c_cdi_nid = 0,
      n_cdi_nid = 0, alpha_cdi_nid = 0, c_cdi_niv = 0, n_cdi_niv = 0, alpha_cdi_niv = 0,
      c_nid_niv = 0, n_nid_niv = 0, alpha_nid_niv = 0, r = 0, n_t = 0, alpha_t = 0,
      md_size = 0, ic_size = (\<lambda>_. 0), ic_ic_size = (\<lambda>_. 0), lnk = [],
      lnpk = (\<lambda>_ _. 0), ddlnpk = (\<lambda>_ _. 0),
      is_non_zero = (\<lambda>_ _. False), amplitude = (\<lambda>_ _. 0),
      tilt = (\<lambda>_ _. 0), running = (\<lambda>_ _. 0), potential = polynomial, V0 = 0,
      V1 = 0, V2 = 0, V3 = 0, V4 = 0, H0 = 0, H1 = 0, H2 = 0, H3 = 0, H4 = 0, phi_pivot = 0,
      index_in_a = 0, index_in_phi = 0, index_in_dphi = 0, in_bg_size = 0, index_in_ksi_re = 0,
      index_in_ksi_im = 0, index_in_dksi_re = 0, index_in_dksi_im = 0, index_in_ah_re = 0,
      index_in_ah_im = 0, index_in_dah_re = 0, index_in_dah_im = 0, in_size = 0, phi_min = 0,
      phi_max = 0\<rparr>"

definition ppt_ad_bi :: perturbs where
  "ppt_ad_bi =
     \<lparr>has_scalars = True, has_tensors = False, index_md_scalars = 0, index_md_tensors = 1,
      has_ad = True, has_bi = True, has_cdi = False, has_nid = False, has_niv = False,
      index_ic_ad = 0, index_ic_bi = 1, index_ic_cdi = 0, index_ic_nid = 0, index_ic_niv = 0,
      index_ic_ten = 0\<rparr>"

definition ppm_ad_bi :: "real \<Rightarrow> real \<Rightarrow> real \<Rightarrow> primordial" where
  "ppm_ad_bi A c n_cross =
     ppm_blank\<lparr>k_pivot := 1, A_s := A, n_s := 1, f_bi := 1, n_bi := 1,
               c_ad_bi := c, n_ad_bi := n_cross, md_size := 1,
               ic_size := (\<lambda>_. 2), ic_ic_size := (\<lambda>_. 3), lnk := [0, 1]\<rparr>"

text \<open>
  A ready table for one mode with two initial conditions, the pair flagged zero, and a
  stand-in for the interpolation that answers with the first row of the table.
\<close>

definition ppm_table_example :: primordial where
  "ppm_table_example =
     ppm_blank\<lparr>k_pivot := 1, md_size := 1, ic_size := (\<lambda>_. 2), ic_ic_size := (\<lambda>_. 3),
               lnk := [0, 1], is_non_zero := (\<lambda>_ i. i \<noteq> 1), amplitude := (\<lambda>_ _. 3),
               tilt := (\<lambda>_ _. 1)\<rparr>"

definition first_row_spline :: interpolate_spline where
  "first_row_spline lnks tab ddtab n x out = (None, tab)"

text \<open>
  Samples for the inflation simulator: a linear potential \<open>V = 1 - phi\<close>, and the same
  slope with \<open>V0 = 3 / (8 pi)\<close>, which makes \<open>aH = a\<close> on the backward branch; a natural
  potential with \<open>V1 = 0\<close>, whose value is a NaN; a precision structure, and one with a
  zero background step; starting vectors; and a stand-in for the integrator that lands
  the integrated components on given values and leaves the others alone.
\<close>

definition ppm_V_example :: primordial where
  "ppm_V_example =
     primordial_inflation_indices
       (ppm_blank\<lparr>primordial_spec_type := inflation_V, potential := polynomial,
                  V0 := 1, V1 := - 1, lnk := [0, 1]\<rparr>)"

definition ppr_example :: precision where
  "ppr_example =
     \<lparr>primordial_inflation_bg_stepsize = Fin (1 / 2),
      primordial_inflation_tol_integration = Fin (1 / 1000),
      primordial_inflation_attractor_maxit = 10,
      smallest_allowed_variation = Fin (1 / 10 ^ 10)\<rparr>"

definition landing_integrator :: "vector \<Rightarrow> generic_integrator" where
  "landing_integrator y_land f t0 t1 y pw tol minv =
     Some (\<lambda>i. if int i < pw_N pw then y_land i else y i, pw)"

definition y_zero_example :: vector where
  "y_zero_example = (\<lambda>_. 0)"

definition y_start_example :: vector where
  "y_start_example = (\<lambda>_. 0)(0 := 1)"

definition y_land_example :: vector where
  "y_land_example = (\<lambda>_. 0)(0 := 1, 1 := Fin (9 / 10))"

definition ppm_V_unit_example :: primordial where
  "ppm_V_unit_example =
     primordial_inflation_indices
       (ppm_blank\<lparr>primordial_spec_type := inflation_V, potential := polynomial,
                  V0 := Fin (3 / (8 * pi)), V1 := - 1, lnk := [0, 1]\<rparr>)"


definition y_back_example :: vector where
  "y_back_example = (\<lambda>_. 0)(0 := 1, 2 := 5)"

definition y_land_back_example :: vector where
  "y_land_back_example = (\<lambda>_. 0)(0 := Fin (1 / 4))"


definition ppr_still_example :: precision where
  "ppr_still_example = ppr_example\<lparr>primordial_inflation_bg_stepsize := 0\<rparr>"

section \<open>Verified properties: energy injection\<close>

text \<open>
  Claim C8. For all arguments and every prior value \<open>dep_old\<close> of the accumulator:
  when \<^verbatim>\<open>params->on_the_spot == 1\<close>, \<^verbatim>\<open>update_dEdtdV_dep\<close> stores exactly the injection
  rate \<open>dEdtdV_inj z_out xe Tgas params\<close>, whatever \<open>dep_old\<close> was; otherwise it stores
  \<open>(dep_old * exp (-7 dlna) + 2e-15 * dlna * (nH/H) * inj) / (1 + 2e-15 * dlna * (nH/H))\<close>
  with \<open>inj\<close> that same injection rate.
\<close>

theorem update_dEdtdV_dep_spec:
  "(on_the_spot params = 1 \<longrightarrow>
      update_dEdtdV_dep z_out dlna xe Tgas nH H params dep_old = dEdtdV_inj z_out xe Tgas params)
   \<and> (on_the_spot params \<noteq> 1 \<longrightarrow>
      update_dEdtdV_dep z_out dlna xe Tgas nH H params dep_old =
        (dep_old * exp (- 7 * dlna) + 2 / 10 ^ 15 * dlna * (nH / H) * dEdtdV_inj z_out xe Tgas params)
          / (1 + 2 / 10 ^ 15 * dlna * (nH / H)))"
  by (simp add: update_dEdtdV_dep_def Let_def)

theorem update_dEdtdV_dep_spec_witness:
  "on_the_spot (inj_params_example 1 0) = 1
   \<and> update_dEdtdV_dep 1000 0.01 1 3000 200 1 (inj_params_example 1 0) 5
       = dEdtdV_inj 1000 1 3000 (inj_params_example 1 0)
   \<and> on_the_spot (inj_params_example 0 0) \<noteq> 1
   \<and> update_dEdtdV_dep 1000 0 1 3000 200 1 (inj_params_example 0 0) 5 = 5"
  using update_dEdtdV_dep_spec [of "inj_params_example 1 0" 1000 "0.01" 1 3000 200 1 5]
        update_dEdtdV_dep_spec [of "inj_params_example 0 0" 1000 0 1 3000 200 1 5]
  by (simp add: inj_params_example_def)

text \<open>
  Claim C9. \<^verbatim>\<open>dEdtdV_pbh\<close> returns exactly 0 whenever \<open>fpbh \<le> 0\<close>, for every mass,
  redshift, ionisation fraction, gas temperature and value of \<^verbatim>\<open>coll_ion\<close>. The guard
  disables the channel and is no error: the function returns a plain number on every
  input, and for \<open>fpbh > 0\<close> it evaluates the rate formula with no further check of its
  arguments.
\<close>

theorem dEdtdV_pbh_disabled:
  "(f \<le> 0 \<longrightarrow> dEdtdV_pbh f M z xe Tgas ci = 0)
   \<and> (0 < f \<longrightarrow> dEdtdV_pbh f M z xe Tgas ci =
         7.07 / 10 ^ 52 / M * cube (1 + z) * f * L_pbh_av M z (min xe 1) Tgas ci)"
  by (simp add: dEdtdV_pbh_def Let_def min_def)

theorem dEdtdV_pbh_disabled_witness:
  "(0::real) \<le> 0 \<and> dEdtdV_pbh 0 100 1000 0.5 3000 1 = 0
   \<and> (0::real) < 1 \<and> dEdtdV_pbh 1 100 1000 0.5 3000 1 =
         7.07 / 10 ^ 52 / 100 * cube (1 + 1000) * 1 * L_pbh_av 100 1000 (min 0.5 1) 3000 1"
  using dEdtdV_pbh_disabled [of 0 100 1000 "0.5" 3000 1]
        dEdtdV_pbh_disabled [of 1 100 1000 "0.5" 3000 1]
  by simp

section \<open>Verified properties: the spectrum table\<close>

subsection \<open>The packed index of a pair\<close>

lemma tri_Suc: "(Suc i * (Suc i + 1)) div 2 = (i * (i + 1)) div 2 + Suc i" for i :: nat
proof -
  have "Suc i * (Suc i + 1) = i * (i + 1) + 2 * Suc i" by (simp add: algebra_simps)
  then show ?thesis by simp
qed

lemma tri_le: "i \<le> N \<Longrightarrow> (i * (i + 1)) div 2 \<le> N * i" for i N :: nat
proof (induction i)
  case 0
  then show ?case by simp
next
  case (Suc i)
  then have "(i * (i + 1)) div 2 \<le> N * i" and "Suc i \<le> N" by simp_all
  then show ?case unfolding tri_Suc by (simp add: algebra_simps)
qed


lemma ism_row: "i \<le> j \<Longrightarrow> i \<le> N \<Longrightarrow>
  index_symmetric_matrix i j N = index_symmetric_matrix i i N + (j - i)"
proof -
  assume a: "i \<le> j" "i \<le> N"
  have t: "(i * (i + 1)) div 2 \<le> N * i" using a by (intro tri_le)
  have "index_symmetric_matrix i j N = j + N * i - (i * (i + 1)) div 2"
    using a by (simp add: index_symmetric_matrix_def)
  moreover have "index_symmetric_matrix i i N = i + N * i - (i * (i + 1)) div 2"
    by (simp add: index_symmetric_matrix_def)
  ultimately show ?thesis using t a by linarith
qed

lemma ism_diag_Suc: "i < N \<Longrightarrow>
  index_symmetric_matrix (Suc i) (Suc i) N = index_symmetric_matrix i i N + (N - i)"
proof -
  assume a: "i < N"
  have t: "(i * (i + 1)) div 2 \<le> N * i" using a by (intro tri_le) simp
  have e1: "index_symmetric_matrix (Suc i) (Suc i) N
              = Suc i + N * Suc i - (Suc i * (Suc i + 1)) div 2"
    by (simp only: index_symmetric_matrix_def order_refl if_True)
  have e2: "index_symmetric_matrix i i N = i + N * i - (i * (i + 1)) div 2"
    by (simp only: index_symmetric_matrix_def order_refl if_True)
  have e3: "N * Suc i = N + N * i" by simp
  show ?thesis unfolding e1 e2 e3 tri_Suc using t a by linarith
qed

lemma ism_diag_mono: "i < i' \<Longrightarrow> i' < N \<Longrightarrow>
  index_symmetric_matrix i i N + (N - i) \<le> index_symmetric_matrix i' i' N"
proof (induction i')
  case 0
  then show ?case by simp
next
  case (Suc k)
  have kN: "k < N" using Suc.prems by linarith
  have step: "index_symmetric_matrix (Suc k) (Suc k) N = index_symmetric_matrix k k N + (N - k)"
    using kN by (rule ism_diag_Suc)
  show ?case
  proof (cases "i = k")
    case True
    have "index_symmetric_matrix k k N + (N - k) \<le> index_symmetric_matrix (Suc k) (Suc k) N"
      using step by linarith
    then show ?thesis unfolding True .
  next
    case False
    then have "i < k" using Suc.prems by linarith
    then have "index_symmetric_matrix i i N + (N - i) \<le> index_symmetric_matrix k k N"
      using kN by (rule Suc.IH)
    then show ?thesis using step by linarith
  qed
qed

lemma ism_lt:
  assumes "i < i'" "i \<le> j" "j < N" "i' \<le> j'" "j' < N"
  shows "index_symmetric_matrix i j N < index_symmetric_matrix i' j' N"
proof -
  have r1: "index_symmetric_matrix i j N = index_symmetric_matrix i i N + (j - i)"
    using assms by (intro ism_row) linarith+
  have r2: "index_symmetric_matrix i' j' N = index_symmetric_matrix i' i' N + (j' - i')"
    using assms by (intro ism_row) linarith+
  have m: "index_symmetric_matrix i i N + (N - i) \<le> index_symmetric_matrix i' i' N"
    using assms by (intro ism_diag_mono) linarith+
  show ?thesis using r1 r2 m assms by linarith
qed

lemma ism_inj:
  assumes "i \<le> j" "j < N" "i' \<le> j'" "j' < N"
    and eq: "index_symmetric_matrix i j N = index_symmetric_matrix i' j' N"
  shows "i = i' \<and> j = j'"
proof -
  have "\<not> i < i'"
  proof
    assume "i < i'"
    then have "index_symmetric_matrix i j N < index_symmetric_matrix i' j' N"
      using assms by (intro ism_lt)
    then show False using eq by linarith
  qed
  moreover have "\<not> i' < i"
  proof
    assume "i' < i"
    then have "index_symmetric_matrix i' j' N < index_symmetric_matrix i j N"
      using assms by (intro ism_lt)
    then show False using eq by linarith
  qed
  ultimately have ii: "i = i'" by linarith
  have r1: "index_symmetric_matrix i j N = index_symmetric_matrix i i N + (j - i)"
    using assms by (intro ism_row) linarith+
  have r2: "index_symmetric_matrix i' j' N = index_symmetric_matrix i' i' N + (j' - i')"
    using assms by (intro ism_row) linarith+
  have "index_symmetric_matrix i i N + (j - i) = index_symmetric_matrix i i N + (j' - i)"
    using r1 r2 eq unfolding ii by linarith
  then have "j = j'" using assms unfolding ii by linarith
  then show ?thesis using ii by simp
qed

lemma fold_keyed_update:
  fixes key :: "'p \<Rightarrow> nat" and val :: "'p \<Rightarrow> (nat \<Rightarrow> 'v) \<Rightarrow> 'v"
  assumes "distinct (map key ps)"
    and "\<And>p out out'. p \<in> set ps \<Longrightarrow> out (key p) = out' (key p) \<Longrightarrow>
           (\<forall>x. x \<notin> key ` set ps \<longrightarrow> out x = out' x) \<Longrightarrow> val p out = val p out'"
  shows "(\<forall>q \<in> set ps. fold (\<lambda>p out. out(key p := val p out)) ps out0 (key q) = val q out0)
       \<and> (\<forall>x. x \<notin> key ` set ps \<longrightarrow> fold (\<lambda>p out. out(key p := val p out)) ps out0 x = out0 x)"
  using assms
proof (induction ps arbitrary: out0)
  case Nil
  then show ?case by simp
next
  case (Cons p ps)
  define F where "F = fold (\<lambda>p out. out(key p := val p out))"
  define out1 where "out1 = out0(key p := val p out0)"
  have unroll: "F (p # ps) out0 = F ps out1" by (simp add: F_def out1_def)
  have d: "distinct (map key ps)" and np: "key p \<notin> key ` set ps" using Cons.prems(1) by auto
  have dep: "\<And>q out out'. q \<in> set ps \<Longrightarrow> out (key q) = out' (key q) \<Longrightarrow>
           (\<forall>x. x \<notin> key ` set ps \<longrightarrow> out x = out' x) \<Longrightarrow> val q out = val q out'"
    by (rule Cons.prems(2)) auto
  have IH: "(\<forall>q \<in> set ps. F ps out1 (key q) = val q out1)
       \<and> (\<forall>x. x \<notin> key ` set ps \<longrightarrow> F ps out1 x = out1 x)"
    unfolding F_def by (rule Cons.IH [OF d dep])
  have same: "val q out1 = val q out0" if q: "q \<in> set ps" for q
  proof -
    have "key q \<in> key ` set ps" using q by (rule imageI)
    then have ne: "key q \<noteq> key p" using np by metis
    have "q \<in> set (p # ps)" using q by simp
    moreover have "out1 (key q) = out0 (key q)" using ne by (simp add: out1_def)
    moreover have "\<forall>x. x \<notin> key ` set (p # ps) \<longrightarrow> out1 x = out0 x" by (simp add: out1_def)
    ultimately show ?thesis by (rule Cons.prems(2))
  qed
  have "F (p # ps) out0 (key q) = val q out0" if q: "q \<in> set (p # ps)" for q
  proof (cases "q = p")
    case True
    have "F ps out1 (key p) = out1 (key p)" using IH np by blast
    then show ?thesis unfolding unroll True by (simp add: out1_def)
  next
    case False
    then have "q \<in> set ps" using q by simp
    then show ?thesis unfolding unroll using IH same by simp
  qed
  moreover have "F (p # ps) out0 x = out0 x" if x: "x \<notin> key ` set (p # ps)" for x
  proof -
    have "x \<noteq> key p" and "x \<notin> key ` set ps" using x by auto
    then show ?thesis unfolding unroll using IH by (simp add: out1_def)
  qed
  ultimately show ?case unfolding F_def by blast
qed

lemma fold_nested_pairs:
  "fold (\<lambda>i. fold (\<lambda>j. f i j) (js i)) is s
     = fold (\<lambda>p. f (fst p) (snd p)) (concat (map (\<lambda>i. map (Pair i) (js i)) is)) s"
proof (induction "is" arbitrary: s)
  case Nil
  then show ?case by simp
next
  case (Cons i "is")
  have "fold (\<lambda>j. f i j) (js i) s = fold (\<lambda>p. f (fst p) (snd p)) (map (Pair i) (js i)) s"
    by (simp add: fold_map comp_def)
  then show ?case using Cons.IH by simp
qed

lemma set_upper_pairs: "set (upper_pairs N) = {(i, j). i \<le> j \<and> j < N}"
  by (force simp: upper_pairs_def)

lemma set_strict_pairs: "set (strict_pairs N) = {(i, j). i < j \<and> j < N}"
  by (force simp: strict_pairs_def)



lemma distinct_pairs_gen:
  "distinct is \<Longrightarrow> (\<And>i. distinct (js i)) \<Longrightarrow>
   distinct (concat (map (\<lambda>i. map (Pair i) (js i)) is))"
proof (induction "is")
  case Nil
  then show ?case by simp
next
  case (Cons i "is")
  have fst_rest: "fst p \<in> set is" if "p \<in> set (concat (map (\<lambda>i. map (Pair i) (js i)) is))" for p
    using that by auto
  have fst_head: "fst p = i" if "p \<in> set (map (Pair i) (js i))" for p
    using that by auto
  have "i \<notin> set is" using Cons.prems(1) by simp
  then have disj: "set (map (Pair i) (js i)) \<inter> set (concat (map (\<lambda>i. map (Pair i) (js i)) is)) = {}"
    using fst_rest fst_head by blast
  have d1: "distinct (map (Pair i) (js i))"
    using Cons.prems(2) by (simp add: distinct_map inj_on_def)
  have d2: "distinct (concat (map (\<lambda>i. map (Pair i) (js i)) is))"
    using Cons.prems by (intro Cons.IH) simp_all
  show ?case using d1 d2 disj by simp
qed

lemma distinct_upper_keys:
  "distinct (map (\<lambda>p. index_symmetric_matrix (fst p) (snd p) N) (upper_pairs N))"
  unfolding distinct_map
proof
  show "distinct (upper_pairs N)" unfolding upper_pairs_def by (rule distinct_pairs_gen) simp_all
  show "inj_on (\<lambda>p. index_symmetric_matrix (fst p) (snd p) N) (set (upper_pairs N))"
    unfolding set_upper_pairs
  proof (rule inj_onI)
    fix p q :: "nat \<times> nat"
    assume "p \<in> {(i, j). i \<le> j \<and> j < N}" "q \<in> {(i, j). i \<le> j \<and> j < N}"
      and "index_symmetric_matrix (fst p) (snd p) N = index_symmetric_matrix (fst q) (snd q) N"
    then have "fst p = fst q \<and> snd p = snd q"
      by (intro ism_inj) (simp_all add: case_prod_unfold)
    then show "p = q" by (simp add: prod_eq_iff)
  qed
qed

lemma distinct_strict_keys:
  "distinct (map (\<lambda>p. index_symmetric_matrix (fst p) (snd p) N) (strict_pairs N))"
  unfolding distinct_map
proof
  show "distinct (strict_pairs N)" unfolding strict_pairs_def by (rule distinct_pairs_gen) simp_all
  show "inj_on (\<lambda>p. index_symmetric_matrix (fst p) (snd p) N) (set (strict_pairs N))"
    unfolding set_strict_pairs
  proof (rule inj_onI)
    fix p q :: "nat \<times> nat"
    assume "p \<in> {(i, j). i < j \<and> j < N}" "q \<in> {(i, j). i < j \<and> j < N}"
      and "index_symmetric_matrix (fst p) (snd p) N = index_symmetric_matrix (fst q) (snd q) N"
    then have "fst p = fst q \<and> snd p = snd q"
      by (intro ism_inj) (simp_all add: case_prod_unfold)
    then show "p = q" by (simp add: prod_eq_iff)
  qed
qed

subsection \<open>What the loops of primordial\_spectrum\_at\_k leave in the array\<close>

lemma at_k_direct_pairs:
  "at_k_direct ppm index_md lnk_in output =
     fold (\<lambda>p out. out(index_symmetric_matrix (fst p) (snd p) (ic_size ppm index_md) :=
               primordial_analytic_spectrum ppm index_md
                 (index_symmetric_matrix (fst p) (snd p) (ic_size ppm index_md)) (exp lnk_in)))
       (upper_pairs (ic_size ppm index_md)) output"
proof -
  have body: "(\<lambda>index_ic2 out.
           (let index_ic1_ic2 =
                  index_symmetric_matrix index_ic1 index_ic2 (ic_size ppm index_md)
            in if is_non_zero ppm index_md index_ic1_ic2 then
                 out(index_ic1_ic2 :=
                       primordial_analytic_spectrum ppm index_md index_ic1_ic2 (exp lnk_in))
               else out(index_ic1_ic2 := 0)))
      = (\<lambda>index_ic2 out. out(index_symmetric_matrix index_ic1 index_ic2 (ic_size ppm index_md) :=
               primordial_analytic_spectrum ppm index_md
                 (index_symmetric_matrix index_ic1 index_ic2 (ic_size ppm index_md)) (exp lnk_in)))"
    for index_ic1
    by (intro ext) (simp add: Let_def primordial_analytic_spectrum_def)
  show ?thesis
    unfolding at_k_direct_def body upper_pairs_def
    by (rule fold_nested_pairs
          [where f = "\<lambda>i j out. out(index_symmetric_matrix i j (ic_size ppm index_md) :=
               primordial_analytic_spectrum ppm index_md
                 (index_symmetric_matrix i j (ic_size ppm index_md)) (exp lnk_in))"])
qed

lemma at_k_direct_value:
  assumes "i \<le> j" "j < ic_size ppm index_md"
  shows "at_k_direct ppm index_md lnk_in output (index_symmetric_matrix i j (ic_size ppm index_md))
           = primordial_analytic_spectrum ppm index_md
               (index_symmetric_matrix i j (ic_size ppm index_md)) (exp lnk_in)"
proof -
  have "(i, j) \<in> set (upper_pairs (ic_size ppm index_md))"
    using assms by (simp add: set_upper_pairs)
  then show ?thesis
    unfolding at_k_direct_pairs
    using fold_keyed_update
      [where key = "\<lambda>p. index_symmetric_matrix (fst p) (snd p) (ic_size ppm index_md)"
         and val = "\<lambda>p out. primordial_analytic_spectrum ppm index_md
                 (index_symmetric_matrix (fst p) (snd p) (ic_size ppm index_md)) (exp lnk_in)"
         and ps = "upper_pairs (ic_size ppm index_md)" and ?out0.0 = "output",
       OF distinct_upper_keys]
    by force
qed


lemma distinct_diag_keys:
  "distinct (map (\<lambda>i. index_symmetric_matrix i i N) [0..<N])"
  unfolding distinct_map
proof
  show "distinct [0..<N]" by simp
  show "inj_on (\<lambda>i. index_symmetric_matrix i i N) (set [0..<N])"
  proof (rule inj_onI)
    fix i i' assume "i \<in> set [0..<N]" "i' \<in> set [0..<N]"
      and "index_symmetric_matrix i i N = index_symmetric_matrix i' i' N"
    then have "i = i' \<and> i = i'" by (intro ism_inj) simp_all
    then show "i = i'" by simp
  qed
qed

lemma at_k_log_diag_fold:
  "at_k_log_diag ppm index_md output =
     fold (\<lambda>i out. out(index_symmetric_matrix i i (ic_size ppm index_md) :=
             ln (out (index_symmetric_matrix i i (ic_size ppm index_md)))))
       [0..<ic_size ppm index_md] output"
  by (simp add: at_k_log_diag_def Let_def)

lemma at_k_log_diag_facts:
  "(\<forall>i \<in> set [0..<ic_size ppm index_md].
      at_k_log_diag ppm index_md output (index_symmetric_matrix i i (ic_size ppm index_md))
        = ln (output (index_symmetric_matrix i i (ic_size ppm index_md))))
   \<and> (\<forall>x. x \<notin> (\<lambda>i. index_symmetric_matrix i i (ic_size ppm index_md)) ` set [0..<ic_size ppm index_md]
          \<longrightarrow> at_k_log_diag ppm index_md output x = output x)"
  unfolding at_k_log_diag_fold
  by (rule fold_keyed_update
      [where key = "\<lambda>i. index_symmetric_matrix i i (ic_size ppm index_md)"
         and val = "\<lambda>i out. ln (out (index_symmetric_matrix i i (ic_size ppm index_md)))",
       OF distinct_diag_keys]) simp

lemma at_k_log_diag_value:
  "i < ic_size ppm index_md \<Longrightarrow>
   at_k_log_diag ppm index_md output (index_symmetric_matrix i i (ic_size ppm index_md))
     = ln (output (index_symmetric_matrix i i (ic_size ppm index_md)))"
  using at_k_log_diag_facts [of ppm index_md "output"] by simp

lemma at_k_log_diag_other:
  assumes "i < j" "j < ic_size ppm index_md"
  shows "at_k_log_diag ppm index_md output (index_symmetric_matrix i j (ic_size ppm index_md))
     = output (index_symmetric_matrix i j (ic_size ppm index_md))"
proof -
  have "index_symmetric_matrix i j (ic_size ppm index_md)
          \<notin> (\<lambda>i. index_symmetric_matrix i i (ic_size ppm index_md)) ` set [0..<ic_size ppm index_md]"
  proof
    assume "index_symmetric_matrix i j (ic_size ppm index_md)
          \<in> (\<lambda>i. index_symmetric_matrix i i (ic_size ppm index_md)) ` set [0..<ic_size ppm index_md]"
    then obtain i' where i': "i' < ic_size ppm index_md"
      and eq: "index_symmetric_matrix i j (ic_size ppm index_md)
                 = index_symmetric_matrix i' i' (ic_size ppm index_md)" by auto
    have "i = i' \<and> j = i'" using assms i' eq by (intro ism_inj) simp_all
    then show False using assms by simp
  qed
  then show ?thesis using at_k_log_diag_facts [of ppm index_md "output"] by blast
qed

lemma at_k_log_cross_pairs:
  "at_k_log_cross ppm index_md output =
     fold (\<lambda>p out. out(index_symmetric_matrix (fst p) (snd p) (ic_size ppm index_md) :=
             (if is_non_zero ppm index_md
                   (index_symmetric_matrix (fst p) (snd p) (ic_size ppm index_md))
              then out (index_symmetric_matrix (fst p) (snd p) (ic_size ppm index_md))
                     / sqrt (out (index_symmetric_matrix (fst p) (fst p) (ic_size ppm index_md))
                             * out (index_symmetric_matrix (snd p) (snd p) (ic_size ppm index_md)))
              else out (index_symmetric_matrix (fst p) (snd p) (ic_size ppm index_md)))))
       (strict_pairs (ic_size ppm index_md)) output"
proof -
  have body: "(\<lambda>index_ic2 out.
           (let N = ic_size ppm index_md;
                index_ic1_ic2 = index_symmetric_matrix index_ic1 index_ic2 N
            in if is_non_zero ppm index_md index_ic1_ic2 then
                 out(index_ic1_ic2 :=
                       out index_ic1_ic2
                         / sqrt (out (index_symmetric_matrix index_ic1 index_ic1 N)
                                 * out (index_symmetric_matrix index_ic2 index_ic2 N)))
               else out))
      = (\<lambda>index_ic2 out. out(index_symmetric_matrix index_ic1 index_ic2 (ic_size ppm index_md) :=
             (if is_non_zero ppm index_md
                   (index_symmetric_matrix index_ic1 index_ic2 (ic_size ppm index_md))
              then out (index_symmetric_matrix index_ic1 index_ic2 (ic_size ppm index_md))
                     / sqrt (out (index_symmetric_matrix index_ic1 index_ic1 (ic_size ppm index_md))
                             * out (index_symmetric_matrix index_ic2 index_ic2 (ic_size ppm index_md)))
              else out (index_symmetric_matrix index_ic1 index_ic2 (ic_size ppm index_md)))))"
    for index_ic1
    by (intro ext) (simp add: Let_def)
  show ?thesis
    unfolding at_k_log_cross_def body strict_pairs_def
    by (rule fold_nested_pairs
          [where f = "\<lambda>i j out. out(index_symmetric_matrix i j (ic_size ppm index_md) :=
             (if is_non_zero ppm index_md (index_symmetric_matrix i j (ic_size ppm index_md))
              then out (index_symmetric_matrix i j (ic_size ppm index_md))
                     / sqrt (out (index_symmetric_matrix i i (ic_size ppm index_md))
                             * out (index_symmetric_matrix j j (ic_size ppm index_md)))
              else out (index_symmetric_matrix i j (ic_size ppm index_md))))"])
qed

lemma diag_not_strict_key:
  assumes "i < N"
  shows "index_symmetric_matrix i i N
           \<notin> (\<lambda>p. index_symmetric_matrix (fst p) (snd p) N) ` set (strict_pairs N)"
proof
  assume "index_symmetric_matrix i i N
           \<in> (\<lambda>p. index_symmetric_matrix (fst p) (snd p) N) ` set (strict_pairs N)"
  then obtain a b where ab: "a < b" "b < N"
    and eq: "index_symmetric_matrix i i N = index_symmetric_matrix a b N"
    by (auto simp: set_strict_pairs)
  have "i = a \<and> i = b" using assms ab eq by (intro ism_inj) simp_all
  then show False using ab by simp
qed

lemma at_k_log_cross_facts:
  "(\<forall>q \<in> set (strict_pairs (ic_size ppm index_md)).
      at_k_log_cross ppm index_md output
          (index_symmetric_matrix (fst q) (snd q) (ic_size ppm index_md))
        = (if is_non_zero ppm index_md
                   (index_symmetric_matrix (fst q) (snd q) (ic_size ppm index_md))
              then output (index_symmetric_matrix (fst q) (snd q) (ic_size ppm index_md))
                     / sqrt (output (index_symmetric_matrix (fst q) (fst q) (ic_size ppm index_md))
                             * output (index_symmetric_matrix (snd q) (snd q) (ic_size ppm index_md)))
              else output (index_symmetric_matrix (fst q) (snd q) (ic_size ppm index_md))))
   \<and> (\<forall>x. x \<notin> (\<lambda>p. index_symmetric_matrix (fst p) (snd p) (ic_size ppm index_md))
                   ` set (strict_pairs (ic_size ppm index_md))
          \<longrightarrow> at_k_log_cross ppm index_md output x = output x)"
  unfolding at_k_log_cross_pairs
proof (rule fold_keyed_update
      [where key = "\<lambda>p. index_symmetric_matrix (fst p) (snd p) (ic_size ppm index_md)"
         and val = "\<lambda>p out. (if is_non_zero ppm index_md
                   (index_symmetric_matrix (fst p) (snd p) (ic_size ppm index_md))
              then out (index_symmetric_matrix (fst p) (snd p) (ic_size ppm index_md))
                     / sqrt (out (index_symmetric_matrix (fst p) (fst p) (ic_size ppm index_md))
                             * out (index_symmetric_matrix (snd p) (snd p) (ic_size ppm index_md)))
              else out (index_symmetric_matrix (fst p) (snd p) (ic_size ppm index_md)))",
       OF distinct_strict_keys])
  fix p :: "nat \<times> nat" and out out' :: "nat \<Rightarrow> real"
  let ?N = "ic_size ppm index_md"
  assume p: "p \<in> set (strict_pairs ?N)"
    and same: "out (index_symmetric_matrix (fst p) (snd p) ?N)
                = out' (index_symmetric_matrix (fst p) (snd p) ?N)"
    and rest: "\<forall>x. x \<notin> (\<lambda>p. index_symmetric_matrix (fst p) (snd p) ?N) ` set (strict_pairs ?N)
                  \<longrightarrow> out x = out' x"
  have lt: "fst p < ?N" "snd p < ?N" using p by (auto simp: set_strict_pairs)
  have "out (index_symmetric_matrix (fst p) (fst p) ?N) = out' (index_symmetric_matrix (fst p) (fst p) ?N)"
    using rest diag_not_strict_key [OF lt(1)] by blast
  moreover have "out (index_symmetric_matrix (snd p) (snd p) ?N) = out' (index_symmetric_matrix (snd p) (snd p) ?N)"
    using rest diag_not_strict_key [OF lt(2)] by blast
  ultimately show "(if is_non_zero ppm index_md (index_symmetric_matrix (fst p) (snd p) ?N)
              then out (index_symmetric_matrix (fst p) (snd p) ?N)
                     / sqrt (out (index_symmetric_matrix (fst p) (fst p) ?N)
                             * out (index_symmetric_matrix (snd p) (snd p) ?N))
              else out (index_symmetric_matrix (fst p) (snd p) ?N))
          = (if is_non_zero ppm index_md (index_symmetric_matrix (fst p) (snd p) ?N)
              then out' (index_symmetric_matrix (fst p) (snd p) ?N)
                     / sqrt (out' (index_symmetric_matrix (fst p) (fst p) ?N)
                             * out' (index_symmetric_matrix (snd p) (snd p) ?N))
              else out' (index_symmetric_matrix (fst p) (snd p) ?N))"
    using same by simp
qed

lemma at_k_log_cross_value:
  assumes "i < j" "j < ic_size ppm index_md"
  shows "at_k_log_cross ppm index_md output (index_symmetric_matrix i j (ic_size ppm index_md))
        = (if is_non_zero ppm index_md (index_symmetric_matrix i j (ic_size ppm index_md))
           then output (index_symmetric_matrix i j (ic_size ppm index_md))
                  / sqrt (output (index_symmetric_matrix i i (ic_size ppm index_md))
                          * output (index_symmetric_matrix j j (ic_size ppm index_md)))
           else output (index_symmetric_matrix i j (ic_size ppm index_md)))"
proof -
  have "(i, j) \<in> set (strict_pairs (ic_size ppm index_md))"
    using assms by (simp add: set_strict_pairs)
  then show ?thesis using at_k_log_cross_facts [of ppm index_md "output"] by force
qed

lemma at_k_log_cross_diag:
  assumes "i < ic_size ppm index_md"
  shows "at_k_log_cross ppm index_md output (index_symmetric_matrix i i (ic_size ppm index_md))
        = output (index_symmetric_matrix i i (ic_size ppm index_md))"
  using at_k_log_cross_facts [of ppm index_md "output"] diag_not_strict_key [OF assms] by blast

lemma upt_2: "[0..<2] = [0, Suc 0]" "[Suc 0..<2] = [Suc 0]" "[0..<1] = [0]" "[2..<2] = []"
  "[Suc 0 + 1..<2] = []" "[0 + 1..<2] = [Suc 0]"
  by (simp_all add: upt_rec)

lemma ism_2: "index_symmetric_matrix 0 0 2 = 0" "index_symmetric_matrix 0 (Suc 0) 2 = 1"
  "index_symmetric_matrix (Suc 0) (Suc 0) 2 = 2"
  by (simp_all add: index_symmetric_matrix_def)

lemma init_ex:
  assumes "0 < A" "c \<noteq> 0" "- 1 \<le> c" "c \<le> 1"
  shows "\<not> isl (primordial_analytic_spectrum_init ppt_ad_bi (ppm_ad_bi A c n))"
  using assms
  by (simp add: primordial_analytic_spectrum_init_def analytic_md_body_def upt_2
      analytic_diag_body_def analytic_diag_select_def analytic_cross_body_def
      analytic_cross_select_def analytic_cross_store_def ppt_ad_bi_def ppm_ad_bi_def ppm_blank_def
      scalars_md_def tensors_md_def ism_2 upd2_def Let_def)


lemma init_ex_vals:
  assumes "0 < A" "c \<noteq> 0" "- 1 \<le> c" "c \<le> 1"
  shows "amplitude (projr (primordial_analytic_spectrum_init ppt_ad_bi (ppm_ad_bi A c n))) 0 1 = sqrt (A * A) * c"
   "tilt (projr (primordial_analytic_spectrum_init ppt_ad_bi (ppm_ad_bi A c n))) 0 1 = 1 + n"
   "running (projr (primordial_analytic_spectrum_init ppt_ad_bi (ppm_ad_bi A c n))) 0 1 = 0"
   "is_non_zero (projr (primordial_analytic_spectrum_init ppt_ad_bi (ppm_ad_bi A c n))) 0 1"
   "amplitude (projr (primordial_analytic_spectrum_init ppt_ad_bi (ppm_ad_bi A c n))) 0 0 = A"
   "amplitude (projr (primordial_analytic_spectrum_init ppt_ad_bi (ppm_ad_bi A c n))) 0 2 = A"
   "k_pivot (projr (primordial_analytic_spectrum_init ppt_ad_bi (ppm_ad_bi A c n))) = 1"
  using assms
  by (simp_all add: primordial_analytic_spectrum_init_def analytic_md_body_def upt_2
      analytic_diag_body_def analytic_diag_select_def analytic_cross_body_def
      analytic_cross_select_def analytic_cross_store_def ppt_ad_bi_def ppm_ad_bi_def ppm_blank_def
      scalars_md_def tensors_md_def ism_2 upd2_def Let_def)


lemma direct_log_diag:
  assumes "i < ic_size ppm index_md"
  shows "at_k_log_cross ppm index_md (at_k_log_diag ppm index_md (at_k_direct ppm index_md lnk_in output))
           (index_symmetric_matrix i i (ic_size ppm index_md))
         = ln (primordial_analytic_spectrum ppm index_md
                 (index_symmetric_matrix i i (ic_size ppm index_md)) (exp lnk_in))"
  using assms by (simp add: at_k_log_cross_diag at_k_log_diag_value at_k_direct_value)

lemma direct_log_cross:
  assumes "i < j" "j < ic_size ppm index_md"
  shows "at_k_log_cross ppm index_md (at_k_log_diag ppm index_md (at_k_direct ppm index_md lnk_in output))
           (index_symmetric_matrix i j (ic_size ppm index_md))
         = (if is_non_zero ppm index_md (index_symmetric_matrix i j (ic_size ppm index_md)) then
              primordial_analytic_spectrum ppm index_md
                 (index_symmetric_matrix i j (ic_size ppm index_md)) (exp lnk_in)
              / sqrt (ln (primordial_analytic_spectrum ppm index_md
                            (index_symmetric_matrix i i (ic_size ppm index_md)) (exp lnk_in))
                      * ln (primordial_analytic_spectrum ppm index_md
                            (index_symmetric_matrix j j (ic_size ppm index_md)) (exp lnk_in)))
            else 0)"
proof -
  have i: "i < ic_size ppm index_md" and ij: "i \<le> j" using assms by simp_all
  show ?thesis
    using assms i ij
    by (simp add: at_k_log_cross_value at_k_log_diag_value at_k_log_diag_other at_k_direct_value
        primordial_analytic_spectrum_def)
qed

subsection \<open>Loops with an invariant\<close>

lemma for_loop_append:
  "for_loop (xs @ ys) body s
     = (case for_loop xs body s of Inl e \<Rightarrow> Inl e | Inr s1 \<Rightarrow> for_loop ys body s1)"
  by (induction xs arbitrary: s) (auto split: sum.splits)

lemma for_loop_invariant:
  assumes "for_loop ns body s = Inr s'" and "I s"
    and "\<And>i t t'. i \<in> set ns \<Longrightarrow> I t \<Longrightarrow> body i t = Inr t' \<Longrightarrow> I t'"
  shows "I s'"
  using assms
proof (induction ns arbitrary: s)
  case Nil
  then show ?case by simp
next
  case (Cons n ns)
  from Cons.prems(1) obtain s1 where b: "body n s = Inr s1" and r: "for_loop ns body s1 = Inr s'"
    by (auto split: sum.splits)
  have I1: "I s1" using Cons.prems(3) [of n s s1] Cons.prems(2) b by simp
  show ?case by (rule Cons.IH [OF r I1]) (use Cons.prems(3) in auto)
qed

lemma for_loop_establish:
  assumes run: "for_loop ns body s = Inr s'" and d: "distinct ns" and n: "n \<in> set ns"
    and I: "I s"
    and inv: "\<And>i t t'. i \<in> set ns \<Longrightarrow> I t \<Longrightarrow> body i t = Inr t' \<Longrightarrow> I t'"
    and est: "\<And>t t'. I t \<Longrightarrow> body n t = Inr t' \<Longrightarrow> Q t'"
    and keep: "\<And>i t t'. i \<in> set ns \<Longrightarrow> i \<noteq> n \<Longrightarrow> I t \<Longrightarrow> Q t \<Longrightarrow> body i t = Inr t' \<Longrightarrow> Q t'"
  shows "Q s'"
proof -
  obtain xs ys where ns: "ns = xs @ n # ys" using n by (meson split_list)
  have nys: "n \<notin> set ys" using d unfolding ns by simp
  from run obtain s1 where r1: "for_loop xs body s = Inr s1"
    and r2: "for_loop (n # ys) body s1 = Inr s'"
    unfolding ns for_loop_append by (auto split: sum.splits)
  from r2 obtain s2 where b: "body n s1 = Inr s2" and r3: "for_loop ys body s2 = Inr s'"
    by (auto split: sum.splits)
  have I1: "I s1"
    by (rule for_loop_invariant [where I = I, OF r1 I]) (use inv ns in auto)
  have I2: "I s2" using inv [of n s1 s2] I1 b n by simp
  have Q2: "Q s2" using est [OF I1 b] .
  have "I s' \<and> Q s'"
  proof (rule for_loop_invariant [where I = "\<lambda>t. I t \<and> Q t", OF r3])
    show "I s2 \<and> Q s2" using I2 Q2 by simp
  next
    fix i t t'
    assume i: "i \<in> set ys" and IQ: "I t \<and> Q t" and bt: "body i t = Inr t'"
    have ins: "i \<in> set ns" using i ns by simp
    have ne: "i \<noteq> n" using i nys by auto
    show "I t' \<and> Q t'"
      using inv [OF ins _ bt] keep [OF ins ne _ _ bt] IQ by simp
  qed
  then show ?thesis by simp
qed

subsection \<open>The coefficients stored by primordial\_analytic\_spectrum\_init\<close>

text \<open>
  One pass of the diagonal loop writes the diagonal cell of its initial condition, one pass
  of the off-diagonal loop the cell of its pair; the packed index is injective, so no later
  pass touches a cell written before, and the passes of another mode write another row.
\<close>

lemma static_part_fields:
  assumes "static_part q = static_part p"
  shows "ic_size q = ic_size p" "md_size q = md_size p" "k_pivot q = k_pivot p"
proof -
  have a: "\<And>x. ic_size (static_part x) = ic_size x" "\<And>x. md_size (static_part x) = md_size x"
    "\<And>x. k_pivot (static_part x) = k_pivot x"
    by (simp_all add: static_part_def)
  show "ic_size q = ic_size p" using a(1) [of q] a(1) [of p] assms by simp
  show "md_size q = md_size p" using a(2) [of q] a(2) [of p] assms by simp
  show "k_pivot q = k_pivot p" using a(3) [of q] a(3) [of p] assms by simp
qed

lemma select_static_part:
  "analytic_cross_select ppt (static_part x) index_md i j l
     = analytic_cross_select ppt x index_md i j l"
  by (simp add: analytic_cross_select_def static_part_def split del: if_split cong: if_cong)

lemma select_static:
  assumes "static_part q = static_part p"
  shows "analytic_cross_select ppt q index_md i j l = analytic_cross_select ppt p index_md i j l"
  using select_static_part [of ppt q index_md i j l] select_static_part [of ppt p index_md i j l]
    assms by simp

lemma diag_body_facts:
  assumes "analytic_diag_body ppt index_md i s = Inr s'"
  shows "static_part (snd s') = static_part (snd s)"
    and "\<And>md' x. md' \<noteq> index_md \<or> x \<noteq> index_symmetric_matrix i i (ic_size (snd s) index_md)
           \<Longrightarrow> coefficients (snd s') md' x = coefficients (snd s) md' x"
    and "is_non_zero (snd s') index_md (index_symmetric_matrix i i (ic_size (snd s) index_md))"
    and "0 < amplitude (snd s') index_md (index_symmetric_matrix i i (ic_size (snd s) index_md))"
  using assms
  by (auto simp: analytic_diag_body_def Let_def static_part_def coefficients_def upd2_def
      split: if_splits)

lemma cross_body_facts:
  assumes "analytic_cross_body ppt index_md i j s = Inr s'"
  shows "static_part (snd s') = static_part (snd s)"
    and "\<And>md' x. md' \<noteq> index_md \<or> x \<noteq> index_symmetric_matrix i j (ic_size (snd s) index_md)
           \<Longrightarrow> coefficients (snd s') md' x = coefficients (snd s) md' x"
    and "fst s' = analytic_cross_select ppt (snd s) index_md i j (fst s)"
    and "- 1 \<le> one_correlation (fst s')" and "one_correlation (fst s') \<le> 1"
    and "one_correlation (fst s') = 0 \<Longrightarrow>
           \<not> is_non_zero (snd s') index_md
                (index_symmetric_matrix i j (ic_size (snd s) index_md))"
    and "one_correlation (fst s') \<noteq> 0 \<Longrightarrow>
           coefficients (snd s') index_md (index_symmetric_matrix i j (ic_size (snd s) index_md))
           = (True,
              sqrt (amplitude (snd s) index_md
                      (index_symmetric_matrix i i (ic_size (snd s) index_md))
                    * amplitude (snd s) index_md
                        (index_symmetric_matrix j j (ic_size (snd s) index_md)))
                * one_correlation (fst s'),
              0.5 * (tilt (snd s) index_md (index_symmetric_matrix i i (ic_size (snd s) index_md))
                     + tilt (snd s) index_md
                         (index_symmetric_matrix j j (ic_size (snd s) index_md)))
                + one_tilt (fst s'),
              0.5 * (running (snd s) index_md
                       (index_symmetric_matrix i i (ic_size (snd s) index_md))
                     + running (snd s) index_md
                         (index_symmetric_matrix j j (ic_size (snd s) index_md)))
                + one_running (fst s'))"
  using assms
  by (auto simp: analytic_cross_body_def analytic_cross_store_def Let_def static_part_def
      coefficients_def upd2_def split: if_splits)

lemma ism_cross_not_diag:
  assumes "i < j" "j < N" "x < N"
  shows "index_symmetric_matrix i j N \<noteq> index_symmetric_matrix x x N"
proof
  assume eq: "index_symmetric_matrix i j N = index_symmetric_matrix x x N"
  have "i = x \<and> j = x" using assms by (intro ism_inj [OF _ _ _ _ eq]) simp_all
  then show False using assms by simp
qed

lemma ism_cross_ne:
  assumes "i < j" "j < N" "i' < j'" "j' < N" "i \<noteq> i' \<or> j \<noteq> j'"
  shows "index_symmetric_matrix i j N \<noteq> index_symmetric_matrix i' j' N"
proof
  assume eq: "index_symmetric_matrix i j N = index_symmetric_matrix i' j' N"
  have "i = i' \<and> j = j'" using assms by (intro ism_inj [OF _ _ _ _ eq]) simp_all
  then show False using assms by simp
qed

lemma ism_diag_ne:
  assumes "i < N" "i' < N" "i \<noteq> i'"
  shows "index_symmetric_matrix i i N \<noteq> index_symmetric_matrix i' i' N"
proof
  assume eq: "index_symmetric_matrix i i N = index_symmetric_matrix i' i' N"
  have "i = i' \<and> i = i'" using assms by (intro ism_inj [OF _ _ _ _ eq]) simp_all
  then show False using assms by simp
qed

lemma coefficients_fields:
  assumes "coefficients q' index_md x = coefficients q index_md x"
  shows "is_non_zero q' index_md x = is_non_zero q index_md x"
    and "amplitude q' index_md x = amplitude q index_md x"
    and "tilt q' index_md x = tilt q index_md x"
    and "running q' index_md x = running q index_md x"
  using assms by (simp_all add: coefficients_def)

lemma cross_relation_kept:
  assumes R: "cross_relation N l q index_md i j"
    and "coefficients q' index_md (index_symmetric_matrix i j N)
         = coefficients q index_md (index_symmetric_matrix i j N)"
    and "coefficients q' index_md (index_symmetric_matrix i i N)
         = coefficients q index_md (index_symmetric_matrix i i N)"
    and "coefficients q' index_md (index_symmetric_matrix j j N)
         = coefficients q index_md (index_symmetric_matrix j j N)"
  shows "cross_relation N l q' index_md i j"
  using R
  unfolding cross_relation_def coefficients_def
    coefficients_fields [OF assms(2)] coefficients_fields [OF assms(3)]
    coefficients_fields [OF assms(4)] .

lemma diag_loop:
  assumes run: "for_loop [0..<N] (analytic_diag_body ppt index_md) s = Inr s'"
    and J: "static_part (snd s) = static_part p0" and N: "N = ic_size p0 index_md"
  shows "static_part (snd s') = static_part p0" and "diagonal_set N (snd s') index_md"
proof -
  have inv: "static_part (snd t') = static_part p0"
    if "static_part (snd t) = static_part p0" "analytic_diag_body ppt index_md i t = Inr t'"
    for i t t'
    using diag_body_facts(1) [OF that(2)] that(1) by simp
  show "static_part (snd s') = static_part p0"
    by (rule for_loop_invariant [where I = "\<lambda>t. static_part (snd t) = static_part p0", OF run J])
      (rule inv)
  show "diagonal_set N (snd s') index_md"
    unfolding diagonal_set_def
  proof (intro allI impI)
    fix i assume i: "i < N"
    show "is_non_zero (snd s') index_md (index_symmetric_matrix i i N)
          \<and> 0 < amplitude (snd s') index_md (index_symmetric_matrix i i N)"
    proof (rule for_loop_establish [where I = "\<lambda>t. static_part (snd t) = static_part p0"
          and Q = "\<lambda>t. is_non_zero (snd t) index_md (index_symmetric_matrix i i N)
                       \<and> 0 < amplitude (snd t) index_md (index_symmetric_matrix i i N)"
          and n = i, OF run _ _ J])
      show "distinct [0..<N]" by simp
      show "i \<in> set [0..<N]" using i by simp
    next
      fix i' t t'
      assume "static_part (snd t) = static_part p0"
        "analytic_diag_body ppt index_md i' t = Inr t'"
      then show "static_part (snd t') = static_part p0" by (rule inv)
    next
      fix t t'
      assume Jt: "static_part (snd t) = static_part p0"
        and b: "analytic_diag_body ppt index_md i t = Inr t'"
      have "ic_size (snd t) index_md = N" using static_part_fields(1) [OF Jt] N by simp
      then show "is_non_zero (snd t') index_md (index_symmetric_matrix i i N)
          \<and> 0 < amplitude (snd t') index_md (index_symmetric_matrix i i N)"
        using diag_body_facts(3,4) [OF b] by simp
    next
      fix i' t t'
      assume i': "i' \<in> set [0..<N]" and ne: "i' \<noteq> i"
        and Jt: "static_part (snd t) = static_part p0"
        and Q: "is_non_zero (snd t) index_md (index_symmetric_matrix i i N)
          \<and> 0 < amplitude (snd t) index_md (index_symmetric_matrix i i N)"
        and b: "analytic_diag_body ppt index_md i' t = Inr t'"
      have n: "ic_size (snd t) index_md = N" using static_part_fields(1) [OF Jt] N by simp
      have "index_symmetric_matrix i i N \<noteq> index_symmetric_matrix i' i' N"
        using i i' ne by (intro ism_diag_ne) simp_all
      then have "coefficients (snd t') index_md (index_symmetric_matrix i i N)
                 = coefficients (snd t) index_md (index_symmetric_matrix i i N)"
        using diag_body_facts(2) [OF b, of index_md "index_symmetric_matrix i i N"] n by simp
      then show "is_non_zero (snd t') index_md (index_symmetric_matrix i i N)
          \<and> 0 < amplitude (snd t') index_md (index_symmetric_matrix i i N)"
        using Q by (simp add: coefficients_def)
    qed
  qed
qed

lemma cross_pass:
  assumes b: "analytic_cross_body ppt index_md i' j' t = Inr t'"
    and Jt: "static_part (snd t) = static_part p0" and N: "N = ic_size p0 index_md"
    and ij': "i' < j'" "j' < N"
    and D: "diagonal_set N (snd t) index_md"
  shows "static_part (snd t') = static_part p0"
    and "diagonal_set N (snd t') index_md"
    and "\<And>i j l. i < j \<Longrightarrow> j < N \<Longrightarrow> i \<noteq> i' \<or> j \<noteq> j' \<Longrightarrow>
           cross_relation N l (snd t) index_md i j \<Longrightarrow> cross_relation N l (snd t') index_md i j"
    and "\<exists>l0. cross_relation N (analytic_cross_select ppt p0 index_md i' j' l0)
                 (snd t') index_md i' j'"
proof -
  have n: "ic_size (snd t) index_md = N" using static_part_fields(1) [OF Jt] N by simp
  note f = cross_body_facts [OF b, unfolded n]
  show "static_part (snd t') = static_part p0" using f(1) Jt by simp
  have diag: "coefficients (snd t') index_md (index_symmetric_matrix x x N)
              = coefficients (snd t) index_md (index_symmetric_matrix x x N)" if "x < N" for x
  proof -
    have "index_symmetric_matrix x x N \<noteq> index_symmetric_matrix i' j' N"
      using ism_cross_not_diag [OF ij' that] by simp
    then show ?thesis using f(2) [of index_md "index_symmetric_matrix x x N"] by simp
  qed
  show "diagonal_set N (snd t') index_md"
    unfolding diagonal_set_def
  proof (intro allI impI)
    fix x assume x: "x < N"
    have "is_non_zero (snd t) index_md (index_symmetric_matrix x x N)
          \<and> 0 < amplitude (snd t) index_md (index_symmetric_matrix x x N)"
      using D x by (simp add: diagonal_set_def)
    then show "is_non_zero (snd t') index_md (index_symmetric_matrix x x N)
          \<and> 0 < amplitude (snd t') index_md (index_symmetric_matrix x x N)"
      using diag [OF x] by (simp add: coefficients_def)
  qed
  show "cross_relation N l (snd t) index_md i j \<Longrightarrow> cross_relation N l (snd t') index_md i j"
    if "i < j" "j < N" "i \<noteq> i' \<or> j \<noteq> j'" for i j l
  proof -
    assume R: "cross_relation N l (snd t) index_md i j"
    have "index_symmetric_matrix i j N \<noteq> index_symmetric_matrix i' j' N"
      using that ij' by (intro ism_cross_ne) simp_all
    then have c: "coefficients (snd t') index_md (index_symmetric_matrix i j N)
                  = coefficients (snd t) index_md (index_symmetric_matrix i j N)"
      using f(2) [of index_md "index_symmetric_matrix i j N"] by simp
    have i: "i < N" using that by simp
    show ?thesis
      by (rule cross_relation_kept [OF R c diag [OF i] diag [OF that(2)]])
  qed
  have sel: "fst t' = analytic_cross_select ppt p0 index_md i' j' (fst t)"
    using f(3) select_static [OF Jt] by simp
  have i': "i' < N" using ij' by simp
  have "cross_relation N (fst t') (snd t') index_md i' j'"
  proof (cases "one_correlation (fst t') = 0")
    case True
    then show ?thesis using f(4,5) f(6) by (simp add: cross_relation_def)
  next
    case False
    then show ?thesis
      using f(4,5)
      by (simp add: cross_relation_def f(7) [OF False] coefficients_fields [OF diag [OF i']]
          coefficients_fields [OF diag [OF ij'(2)]])
  qed
  then show "\<exists>l0. cross_relation N (analytic_cross_select ppt p0 index_md i' j' l0)
                 (snd t') index_md i' j'"
    unfolding sel by blast
qed

lemma inner_loop:
  assumes run: "for_loop [i1 + 1..<N] (analytic_cross_body ppt index_md i1) s = Inr s'"
    and J: "static_part (snd s) = static_part p0" and N: "N = ic_size p0 index_md"
    and D: "diagonal_set N (snd s) index_md"
  shows "static_part (snd s') = static_part p0 \<and> diagonal_set N (snd s') index_md"
    and "\<And>i j l. i < j \<Longrightarrow> j < N \<Longrightarrow> i \<noteq> i1 \<Longrightarrow>
           cross_relation N l (snd s) index_md i j \<Longrightarrow> cross_relation N l (snd s') index_md i j"
    and "\<And>j. i1 < j \<Longrightarrow> j < N \<Longrightarrow>
           \<exists>l0. cross_relation N (analytic_cross_select ppt p0 index_md i1 j l0)
                  (snd s') index_md i1 j"
proof -
  let ?I = "\<lambda>t. static_part (snd t) = static_part p0 \<and> diagonal_set N (snd t) index_md"
  have inv: "?I t'" if "j' \<in> set [i1 + 1..<N]" "?I t"
    "analytic_cross_body ppt index_md i1 j' t = Inr t'" for j' t t'
  proof -
    have ij: "i1 < j'" "j' < N" using that(1) by simp_all
    have Jt: "static_part (snd t) = static_part p0" and Dt: "diagonal_set N (snd t) index_md"
      using that(2) by simp_all
    show ?thesis using cross_pass(1,2) [OF that(3) Jt N ij Dt] by simp
  qed
  show "?I s'"
  proof (rule for_loop_invariant [where I = ?I, OF run])
    show "?I s" using J D by simp
  next
    fix j' t t'
    assume "j' \<in> set [i1 + 1..<N]" "?I t" "analytic_cross_body ppt index_md i1 j' t = Inr t'"
    then show "?I t'" by (rule inv)
  qed
  show "cross_relation N l (snd s) index_md i j \<Longrightarrow> cross_relation N l (snd s') index_md i j"
    if "i < j" "j < N" "i \<noteq> i1" for i j l
  proof -
    assume R: "cross_relation N l (snd s) index_md i j"
    have "?I s' \<and> cross_relation N l (snd s') index_md i j"
    proof (rule for_loop_invariant [where I = "\<lambda>t. ?I t \<and> cross_relation N l (snd t) index_md i j",
          OF run])
      show "?I s \<and> cross_relation N l (snd s) index_md i j" using J D R by simp
    next
      fix j' t t'
      assume j': "j' \<in> set [i1 + 1..<N]"
        and IR: "?I t \<and> cross_relation N l (snd t) index_md i j"
        and b: "analytic_cross_body ppt index_md i1 j' t = Inr t'"
      have ij: "i1 < j'" "j' < N" using j' by simp_all
      have Jt: "static_part (snd t) = static_part p0" and Dt: "diagonal_set N (snd t) index_md"
        using IR by simp_all
      have ne: "i \<noteq> i1 \<or> j \<noteq> j'" using that(3) by simp
      have Rt: "cross_relation N l (snd t) index_md i j" using IR by simp
      have It: "?I t" using IR by simp
      have "cross_relation N l (snd t') index_md i j"
        by (rule cross_pass(3) [OF b Jt N ij Dt that(1,2) ne Rt])
      then show "?I t' \<and> cross_relation N l (snd t') index_md i j"
        using inv [OF j' It b] by simp
    qed
    then show ?thesis by simp
  qed
  show "\<exists>l0. cross_relation N (analytic_cross_select ppt p0 index_md i1 j l0) (snd s') index_md i1 j"
    if "i1 < j" "j < N" for j
  proof (rule for_loop_establish [where I = ?I and n = j
        and Q = "\<lambda>t. \<exists>l0. cross_relation N (analytic_cross_select ppt p0 index_md i1 j l0)
                         (snd t) index_md i1 j", OF run])
    show "distinct [i1 + 1..<N]" by simp
    show "j \<in> set [i1 + 1..<N]" using that by simp
    show "?I s" using J D by simp
  next
    fix j' t t'
    assume "j' \<in> set [i1 + 1..<N]" "?I t" "analytic_cross_body ppt index_md i1 j' t = Inr t'"
    then show "?I t'" by (rule inv)
  next
    fix t t'
    assume It: "?I t" and b: "analytic_cross_body ppt index_md i1 j t = Inr t'"
    have Jt: "static_part (snd t) = static_part p0" and Dt: "diagonal_set N (snd t) index_md"
      using It by simp_all
    show "\<exists>l0. cross_relation N (analytic_cross_select ppt p0 index_md i1 j l0)
                 (snd t') index_md i1 j"
      by (rule cross_pass(4) [OF b Jt N that Dt])
  next
    fix j' t t'
    assume j': "j' \<in> set [i1 + 1..<N]" and ne: "j' \<noteq> j" and It: "?I t"
      and Q: "\<exists>l0. cross_relation N (analytic_cross_select ppt p0 index_md i1 j l0)
                 (snd t) index_md i1 j"
      and b: "analytic_cross_body ppt index_md i1 j' t = Inr t'"
    have ij: "i1 < j'" "j' < N" using j' by simp_all
    have Jt: "static_part (snd t) = static_part p0" and Dt: "diagonal_set N (snd t) index_md"
      using It by simp_all
    from Q obtain l0 where
      R: "cross_relation N (analytic_cross_select ppt p0 index_md i1 j l0) (snd t) index_md i1 j"
      by blast
    have ne': "i1 \<noteq> i1 \<or> j \<noteq> j'" using ne by simp
    have "cross_relation N (analytic_cross_select ppt p0 index_md i1 j l0) (snd t') index_md i1 j"
      by (rule cross_pass(3) [OF b Jt N ij Dt that ne' R])
    then show "\<exists>l0. cross_relation N (analytic_cross_select ppt p0 index_md i1 j l0)
                 (snd t') index_md i1 j"
      by blast
  qed
qed

lemma outer_loop:
  assumes run: "for_loop [0..<N]
                  (\<lambda>i1. for_loop [i1 + 1..<N] (analytic_cross_body ppt index_md i1)) s = Inr s'"
    and J: "static_part (snd s) = static_part p0" and N: "N = ic_size p0 index_md"
    and D: "diagonal_set N (snd s) index_md"
  shows "static_part (snd s') = static_part p0 \<and> diagonal_set N (snd s') index_md"
    and "\<And>i j. i < j \<Longrightarrow> j < N \<Longrightarrow>
           \<exists>l0. cross_relation N (analytic_cross_select ppt p0 index_md i j l0)
                  (snd s') index_md i j"
proof -
  let ?I = "\<lambda>t. static_part (snd t) = static_part p0 \<and> diagonal_set N (snd t) index_md"
  have inv: "?I t'"
    if "?I t" "for_loop [i1 + 1..<N] (analytic_cross_body ppt index_md i1) t = Inr t'"
    for i1 t t'
  proof -
    have Jt: "static_part (snd t) = static_part p0" and Dt: "diagonal_set N (snd t) index_md"
      using that(1) by simp_all
    show ?thesis by (rule inner_loop(1) [OF that(2) Jt N Dt])
  qed
  show "?I s'"
  proof (rule for_loop_invariant [where I = ?I, OF run])
    show "?I s" using J D by simp
  next
    fix i1 t t'
    assume "i1 \<in> set [0..<N]" "?I t"
      "for_loop [i1 + 1..<N] (analytic_cross_body ppt index_md i1) t = Inr t'"
    then show "?I t'" using inv by blast
  qed
  show "\<exists>l0. cross_relation N (analytic_cross_select ppt p0 index_md i j l0) (snd s') index_md i j"
    if "i < j" "j < N" for i j
  proof (rule for_loop_establish [where I = ?I and n = i
        and Q = "\<lambda>t. \<exists>l0. cross_relation N (analytic_cross_select ppt p0 index_md i j l0)
                         (snd t) index_md i j", OF run])
    show "distinct [0..<N]" by simp
    show "i \<in> set [0..<N]" using that by simp
    show "?I s" using J D by simp
  next
    fix i1 t t'
    assume "i1 \<in> set [0..<N]" "?I t"
      "for_loop [i1 + 1..<N] (analytic_cross_body ppt index_md i1) t = Inr t'"
    then show "?I t'" using inv by blast
  next
    fix t t'
    assume It: "?I t"
      and b: "for_loop [i + 1..<N] (analytic_cross_body ppt index_md i) t = Inr t'"
    have Jt: "static_part (snd t) = static_part p0" and Dt: "diagonal_set N (snd t) index_md"
      using It by simp_all
    show "\<exists>l0. cross_relation N (analytic_cross_select ppt p0 index_md i j l0)
                 (snd t') index_md i j"
      by (rule inner_loop(3) [OF b Jt N Dt that])
  next
    fix i1 t t'
    assume i1: "i1 \<in> set [0..<N]" and ne: "i1 \<noteq> i" and It: "?I t"
      and Q: "\<exists>l0. cross_relation N (analytic_cross_select ppt p0 index_md i j l0)
                 (snd t) index_md i j"
      and b: "for_loop [i1 + 1..<N] (analytic_cross_body ppt index_md i1) t = Inr t'"
    have Jt: "static_part (snd t) = static_part p0" and Dt: "diagonal_set N (snd t) index_md"
      using It by simp_all
    from Q obtain l0 where
      R: "cross_relation N (analytic_cross_select ppt p0 index_md i j l0) (snd t) index_md i j"
      by blast
    have ne': "i \<noteq> i1" using ne by simp
    have "cross_relation N (analytic_cross_select ppt p0 index_md i j l0) (snd t') index_md i j"
      by (rule inner_loop(2) [OF b Jt N Dt that ne' R])
    then show "\<exists>l0. cross_relation N (analytic_cross_select ppt p0 index_md i j l0)
                 (snd t') index_md i j"
      by blast
  qed
qed

lemma md_body_ready:
  assumes run: "analytic_md_body ppt index_md s = Inr s'"
    and J: "static_part (snd s) = static_part p0"
  shows "static_part (snd s') = static_part p0" and "row_ready ppt p0 index_md (snd s')"
proof -
  define N where "N = ic_size p0 index_md"
  have n: "ic_size (snd s) index_md = N" using static_part_fields(1) [OF J] N_def by simp
  from run obtain s1 where
    r1: "for_loop [0..<N] (analytic_diag_body ppt index_md) s = Inr s1"
    and r2: "for_loop [0..<N]
               (\<lambda>i1. for_loop [i1 + 1..<N] (analytic_cross_body ppt index_md i1)) s1 = Inr s'"
    unfolding analytic_md_body_def n by (auto split: sum.splits)
  note d = diag_loop [OF r1 J N_def]
  note c = outer_loop [OF r2 d(1) N_def d(2)]
  show "static_part (snd s') = static_part p0" using c(1) by simp
  show "row_ready ppt p0 index_md (snd s')"
    unfolding row_ready_def N_def [symmetric] using c(1) c(2) by blast
qed

lemma diag_body_other_rows:
  assumes "analytic_diag_body ppt index_md i t = Inr t'" "md' \<noteq> index_md"
  shows "coefficients (snd t') md' x = coefficients (snd t) md' x"
  using diag_body_facts(2) [OF assms(1), of md' x] assms(2) by simp

lemma cross_body_other_rows:
  assumes "analytic_cross_body ppt index_md i j t = Inr t'" "md' \<noteq> index_md"
  shows "coefficients (snd t') md' x = coefficients (snd t) md' x"
  using cross_body_facts(2) [OF assms(1), of md' x] assms(2) by simp

lemma md_body_other_rows:
  assumes run: "analytic_md_body ppt index_md s = Inr s'" and ne: "md' \<noteq> index_md"
  shows "coefficients (snd s') md' x = coefficients (snd s) md' x"
proof -
  let ?I = "\<lambda>t. coefficients (snd t) md' x = coefficients (snd s) md' x"
  from run obtain s1 where
    r1: "for_loop [0..<ic_size (snd s) index_md] (analytic_diag_body ppt index_md) s = Inr s1"
    and r2: "for_loop [0..<ic_size (snd s) index_md]
               (\<lambda>i1. for_loop [i1 + 1..<ic_size (snd s) index_md]
                        (analytic_cross_body ppt index_md i1)) s1 = Inr s'"
    unfolding analytic_md_body_def by (auto split: sum.splits)
  have I1: "?I s1"
  proof (rule for_loop_invariant [where I = ?I, OF r1])
    show "?I s" by simp
  next
    fix i t t'
    assume "?I t" "analytic_diag_body ppt index_md i t = Inr t'"
    then show "?I t'" using diag_body_other_rows [OF _ ne, of ppt i t t' x] by simp
  qed
  have inner: "?I t'"
    if "?I t" "for_loop [i1 + 1..<ic_size (snd s) index_md]
                 (analytic_cross_body ppt index_md i1) t = Inr t'" for i1 t t'
  proof (rule for_loop_invariant [where I = ?I, OF that(2) that(1)])
    fix j u u'
    assume "?I u" "analytic_cross_body ppt index_md i1 j u = Inr u'"
    then show "?I u'" using cross_body_other_rows [OF _ ne, of ppt i1 j u u' x] by simp
  qed
  show ?thesis
  proof (rule for_loop_invariant [where I = ?I, OF r2 I1])
    fix i1 t t'
    assume "?I t" "for_loop [i1 + 1..<ic_size (snd s) index_md]
                 (analytic_cross_body ppt index_md i1) t = Inr t'"
    then show "?I t'" by (rule inner)
  qed
qed

lemma row_ready_kept:
  assumes "row_ready ppt p0 index_md q"
    and "\<And>x. coefficients q' index_md x = coefficients q index_md x"
  shows "row_ready ppt p0 index_md q'"
proof -
  have e: "is_non_zero q' index_md = is_non_zero q index_md"
    "amplitude q' index_md = amplitude q index_md"
    "tilt q' index_md = tilt q index_md" "running q' index_md = running q index_md"
    using assms(2) by (auto simp: coefficients_def fun_eq_iff)
  show ?thesis
    using assms(1)
    unfolding row_ready_def diagonal_set_def cross_relation_def coefficients_def e .
qed

lemma init_ready:
  assumes run: "primordial_analytic_spectrum_init ppt p0 = Inr p'"
    and md: "index_md < md_size p0"
  shows "static_part p' = static_part p0" and "row_ready ppt p0 index_md p'"
proof -
  let ?I = "\<lambda>t. static_part (snd t) = static_part p0"
  let ?s0 = "(\<lparr>one_amplitude = 0, one_tilt = 0, one_running = 0, one_correlation = 0\<rparr>, p0)"
  from run obtain sF where
    r: "for_loop [0..<md_size p0] (analytic_md_body ppt) ?s0 = Inr sF" and p': "p' = snd sF"
    unfolding primordial_analytic_spectrum_init_def by (auto split: sum.splits)
  have inv: "?I t'" if "?I t" "analytic_md_body ppt i t = Inr t'" for i t t'
    using md_body_ready(1) [OF that(2) that(1)] .
  have "?I sF"
  proof (rule for_loop_invariant [where I = ?I, OF r])
    show "?I ?s0" by simp
  next
    fix i t t'
    assume "?I t" "analytic_md_body ppt i t = Inr t'"
    then show "?I t'" by (rule inv)
  qed
  then show "static_part p' = static_part p0" using p' by simp
  have "row_ready ppt p0 index_md (snd sF)"
  proof (rule for_loop_establish [where I = ?I and n = index_md
        and Q = "\<lambda>t. row_ready ppt p0 index_md (snd t)", OF r])
    show "distinct [0..<md_size p0]" by simp
    show "index_md \<in> set [0..<md_size p0]" using md by simp
    show "?I ?s0" by simp
  next
    fix i t t'
    assume "?I t" "analytic_md_body ppt i t = Inr t'"
    then show "?I t'" by (rule inv)
  next
    fix t t'
    assume It: "?I t" and b: "analytic_md_body ppt index_md t = Inr t'"
    show "row_ready ppt p0 index_md (snd t')" by (rule md_body_ready(2) [OF b It])
  next
    fix i t t'
    assume ne: "i \<noteq> index_md" and Q: "row_ready ppt p0 index_md (snd t)"
      and b: "analytic_md_body ppt i t = Inr t'"
    have "index_md \<noteq> i" using ne by simp
    then have "\<And>x. coefficients (snd t') index_md x = coefficients (snd t) index_md x"
      using md_body_other_rows [OF b] by simp
    then show "row_ready ppt p0 index_md (snd t')" using row_ready_kept [OF Q] by simp
  qed
  then show "row_ready ppt p0 index_md p'" using p' by simp
qed

text \<open>
  After a successful \<^verbatim>\<open>primordial_analytic_spectrum_init\<close> every diagonal cell of every
  mode is flagged non-zero and holds a positive amplitude.
\<close>

lemma analytic_init_diagonal:
  assumes "primordial_analytic_spectrum_init ppt ppm = Inr ppm'"
    and "index_md < md_size ppm" and "i < ic_size ppm index_md"
  shows "is_non_zero ppm' index_md (index_symmetric_matrix i i (ic_size ppm' index_md))"
    and "0 < amplitude ppm' index_md (index_symmetric_matrix i i (ic_size ppm' index_md))"
proof -
  note ready = init_ready [OF assms(1,2)]
  have n: "ic_size ppm' = ic_size ppm" using static_part_fields(1) [OF ready(1)] .
  have D: "diagonal_set (ic_size ppm index_md) ppm' index_md"
    using ready(2) by (simp add: row_ready_def)
  show "is_non_zero ppm' index_md (index_symmetric_matrix i i (ic_size ppm' index_md))"
    and "0 < amplitude ppm' index_md (index_symmetric_matrix i i (ic_size ppm' index_md))"
    using D assms(3) unfolding n by (simp_all add: diagonal_set_def)
qed

subsection \<open>The off-diagonal spectrum against the diagonal ones\<close>

lemma sqrt_exp_half: "sqrt (exp x) = exp (x / 2)" for x :: real
proof (rule real_sqrt_unique)
  show "(exp (x / 2))\<^sup>2 = exp x" by (simp add: power2_eq_square flip: exp_add)
  show "0 \<le> exp (x / 2)" by simp
qed

lemma init_ex_diag:
  assumes "0 < A" "c \<noteq> 0" "- 1 \<le> c" "c \<le> 1"
  shows "tilt (projr (primordial_analytic_spectrum_init ppt_ad_bi (ppm_ad_bi A c n))) 0 0 = 1"
   "tilt (projr (primordial_analytic_spectrum_init ppt_ad_bi (ppm_ad_bi A c n))) 0 2 = 1"
   "running (projr (primordial_analytic_spectrum_init ppt_ad_bi (ppm_ad_bi A c n))) 0 0 = 0"
   "running (projr (primordial_analytic_spectrum_init ppt_ad_bi (ppm_ad_bi A c n))) 0 2 = 0"
   "is_non_zero (projr (primordial_analytic_spectrum_init ppt_ad_bi (ppm_ad_bi A c n))) 0 0"
   "is_non_zero (projr (primordial_analytic_spectrum_init ppt_ad_bi (ppm_ad_bi A c n))) 0 2"
  using assms
  by (simp_all add: primordial_analytic_spectrum_init_def analytic_md_body_def upt_2
      analytic_diag_body_def analytic_diag_select_def analytic_cross_body_def
      analytic_cross_select_def analytic_cross_store_def ppt_ad_bi_def ppm_ad_bi_def ppm_blank_def
      scalars_md_def tensors_md_def ism_2 upd2_def Let_def)

text \<open>
  The sample with two initial conditions, unit amplitudes, tilts 1, correlation \<open>1/2\<close> and
  cross tilt \<open>n_ad_bi = 1\<close>, read at \<open>k = e\<close> with the pivot at \<open>k = 1\<close>: both diagonal
  spectra are 1 and the off-diagonal one is \<open>e / 2\<close>, not
  \<open>c sqrt (P\<^sub>1\<^sub>1 P\<^sub>2\<^sub>2) = 1 / 2\<close>.
\<close>

theorem cross_spectrum_not_geometric_mean:
  "\<not> isl (primordial_analytic_spectrum_init ppt_ad_bi (ppm_ad_bi 1 (1 / 2) 1))
   \<and> c_ad_bi (ppm_ad_bi 1 (1 / 2) 1) = 1 / 2
   \<and> primordial_analytic_spectrum
        (projr (primordial_analytic_spectrum_init ppt_ad_bi (ppm_ad_bi 1 (1 / 2) 1))) 0
        (index_symmetric_matrix 0 0 2) (exp 1) = 1
   \<and> primordial_analytic_spectrum
        (projr (primordial_analytic_spectrum_init ppt_ad_bi (ppm_ad_bi 1 (1 / 2) 1))) 0
        (index_symmetric_matrix 1 1 2) (exp 1) = 1
   \<and> primordial_analytic_spectrum
        (projr (primordial_analytic_spectrum_init ppt_ad_bi (ppm_ad_bi 1 (1 / 2) 1))) 0
        (index_symmetric_matrix 0 1 2) (exp 1) = exp 1 / 2
   \<and> primordial_analytic_spectrum
        (projr (primordial_analytic_spectrum_init ppt_ad_bi (ppm_ad_bi 1 (1 / 2) 1))) 0
        (index_symmetric_matrix 0 1 2) (exp 1)
      \<noteq> c_ad_bi (ppm_ad_bi 1 (1 / 2) 1)
          * sqrt (primordial_analytic_spectrum
                    (projr (primordial_analytic_spectrum_init ppt_ad_bi (ppm_ad_bi 1 (1 / 2) 1))) 0
                    (index_symmetric_matrix 0 0 2) (exp 1)
                  * primordial_analytic_spectrum
                      (projr (primordial_analytic_spectrum_init ppt_ad_bi (ppm_ad_bi 1 (1 / 2) 1)))
                      0 (index_symmetric_matrix 1 1 2) (exp 1))"
proof -
  let ?p = "projr (primordial_analytic_spectrum_init ppt_ad_bi (ppm_ad_bi 1 (1 / 2) 1))"
  have a: "(0::real) < 1" "(1 / 2::real) \<noteq> 0" "- 1 \<le> (1 / 2::real)" "(1 / 2::real) \<le> 1"
    by simp_all
  note v = init_ex_vals [OF a, of 1, unfolded One_nat_def] init_ex_diag [OF a, of 1]
  have c: "c_ad_bi (ppm_ad_bi 1 (1 / 2) 1) = 1 / 2" by (simp add: ppm_ad_bi_def)
  have p00: "primordial_analytic_spectrum ?p 0 (index_symmetric_matrix 0 0 2) (exp 1) = 1"
    by (simp add: primordial_analytic_spectrum_def ism_2 v)
  have p11: "primordial_analytic_spectrum ?p 0 (index_symmetric_matrix 1 1 2) (exp 1) = 1"
    using ism_2(3) by (simp add: primordial_analytic_spectrum_def v)
  have p01: "primordial_analytic_spectrum ?p 0 (index_symmetric_matrix 0 1 2) (exp 1) = exp 1 / 2"
    using ism_2(2) by (simp add: primordial_analytic_spectrum_def v)
  have e: "exp 1 / 2 \<noteq> (1 / 2::real)"
  proof -
    have "(1::real) < exp 1" by simp
    then show ?thesis by simp
  qed
  show ?thesis
    unfolding p00 p11 p01 c using init_ex [OF a, of 1] e by simp
qed

text \<open>
  The stores of one pass, read back through \<^verbatim>\<open>primordial_analytic_spectrum\<close>: with the
  correlation, tilt and running that the chain of tests leaves in the locals of the pass,
  the off-diagonal spectrum is the correlation times the geometric mean of the diagonal
  ones times the factor of the cross tilt and running.
\<close>

lemma cross_spectrum_of_selection:
  assumes "primordial_analytic_spectrum_init ppt ppm = Inr ppm'"
    and "index_md < md_size ppm"
    and "index_ic1 < index_ic2" and "index_ic2 < ic_size ppm index_md"
    and "0 < k" and "0 < k_pivot ppm"
  shows "\<exists>l0. let l = analytic_cross_select ppt ppm index_md index_ic1 index_ic2 l0;
                  N = ic_size ppm index_md;
                  x = ln (k / k_pivot ppm)
              in - 1 \<le> one_correlation l \<and> one_correlation l \<le> 1
                 \<and> primordial_analytic_spectrum ppm' index_md
                      (index_symmetric_matrix index_ic1 index_ic2 N) k
                   = one_correlation l
                     * sqrt (primordial_analytic_spectrum ppm' index_md
                               (index_symmetric_matrix index_ic1 index_ic1 N) k
                             * primordial_analytic_spectrum ppm' index_md
                                 (index_symmetric_matrix index_ic2 index_ic2 N) k)
                     * exp (one_tilt l * x + 0.5 * one_running l * x ^ 2)"
proof -
  define N where "N = ic_size ppm index_md"
  define x where "x = ln (k / k_pivot ppm)"
  note ready = init_ready [OF assms(1,2)]
  have kp: "k_pivot ppm' = k_pivot ppm" using static_part_fields(3) [OF ready(1)] .
  have D: "diagonal_set N ppm' index_md" using ready(2) by (simp add: row_ready_def N_def)
  have ij: "index_ic1 < index_ic2 \<and> index_ic2 < N" using assms(3,4) N_def by simp
  then obtain l0 where
    R: "cross_relation N (analytic_cross_select ppt ppm index_md index_ic1 index_ic2 l0)
          ppm' index_md index_ic1 index_ic2"
    using ready(2) unfolding row_ready_def N_def [symmetric] by blast
  define l where "l = analytic_cross_select ppt ppm index_md index_ic1 index_ic2 l0"
  define ii where "ii = index_symmetric_matrix index_ic1 index_ic1 N"
  define jj where "jj = index_symmetric_matrix index_ic2 index_ic2 N"
  define ij' where "ij' = index_symmetric_matrix index_ic1 index_ic2 N"
  have i1: "index_ic1 < N" and i2: "index_ic2 < N" using ij by simp_all
  have nz: "is_non_zero ppm' index_md ii" "is_non_zero ppm' index_md jj"
    using D i1 i2 by (simp_all add: diagonal_set_def ii_def jj_def)
  have Pii: "primordial_analytic_spectrum ppm' index_md ii k
             = amplitude ppm' index_md ii
               * exp ((tilt ppm' index_md ii - 1) * x + 0.5 * running ppm' index_md ii * x ^ 2)"
    using nz(1) by (simp add: primordial_analytic_spectrum_def kp x_def)
  have Pjj: "primordial_analytic_spectrum ppm' index_md jj k
             = amplitude ppm' index_md jj
               * exp ((tilt ppm' index_md jj - 1) * x + 0.5 * running ppm' index_md jj * x ^ 2)"
    using nz(2) by (simp add: primordial_analytic_spectrum_def kp x_def)
  have range: "- 1 \<le> one_correlation l" "one_correlation l \<le> 1"
    using R by (simp_all add: cross_relation_def l_def)
  have main: "primordial_analytic_spectrum ppm' index_md ij' k
        = one_correlation l
          * sqrt (primordial_analytic_spectrum ppm' index_md ii k
                  * primordial_analytic_spectrum ppm' index_md jj k)
          * exp (one_tilt l * x + 0.5 * one_running l * x ^ 2)"
  proof (cases "one_correlation l = 0")
    case True
    then have "\<not> is_non_zero ppm' index_md ij'"
      using R by (simp add: cross_relation_def l_def ij'_def)
    then show ?thesis using True by (simp add: primordial_analytic_spectrum_def)
  next
    case False
    then have co: "coefficients ppm' index_md ij'
        = (True, sqrt (amplitude ppm' index_md ii * amplitude ppm' index_md jj) * one_correlation l,
           0.5 * (tilt ppm' index_md ii + tilt ppm' index_md jj) + one_tilt l,
           0.5 * (running ppm' index_md ii + running ppm' index_md jj) + one_running l)"
      using R by (simp add: cross_relation_def l_def ij'_def ii_def jj_def)
    define a1 where "a1 = amplitude ppm' index_md ii"
    define a2 where "a2 = amplitude ppm' index_md jj"
    define t1 where "t1 = tilt ppm' index_md ii"
    define t2 where "t2 = tilt ppm' index_md jj"
    define r1 where "r1 = running ppm' index_md ii"
    define r2 where "r2 = running ppm' index_md jj"
    define E1 where "E1 = (t1 - 1) * x + 0.5 * r1 * x ^ 2"
    define E2 where "E2 = (t2 - 1) * x + 0.5 * r2 * x ^ 2"
    have Pij: "primordial_analytic_spectrum ppm' index_md ij' k
        = sqrt (a1 * a2) * one_correlation l
          * exp ((0.5 * (t1 + t2) + one_tilt l - 1) * x
                 + 0.5 * (0.5 * (r1 + r2) + one_running l) * x ^ 2)"
      using co
      by (simp add: primordial_analytic_spectrum_def coefficients_def kp x_def a1_def a2_def
          t1_def t2_def r1_def r2_def)
    have "sqrt ((a1 * exp E1) * (a2 * exp E2)) = sqrt (a1 * a2) * sqrt (exp (E1 + E2))"
      by (simp add: real_sqrt_mult exp_add)
    also have "\<dots> = sqrt (a1 * a2) * exp ((E1 + E2) / 2)" by (simp only: sqrt_exp_half)
    finally have s: "sqrt ((a1 * exp E1) * (a2 * exp E2)) = sqrt (a1 * a2) * exp ((E1 + E2) / 2)" .
    have ex: "(0.5 * (t1 + t2) + one_tilt l - 1) * x
                 + 0.5 * (0.5 * (r1 + r2) + one_running l) * x ^ 2
              = (E1 + E2) / 2 + (one_tilt l * x + 0.5 * one_running l * x ^ 2)"
      by (simp add: E1_def E2_def field_simps)
    have "one_correlation l * sqrt ((a1 * exp E1) * (a2 * exp E2))
            * exp (one_tilt l * x + 0.5 * one_running l * x ^ 2)
          = sqrt (a1 * a2) * one_correlation l
            * exp ((E1 + E2) / 2 + (one_tilt l * x + 0.5 * one_running l * x ^ 2))"
      unfolding s exp_add [of "(E1 + E2) / 2"] by simp
    then show ?thesis
      unfolding Pij Pii Pjj ex
      by (simp only: a1_def a2_def t1_def t2_def r1_def r2_def E1_def E2_def)
  qed
  show ?thesis
    using range main
    unfolding l_def ii_def jj_def ij'_def N_def x_def Let_def by blast
qed

text \<open>
  The chain of tests against the configuration. When the initial conditions that are present
  have different indices, the test of a pair fires for this pair and for no other; in the
  first test the second alternative compares \<open>index_ic1\<close> twice and never fires, so the
  pair of the adiabatic and the baryon-isocurvature condition is recognised only with the
  adiabatic index below the other one.
\<close>

lemma ic_index_inj:
  assumes "ic_indices_distinct ppt" "has_ic ppt Z" "has_ic ppt W"
  shows "index_ic ppt Z = index_ic ppt W \<longleftrightarrow> Z = W"
proof -
  let ?S = "set (filter (has_ic ppt) [ic_ad, ic_bi, ic_cdi, ic_nid, ic_niv])"
  have inj: "inj_on (index_ic ppt) ?S"
    using assms(1) unfolding ic_indices_distinct_def distinct_map by (rule conjunct2)
  have "Z \<in> ?S" using assms(2) by (cases Z) simp_all
  moreover have "W \<in> ?S" using assms(3) by (cases W) simp_all
  ultimately show ?thesis using inj by (auto dest: inj_onD)
qed

lemma pair_test:
  assumes di: "ic_indices_distinct ppt" and X: "has_ic ppt X" and Y: "has_ic ppt Y"
  shows "(has_ic ppt A \<and> has_ic ppt B \<and>
            ((index_ic ppt X = index_ic ppt A \<and> index_ic ppt Y = index_ic ppt B) \<or>
             (index_ic ppt Y = index_ic ppt A \<and> index_ic ppt X = index_ic ppt B)))
         \<longleftrightarrow> (X = A \<and> Y = B) \<or> (Y = A \<and> X = B)"
  using ic_index_inj [OF di X] ic_index_inj [OF di Y] X Y by blast

lemma first_pair_test:
  assumes di: "ic_indices_distinct ppt" and X: "has_ic ppt X" and Y: "has_ic ppt Y"
  shows "(has_ic ppt ic_ad \<and> has_ic ppt ic_bi \<and>
            ((index_ic ppt X = index_ic ppt ic_ad \<and> index_ic ppt Y = index_ic ppt ic_bi) \<or>
             (index_ic ppt X = index_ic ppt ic_ad \<and> index_ic ppt X = index_ic ppt ic_bi)))
         \<longleftrightarrow> X = ic_ad \<and> Y = ic_bi"
  using ic_index_inj [OF di X] ic_index_inj [OF di Y] X Y by (metis initial_condition.distinct(1))

lemma ic_fields:
  "has_ic ppt ic_ad = has_ad ppt" "has_ic ppt ic_bi = has_bi ppt" "has_ic ppt ic_cdi = has_cdi ppt"
  "has_ic ppt ic_nid = has_nid ppt" "has_ic ppt ic_niv = has_niv ppt"
  "index_ic ppt ic_ad = index_ic_ad ppt" "index_ic ppt ic_bi = index_ic_bi ppt"
  "index_ic ppt ic_cdi = index_ic_cdi ppt" "index_ic ppt ic_nid = index_ic_nid ppt"
  "index_ic ppt ic_niv = index_ic_niv ppt"
  by (simp_all add: has_ic_def index_ic_def)

lemma select_configured:
  assumes md: "scalars_md ppt index_md"
    and di: "ic_indices_distinct ppt"
    and X: "has_ic ppt X" and Y: "has_ic ppt Y"
    and i: "i = index_ic ppt X" and j: "j = index_ic ppt Y" and lt: "i < j"
    and ab: "has_ad ppt \<and> has_bi ppt \<longrightarrow> index_ic_ad ppt < index_ic_bi ppt"
  shows "analytic_cross_select ppt ppm index_md i j l0
         = l0\<lparr>one_tilt := fst (snd (configured_cross ppm X Y)),
               one_running := snd (snd (configured_cross ppm X Y)),
               one_correlation := fst (configured_cross ppm X Y)\<rparr>"
proof -
  have T1: "(scalars_md ppt index_md \<and> has_ad ppt \<and> has_bi ppt \<and>
              ((i = index_ic_ad ppt \<and> j = index_ic_bi ppt) \<or>
               (i = index_ic_ad ppt \<and> i = index_ic_bi ppt)))
            = (X = ic_ad \<and> Y = ic_bi)"
    using first_pair_test [OF di X Y, unfolded ic_fields] md unfolding i j by simp
  have T2: "(scalars_md ppt index_md \<and> has_ad ppt \<and> has_cdi ppt \<and>
              ((i = index_ic_ad ppt \<and> j = index_ic_cdi ppt) \<or>
               (j = index_ic_ad ppt \<and> i = index_ic_cdi ppt)))
            = ((X = ic_ad \<and> Y = ic_cdi) \<or> (Y = ic_ad \<and> X = ic_cdi))"
    using pair_test [OF di X Y, of ic_ad ic_cdi, unfolded ic_fields] md unfolding i j by simp
  have T3: "(scalars_md ppt index_md \<and> has_ad ppt \<and> has_nid ppt \<and>
              ((i = index_ic_ad ppt \<and> j = index_ic_nid ppt) \<or>
               (j = index_ic_ad ppt \<and> i = index_ic_nid ppt)))
            = ((X = ic_ad \<and> Y = ic_nid) \<or> (Y = ic_ad \<and> X = ic_nid))"
    using pair_test [OF di X Y, of ic_ad ic_nid, unfolded ic_fields] md unfolding i j by simp
  have T4: "(scalars_md ppt index_md \<and> has_ad ppt \<and> has_niv ppt \<and>
              ((i = index_ic_ad ppt \<and> j = index_ic_niv ppt) \<or>
               (j = index_ic_ad ppt \<and> i = index_ic_niv ppt)))
            = ((X = ic_ad \<and> Y = ic_niv) \<or> (Y = ic_ad \<and> X = ic_niv))"
    using pair_test [OF di X Y, of ic_ad ic_niv, unfolded ic_fields] md unfolding i j by simp
  have T5: "(scalars_md ppt index_md \<and> has_bi ppt \<and> has_cdi ppt \<and>
              ((i = index_ic_bi ppt \<and> j = index_ic_cdi ppt) \<or>
               (j = index_ic_bi ppt \<and> i = index_ic_cdi ppt)))
            = ((X = ic_bi \<and> Y = ic_cdi) \<or> (Y = ic_bi \<and> X = ic_cdi))"
    using pair_test [OF di X Y, of ic_bi ic_cdi, unfolded ic_fields] md unfolding i j by simp
  have T6: "(scalars_md ppt index_md \<and> has_bi ppt \<and> has_nid ppt \<and>
              ((i = index_ic_bi ppt \<and> j = index_ic_nid ppt) \<or>
               (j = index_ic_bi ppt \<and> i = index_ic_nid ppt)))
            = ((X = ic_bi \<and> Y = ic_nid) \<or> (Y = ic_bi \<and> X = ic_nid))"
    using pair_test [OF di X Y, of ic_bi ic_nid, unfolded ic_fields] md unfolding i j by simp
  have T7: "(scalars_md ppt index_md \<and> has_bi ppt \<and> has_niv ppt \<and>
              ((i = index_ic_bi ppt \<and> j = index_ic_niv ppt) \<or>
               (j = index_ic_bi ppt \<and> i = index_ic_niv ppt)))
            = ((X = ic_bi \<and> Y = ic_niv) \<or> (Y = ic_bi \<and> X = ic_niv))"
    using pair_test [OF di X Y, of ic_bi ic_niv, unfolded ic_fields] md unfolding i j by simp
  have T8: "(scalars_md ppt index_md \<and> has_cdi ppt \<and> has_nid ppt \<and>
              ((i = index_ic_cdi ppt \<and> j = index_ic_nid ppt) \<or>
               (j = index_ic_cdi ppt \<and> i = index_ic_nid ppt)))
            = ((X = ic_cdi \<and> Y = ic_nid) \<or> (Y = ic_cdi \<and> X = ic_nid))"
    using pair_test [OF di X Y, of ic_cdi ic_nid, unfolded ic_fields] md unfolding i j by simp
  have T9: "(scalars_md ppt index_md \<and> has_cdi ppt \<and> has_niv ppt \<and>
              ((i = index_ic_cdi ppt \<and> j = index_ic_niv ppt) \<or>
               (j = index_ic_cdi ppt \<and> i = index_ic_niv ppt)))
            = ((X = ic_cdi \<and> Y = ic_niv) \<or> (Y = ic_cdi \<and> X = ic_niv))"
    using pair_test [OF di X Y, of ic_cdi ic_niv, unfolded ic_fields] md unfolding i j by simp
  have T10: "(scalars_md ppt index_md \<and> has_nid ppt \<and> has_niv ppt \<and>
              ((i = index_ic_nid ppt \<and> j = index_ic_niv ppt) \<or>
               (j = index_ic_nid ppt \<and> i = index_ic_niv ppt)))
            = ((X = ic_nid \<and> Y = ic_niv) \<or> (Y = ic_nid \<and> X = ic_niv))"
    using pair_test [OF di X Y, of ic_nid ic_niv, unfolded ic_fields] md unfolding i j by simp
  have xy: "X \<noteq> Y" using lt i j by auto
  have ba: "\<not> (X = ic_bi \<and> Y = ic_ad)" using lt ab X Y i j by (auto simp: ic_fields)
  show ?thesis
    unfolding analytic_cross_select_def T1 T2 T3 T4 T5 T6 T7 T8 T9 T10
    using xy ba by (cases X; cases Y) (simp_all add: Let_def)
qed

lemma diagonal_spectrum_positive:
  assumes "primordial_analytic_spectrum_init ppt ppm = Inr ppm'"
    and "index_md < md_size ppm" and "i < ic_size ppm index_md"
  shows "0 < primordial_analytic_spectrum ppm' index_md
               (index_symmetric_matrix i i (ic_size ppm index_md)) k"
proof -
  have n: "ic_size ppm' = ic_size ppm"
    using static_part_fields(1) [OF init_ready(1) [OF assms(1,2)]] .
  show ?thesis
    using analytic_init_diagonal [OF assms] unfolding n
    by (simp add: primordial_analytic_spectrum_def)
qed

lemma select_bi_before_ad:
  "analytic_cross_select (ppt_ad_bi\<lparr>index_ic_ad := 1, index_ic_bi := 0\<rparr>) ppm 0 0 1 l0 = l0"
  by (simp add: analytic_cross_select_def ppt_ad_bi_def scalars_md_def Let_def)

text \<open>
  Claim C3, with the factor of the cross tilt and running that the stores of lines 899-928
  add. Let \<^verbatim>\<open>primordial_analytic_spectrum_init\<close> succeed, the initial conditions that are
  present have different indices, and the adiabatic one come before the baryon-isocurvature
  one when both are present. Take the scalar mode, two initial conditions \<open>X\<close> and \<open>Y\<close>
  that are present with the index of \<open>X\<close> below that of \<open>Y\<close>, a wavenumber \<open>k > 0\<close> and a
  positive pivot, and let \<open>c\<close>, \<open>n\<close> and \<open>\<alpha>\<close> be the correlation, the cross tilt and the
  cross running configured for the pair. Then \<open>c\<close> lies in \<open>[-1, 1]\<close>, the spectra computed
  by \<^verbatim>\<open>primordial_analytic_spectrum\<close> from the stored coefficients satisfy
  \<open>P\<^sub>i\<^sub>j(k) = c sqrt (P\<^sub>i\<^sub>i(k) P\<^sub>j\<^sub>j(k)) exp (n ln (k/k_pivot) + 0.5 \<alpha> ln\<^sup>2 (k/k_pivot))\<close>,
  and \<open>P\<^sub>i\<^sub>j(k) = c sqrt (P\<^sub>i\<^sub>i(k) P\<^sub>j\<^sub>j(k))\<close> holds exactly when \<open>c = 0\<close> or the exponent
  \<open>n ln (k/k_pivot) + 0.5 \<alpha> ln\<^sup>2 (k/k_pivot)\<close> is zero: at the pivot, and at every \<open>k\<close> when
  the cross tilt and the cross running are both zero.
\<close>

theorem analytic_cross_spectrum:
  assumes "primordial_analytic_spectrum_init ppt ppm = Inr ppm'"
    and "index_md < md_size ppm" and "scalars_md ppt index_md"
    and "ic_indices_distinct ppt"
    and "has_ad ppt \<and> has_bi ppt \<longrightarrow> index_ic_ad ppt < index_ic_bi ppt"
    and "has_ic ppt X" and "has_ic ppt Y"
    and "index_ic ppt X < index_ic ppt Y" and "index_ic ppt Y < ic_size ppm index_md"
    and "0 < k" and "0 < k_pivot ppm"
    and "configured_cross ppm X Y = (c, n, alpha)"
  shows "- 1 \<le> c \<and> c \<le> 1
     \<and> primordial_analytic_spectrum ppm' index_md
          (index_symmetric_matrix (index_ic ppt X) (index_ic ppt Y) (ic_size ppm index_md)) k
       = c * sqrt (primordial_analytic_spectrum ppm' index_md
                     (index_symmetric_matrix (index_ic ppt X) (index_ic ppt X)
                        (ic_size ppm index_md)) k
                   * primordial_analytic_spectrum ppm' index_md
                       (index_symmetric_matrix (index_ic ppt Y) (index_ic ppt Y)
                          (ic_size ppm index_md)) k)
           * exp (n * ln (k / k_pivot ppm) + 0.5 * alpha * (ln (k / k_pivot ppm)) ^ 2)
     \<and> (primordial_analytic_spectrum ppm' index_md
          (index_symmetric_matrix (index_ic ppt X) (index_ic ppt Y) (ic_size ppm index_md)) k
         = c * sqrt (primordial_analytic_spectrum ppm' index_md
                       (index_symmetric_matrix (index_ic ppt X) (index_ic ppt X)
                          (ic_size ppm index_md)) k
                     * primordial_analytic_spectrum ppm' index_md
                         (index_symmetric_matrix (index_ic ppt Y) (index_ic ppt Y)
                            (ic_size ppm index_md)) k)
        \<longleftrightarrow> c = 0 \<or> n * ln (k / k_pivot ppm) + 0.5 * alpha * (ln (k / k_pivot ppm)) ^ 2 = 0)"
proof -
  define i where "i = index_ic ppt X"
  define j where "j = index_ic ppt Y"
  define N where "N = ic_size ppm index_md"
  define x where "x = ln (k / k_pivot ppm)"
  define Pij where "Pij = primordial_analytic_spectrum ppm' index_md (index_symmetric_matrix i j N) k"
  define Pii where "Pii = primordial_analytic_spectrum ppm' index_md (index_symmetric_matrix i i N) k"
  define Pjj where "Pjj = primordial_analytic_spectrum ppm' index_md (index_symmetric_matrix j j N) k"
  have lt: "i < j" and jN: "j < ic_size ppm index_md" using assms(8,9) by (simp_all add: i_def j_def)
  have iN: "i < ic_size ppm index_md" using lt jN by simp
  have sel: "analytic_cross_select ppt ppm index_md i j l0
             = l0\<lparr>one_tilt := n, one_running := alpha, one_correlation := c\<rparr>" for l0
    using select_configured [OF assms(3,4,6,7) i_def j_def lt assms(5), of ppm l0]
    by (simp add: assms(12))
  from cross_spectrum_of_selection [OF assms(1,2) lt jN assms(10,11)]
  have rel: "- 1 \<le> c \<and> c \<le> 1 \<and> Pij = c * sqrt (Pii * Pjj) * exp (n * x + 0.5 * alpha * x ^ 2)"
    unfolding sel Let_def Pij_def Pii_def Pjj_def N_def x_def by simp
  have "0 < Pii" "0 < Pjj"
    unfolding Pii_def Pjj_def N_def
    by (rule diagonal_spectrum_positive [OF assms(1,2) iN],
        rule diagonal_spectrum_positive [OF assms(1,2) jN])
  define S where "S = sqrt (Pii * Pjj)"
  have s: "S \<noteq> 0" using \<open>0 < Pii\<close> \<open>0 < Pjj\<close> by (simp add: S_def)
  define y where "y = n * x + 0.5 * alpha * x ^ 2"
  have "c * S * exp y = c * S \<longleftrightarrow> c = 0 \<or> y = 0"
  proof -
    have "c * S * exp y = c * S \<longleftrightarrow> c * S * (exp y - 1) = 0" by (simp add: algebra_simps)
    also have "\<dots> \<longleftrightarrow> c = 0 \<or> exp y = 1" using s by simp
    also have "\<dots> \<longleftrightarrow> c = 0 \<or> y = 0" by simp
    finally show ?thesis .
  qed
  then have "Pij = c * sqrt (Pii * Pjj) \<longleftrightarrow> c = 0 \<or> n * x + 0.5 * alpha * x ^ 2 = 0"
    using rel by (simp add: S_def y_def)
  then show ?thesis
    using rel unfolding Pij_def Pii_def Pjj_def N_def x_def i_def j_def by blast
qed

lemma ppt_ad_bi_pairs:
  "scalars_md ppt_ad_bi 0" "ic_indices_distinct ppt_ad_bi" "has_ic ppt_ad_bi ic_ad"
  "has_ic ppt_ad_bi ic_bi" "index_ic ppt_ad_bi ic_ad = 0" "index_ic ppt_ad_bi ic_bi = 1"
  "has_ad ppt_ad_bi \<and> has_bi ppt_ad_bi \<longrightarrow> index_ic_ad ppt_ad_bi < index_ic_bi ppt_ad_bi"
  by (simp_all add: scalars_md_def ic_indices_distinct_def has_ic_def index_ic_def ppt_ad_bi_def)

theorem analytic_cross_spectrum_witness:
  "primordial_analytic_spectrum_init ppt_ad_bi (ppm_ad_bi 1 (1 / 2) 1)
     = Inr (projr (primordial_analytic_spectrum_init ppt_ad_bi (ppm_ad_bi 1 (1 / 2) 1)))
   \<and> 0 < md_size (ppm_ad_bi 1 (1 / 2) 1) \<and> scalars_md ppt_ad_bi 0
   \<and> ic_indices_distinct ppt_ad_bi
   \<and> has_ad ppt_ad_bi \<and> has_bi ppt_ad_bi \<and> index_ic_ad ppt_ad_bi < index_ic_bi ppt_ad_bi
   \<and> has_ic ppt_ad_bi ic_ad \<and> has_ic ppt_ad_bi ic_bi
   \<and> index_ic ppt_ad_bi ic_ad < index_ic ppt_ad_bi ic_bi
   \<and> index_ic ppt_ad_bi ic_bi < ic_size (ppm_ad_bi 1 (1 / 2) 1) 0
   \<and> (0::real) < exp 1 \<and> 0 < k_pivot (ppm_ad_bi 1 (1 / 2) 1)
   \<and> configured_cross (ppm_ad_bi 1 (1 / 2) 1) ic_ad ic_bi = (1 / 2, 1, 0)
   \<and> primordial_analytic_spectrum
        (projr (primordial_analytic_spectrum_init ppt_ad_bi (ppm_ad_bi 1 (1 / 2) 1))) 0
        (index_symmetric_matrix 0 1 2) (exp 1)
      = 1 / 2
        * sqrt (primordial_analytic_spectrum
                  (projr (primordial_analytic_spectrum_init ppt_ad_bi (ppm_ad_bi 1 (1 / 2) 1))) 0
                  (index_symmetric_matrix 0 0 2) (exp 1)
                * primordial_analytic_spectrum
                    (projr (primordial_analytic_spectrum_init ppt_ad_bi (ppm_ad_bi 1 (1 / 2) 1))) 0
                    (index_symmetric_matrix 1 1 2) (exp 1))
        * exp 1
   \<and> primordial_analytic_spectrum
        (projr (primordial_analytic_spectrum_init ppt_ad_bi (ppm_ad_bi 1 (1 / 2) 1))) 0
        (index_symmetric_matrix 0 1 2) (exp 1)
      \<noteq> 1 / 2
        * sqrt (primordial_analytic_spectrum
                  (projr (primordial_analytic_spectrum_init ppt_ad_bi (ppm_ad_bi 1 (1 / 2) 1))) 0
                  (index_symmetric_matrix 0 0 2) (exp 1)
                * primordial_analytic_spectrum
                    (projr (primordial_analytic_spectrum_init ppt_ad_bi (ppm_ad_bi 1 (1 / 2) 1))) 0
                    (index_symmetric_matrix 1 1 2) (exp 1))
   \<and> primordial_analytic_spectrum
        (projr (primordial_analytic_spectrum_init ppt_ad_bi (ppm_ad_bi 1 (1 / 2) 1))) 0
        (index_symmetric_matrix 0 1 2) 1
      = 1 / 2
        * sqrt (primordial_analytic_spectrum
                  (projr (primordial_analytic_spectrum_init ppt_ad_bi (ppm_ad_bi 1 (1 / 2) 1))) 0
                  (index_symmetric_matrix 0 0 2) 1
                * primordial_analytic_spectrum
                    (projr (primordial_analytic_spectrum_init ppt_ad_bi (ppm_ad_bi 1 (1 / 2) 1))) 0
                    (index_symmetric_matrix 1 1 2) 1)"
proof -
  let ?ppm = "ppm_ad_bi 1 (1 / 2) 1"
  have a: "(0::real) < 1" "(1 / 2::real) \<noteq> 0" "- 1 \<le> (1 / 2::real)" "(1 / 2::real) \<le> 1"
    by simp_all
  have run: "primordial_analytic_spectrum_init ppt_ad_bi ?ppm
               = Inr (projr (primordial_analytic_spectrum_init ppt_ad_bi ?ppm))"
    using init_ex [OF a, of 1] by simp
  have md: "0 < md_size ?ppm" by (simp add: ppm_ad_bi_def)
  have lt: "index_ic ppt_ad_bi ic_ad < index_ic ppt_ad_bi ic_bi"
    and jN: "index_ic ppt_ad_bi ic_bi < ic_size ?ppm 0"
    by (simp_all add: ppt_ad_bi_pairs ppm_ad_bi_def)
  have kp: "0 < k_pivot ?ppm" and k: "(0::real) < exp 1" "(0::real) < 1"
    by (simp_all add: ppm_ad_bi_def)
  have cc: "configured_cross ?ppm ic_ad ic_bi = (1 / 2, 1, 0)"
    by (simp add: ppm_ad_bi_def ppm_blank_def)
  have N: "ic_size ?ppm 0 = 2" and kp1: "k_pivot ?ppm = 1" by (simp_all add: ppm_ad_bi_def)
  note t = analytic_cross_spectrum [OF run md ppt_ad_bi_pairs(1,2,7,3,4) lt jN _ kp cc,
      unfolded ppt_ad_bi_pairs(5,6) N kp1]
  have e: "primordial_analytic_spectrum
        (projr (primordial_analytic_spectrum_init ppt_ad_bi ?ppm)) 0
        (index_symmetric_matrix 0 1 2) (exp 1)
      = 1 / 2
        * sqrt (primordial_analytic_spectrum
                  (projr (primordial_analytic_spectrum_init ppt_ad_bi ?ppm)) 0
                  (index_symmetric_matrix 0 0 2) (exp 1)
                * primordial_analytic_spectrum
                    (projr (primordial_analytic_spectrum_init ppt_ad_bi ?ppm)) 0
                    (index_symmetric_matrix 1 1 2) (exp 1))
        * exp 1"
    using t [OF k(1), THEN conjunct2, THEN conjunct2, THEN conjunct1] by simp
  have ne: "primordial_analytic_spectrum
        (projr (primordial_analytic_spectrum_init ppt_ad_bi ?ppm)) 0
        (index_symmetric_matrix 0 1 2) (exp 1)
      \<noteq> 1 / 2
        * sqrt (primordial_analytic_spectrum
                  (projr (primordial_analytic_spectrum_init ppt_ad_bi ?ppm)) 0
                  (index_symmetric_matrix 0 0 2) (exp 1)
                * primordial_analytic_spectrum
                    (projr (primordial_analytic_spectrum_init ppt_ad_bi ?ppm)) 0
                    (index_symmetric_matrix 1 1 2) (exp 1))"
    unfolding t [OF k(1), THEN conjunct2, THEN conjunct2, THEN conjunct2] by simp
  have pv: "primordial_analytic_spectrum
        (projr (primordial_analytic_spectrum_init ppt_ad_bi ?ppm)) 0
        (index_symmetric_matrix 0 1 2) 1
      = 1 / 2
        * sqrt (primordial_analytic_spectrum
                  (projr (primordial_analytic_spectrum_init ppt_ad_bi ?ppm)) 0
                  (index_symmetric_matrix 0 0 2) 1
                * primordial_analytic_spectrum
                    (projr (primordial_analytic_spectrum_init ppt_ad_bi ?ppm)) 0
                    (index_symmetric_matrix 1 1 2) 1)"
    unfolding t [OF k(2), THEN conjunct2, THEN conjunct2, THEN conjunct2] by simp
  have ab: "has_ad ppt_ad_bi \<and> has_bi ppt_ad_bi \<and> index_ic_ad ppt_ad_bi < index_ic_bi ppt_ad_bi"
    by (simp add: ppt_ad_bi_def)
  show ?thesis
    using run md ppt_ad_bi_pairs(1,2,3,4) ab lt jN k(1) kp cc e ne pv by blast
qed

subsection \<open>Outside and inside the table\<close>

text \<open>
  Claim C4. Let \<open>lnk_in\<close> be the logarithm of the wavenumber inferred from the input
  (\<open>ln input\<close> in linear mode, where the input is positive, the input itself in
  logarithmic mode) and \<open>k\<close> the wavenumber. If \<open>lnk_in\<close> lies strictly outside
  \<open>[lnk[0], lnk[lnk_size-1]]\<close> and the spectrum type is analytic, the call succeeds; every
  diagonal entry flagged non-zero holds \<open>A exp ((n-1) ln (k/k_pivot) + 0.5 \<alpha> ln\<^sup>2 (k/k_pivot))\<close>
  (its logarithm in logarithmic mode); every entry flagged zero holds 0 (off the diagonal
  in either mode, and on it in linear mode; a diagonal entry is never flagged zero after
  \<^verbatim>\<open>primordial_analytic_spectrum_init\<close>). If the type is not analytic the call fails with
  the out-of-range error and leaves the array as it was. For \<open>lnk_in\<close> inside the interval the
  result is that of the spline interpolation of the table, transformed in linear mode.
\<close>

theorem spectrum_at_k_outside_table:
  assumes "lnk ppm \<noteq> []"
    and "mode = linear_mode \<longrightarrow> 0 < input"
    and "k = (if mode = linear_mode then input else exp input)"
    and "lnk_in = (if mode = linear_mode then ln input else input)"
    and "N = ic_size ppm index_md"
  shows
   "((lnk_in > lnk ppm ! (length (lnk ppm) - 1) \<or> lnk_in < lnk ppm ! 0)
       \<and> primordial_spec_type ppm = analytic_Pk \<longrightarrow>
       fst (primordial_spectrum_at_k spl ppm index_md mode input output) = None
       \<and> (\<forall>i<N. is_non_zero ppm index_md (index_symmetric_matrix i i N) \<longrightarrow>
             snd (primordial_spectrum_at_k spl ppm index_md mode input output)
                 (index_symmetric_matrix i i N)
             = (let P = amplitude ppm index_md (index_symmetric_matrix i i N)
                        * exp ((tilt ppm index_md (index_symmetric_matrix i i N) - 1)
                                 * ln (k / k_pivot ppm)
                               + 0.5 * running ppm index_md (index_symmetric_matrix i i N)
                                 * (ln (k / k_pivot ppm)) ^ 2)
                in if mode = linear_mode then P else ln P))
       \<and> (\<forall>i j. i \<le> j \<and> j < N \<and> (i < j \<or> mode = linear_mode)
                  \<and> \<not> is_non_zero ppm index_md (index_symmetric_matrix i j N) \<longrightarrow>
             snd (primordial_spectrum_at_k spl ppm index_md mode input output)
                 (index_symmetric_matrix i j N) = 0))
    \<and> ((lnk_in > lnk ppm ! (length (lnk ppm) - 1) \<or> lnk_in < lnk ppm ! 0)
       \<and> primordial_spec_type ppm \<noteq> analytic_Pk \<longrightarrow>
       primordial_spectrum_at_k spl ppm index_md mode input output = (Some K_out_of_range, output))
    \<and> (\<not> (lnk_in > lnk ppm ! (length (lnk ppm) - 1) \<or> lnk_in < lnk ppm ! 0) \<longrightarrow>
       primordial_spectrum_at_k spl ppm index_md mode input output =
         (case spl (lnk ppm) (lnpk ppm index_md) (ddlnpk ppm index_md) (ic_ic_size ppm index_md)
                 lnk_in output of
            (Some e, out1) \<Rightarrow> (Some e, out1)
          | (None, out1) \<Rightarrow>
              (None, if mode = linear_mode
                     then at_k_lin_cross ppm index_md (at_k_exp_diag ppm index_md out1)
                     else out1)))"
proof -
  have at: "primordial_spectrum_at_k spl ppm index_md mode input output
              = spectrum_at_lnk spl ppm index_md mode lnk_in output"
    using assms(2,4) by (cases mode) (simp_all add: primordial_spectrum_at_k_def)
  have k: "exp lnk_in = k" using assms(2,3,4) by (cases mode) simp_all
  show ?thesis
  proof (intro conjI impI)
    assume out: "(lnk_in > lnk ppm ! (length (lnk ppm) - 1) \<or> lnk_in < lnk ppm ! 0)
       \<and> primordial_spec_type ppm = analytic_Pk"
    show "fst (primordial_spectrum_at_k spl ppm index_md mode input output) = None"
      unfolding at using out assms(1) by (simp add: spectrum_at_lnk_def Let_def)
    show "\<forall>i<N. is_non_zero ppm index_md (index_symmetric_matrix i i N) \<longrightarrow>
             snd (primordial_spectrum_at_k spl ppm index_md mode input output)
                 (index_symmetric_matrix i i N)
             = (let P = amplitude ppm index_md (index_symmetric_matrix i i N)
                        * exp ((tilt ppm index_md (index_symmetric_matrix i i N) - 1)
                                 * ln (k / k_pivot ppm)
                               + 0.5 * running ppm index_md (index_symmetric_matrix i i N)
                                 * (ln (k / k_pivot ppm)) ^ 2)
                in if mode = linear_mode then P else ln P)"
    proof (intro allI impI)
      fix i assume i: "i < N" and nz: "is_non_zero ppm index_md (index_symmetric_matrix i i N)"
      show "snd (primordial_spectrum_at_k spl ppm index_md mode input output)
                 (index_symmetric_matrix i i N)
             = (let P = amplitude ppm index_md (index_symmetric_matrix i i N)
                        * exp ((tilt ppm index_md (index_symmetric_matrix i i N) - 1)
                                 * ln (k / k_pivot ppm)
                               + 0.5 * running ppm index_md (index_symmetric_matrix i i N)
                                 * (ln (k / k_pivot ppm)) ^ 2)
                in if mode = linear_mode then P else ln P)"
        unfolding at using out assms(1) i nz k
        by (cases mode)
           (simp_all add: spectrum_at_lnk_def Let_def assms(5) direct_log_diag at_k_direct_value
              primordial_analytic_spectrum_def)
    qed
    show "\<forall>i j. i \<le> j \<and> j < N \<and> (i < j \<or> mode = linear_mode)
                  \<and> \<not> is_non_zero ppm index_md (index_symmetric_matrix i j N) \<longrightarrow>
             snd (primordial_spectrum_at_k spl ppm index_md mode input output)
                 (index_symmetric_matrix i j N) = 0"
    proof (intro allI impI)
      fix i j
      assume h: "i \<le> j \<and> j < N \<and> (i < j \<or> mode = linear_mode)
                  \<and> \<not> is_non_zero ppm index_md (index_symmetric_matrix i j N)"
      show "snd (primordial_spectrum_at_k spl ppm index_md mode input output)
                 (index_symmetric_matrix i j N) = 0"
      proof (cases mode)
        case linear_mode
        then show ?thesis unfolding at using out assms(1) h
          by (simp add: spectrum_at_lnk_def Let_def assms(5) at_k_direct_value
              primordial_analytic_spectrum_def)
      next
        case logarithmic
        then have "i < j" using h by simp
        then show ?thesis unfolding at using out assms(1) h logarithmic
          by (simp add: spectrum_at_lnk_def Let_def assms(5) direct_log_cross)
      qed
    qed
  next
    assume "(lnk_in > lnk ppm ! (length (lnk ppm) - 1) \<or> lnk_in < lnk ppm ! 0)
       \<and> primordial_spec_type ppm \<noteq> analytic_Pk"
    then show "primordial_spectrum_at_k spl ppm index_md mode input output
                 = (Some K_out_of_range, output)"
      unfolding at using assms(1) by (simp add: spectrum_at_lnk_def)
  next
    assume "\<not> (lnk_in > lnk ppm ! (length (lnk ppm) - 1) \<or> lnk_in < lnk ppm ! 0)"
    then show "primordial_spectrum_at_k spl ppm index_md mode input output =
         (case spl (lnk ppm) (lnpk ppm index_md) (ddlnpk ppm index_md) (ic_ic_size ppm index_md)
                 lnk_in output of
            (Some e, out1) \<Rightarrow> (Some e, out1)
          | (None, out1) \<Rightarrow>
              (None, if mode = linear_mode
                     then at_k_lin_cross ppm index_md (at_k_exp_diag ppm index_md out1)
                     else out1))"
      unfolding at using assms(1)
      by (auto simp: spectrum_at_lnk_def split: prod.splits option.splits)
  qed
qed

theorem spectrum_at_k_outside_table_witness:
  "fst (primordial_spectrum_at_k first_row_spline ppm_table_example 0 logarithmic 2 (\<lambda>_. 7)) = None
   \<and> snd (primordial_spectrum_at_k first_row_spline ppm_table_example 0 logarithmic 2 (\<lambda>_. 7)) 0 = ln 3
   \<and> snd (primordial_spectrum_at_k first_row_spline ppm_table_example 0 logarithmic 2 (\<lambda>_. 7)) 1 = 0
   \<and> primordial_spectrum_at_k first_row_spline
        (ppm_table_example\<lparr>primordial_spec_type := external_Pk\<rparr>) 0 logarithmic 2 (\<lambda>_. 7)
       = (Some K_out_of_range, \<lambda>_. 7)
   \<and> primordial_spectrum_at_k first_row_spline ppm_table_example 0 linear_mode 1 (\<lambda>_. 7)
       = (None, at_k_lin_cross ppm_table_example 0
                  (at_k_exp_diag ppm_table_example 0 (lnpk ppm_table_example 0)))"
proof -
  have ex: "primordial_spec_type ppm_table_example = analytic_Pk"
    "ic_size ppm_table_example 0 = 2" "lnk ppm_table_example = [0, 1]"
    "is_non_zero ppm_table_example 0 0" "\<not> is_non_zero ppm_table_example 0 1"
    "amplitude ppm_table_example 0 0 = 3" "tilt ppm_table_example 0 0 = 1"
    "running ppm_table_example 0 0 = 0" "k_pivot ppm_table_example = 1"
    by (simp_all add: ppm_table_example_def ppm_blank_def)
  have h1: "lnk ppm_table_example \<noteq> []" using ex by simp
  have h2: "logarithmic = linear_mode \<longrightarrow> 0 < (2::real)" by simp
  have h3: "exp 2 = (if logarithmic = linear_mode then 2 else exp (2::real))" by simp
  have h4: "(2::real) = (if logarithmic = linear_mode then ln 2 else 2)" by simp
  have h5: "2 = ic_size ppm_table_example 0" using ex by simp
  have h6: "((2::real) > lnk ppm_table_example ! (length (lnk ppm_table_example) - 1)
              \<or> 2 < lnk ppm_table_example ! 0)
            \<and> primordial_spec_type ppm_table_example = analytic_Pk"
    using ex by simp
  note t = spectrum_at_k_outside_table
    [where spl = first_row_spline and ?output = "\<lambda>_. 7", OF h1 h2 h3 h4 h5,
     THEN conjunct1, THEN mp, OF h6]
  have a: "fst (primordial_spectrum_at_k first_row_spline ppm_table_example 0 logarithmic 2 (\<lambda>_. 7)) = None"
    by (rule t [THEN conjunct1])
  have b: "snd (primordial_spectrum_at_k first_row_spline ppm_table_example 0 logarithmic 2 (\<lambda>_. 7)) 0 = ln 3"
    using t [THEN conjunct2, THEN conjunct1, rule_format, of 0] ex by (simp add: ism_2)
  have c: "snd (primordial_spectrum_at_k first_row_spline ppm_table_example 0 logarithmic 2 (\<lambda>_. 7)) 1 = 0"
    using t [THEN conjunct2, THEN conjunct2, rule_format, of 0 1] ex by (simp add: ism_2)
  have e: "primordial_spectrum_at_k first_row_spline
        (ppm_table_example\<lparr>primordial_spec_type := external_Pk\<rparr>) 0 logarithmic 2 (\<lambda>_. 7)
       = (Some K_out_of_range, \<lambda>_. 7)"
    using spectrum_at_k_outside_table
      [where ppm = "ppm_table_example\<lparr>primordial_spec_type := external_Pk\<rparr>"
         and mode = logarithmic and input = 2 and k = "exp 2"
         and lnk_in = 2 and N = 2 and index_md = 0 and spl = first_row_spline
         and ?output = "\<lambda>_. 7"] ex
    by simp
  have f: "primordial_spectrum_at_k first_row_spline ppm_table_example 0 linear_mode 1 (\<lambda>_. 7)
       = (None, at_k_lin_cross ppm_table_example 0
                  (at_k_exp_diag ppm_table_example 0 (lnpk ppm_table_example 0)))"
    using spectrum_at_k_outside_table
      [where ppm = ppm_table_example and mode = linear_mode and input = 1 and k = 1
         and lnk_in = 0 and N = 2 and index_md = 0 and spl = first_row_spline
         and ?output = "\<lambda>_. 7"] ex
    by (simp add: first_row_spline_def)
  show ?thesis using a b c e f by simp
qed

text \<open>
  Claim C10. In linear mode \<^verbatim>\<open>primordial_spectrum_at_k\<close> fails for every input
  \<open>k \<le> 0\<close>, and the array it returns is the one it was given. In logarithmic mode there
  is no test of the sign: the input is taken as \<open>ln k\<close>, and the positivity error can
  only come out if the interpolation itself reports it.
\<close>

theorem primordial_spectrum_at_k_positivity:
  "(mode = linear_mode \<and> input \<le> 0 \<longrightarrow>
      primordial_spectrum_at_k spl ppm index_md mode input output = (Some K_not_positive, output))
   \<and> (mode = logarithmic \<longrightarrow>
      primordial_spectrum_at_k spl ppm index_md mode input output
        = spectrum_at_lnk spl ppm index_md mode input output
      \<and> (fst (primordial_spectrum_at_k spl ppm index_md mode input output) = Some K_not_positive
           \<longrightarrow> fst (spl (lnk ppm) (lnpk ppm index_md) (ddlnpk ppm index_md)
                        (ic_ic_size ppm index_md) input output) = Some K_not_positive))"
  by (auto simp: primordial_spectrum_at_k_def spectrum_at_lnk_def Let_def
      split: prod.splits option.splits if_splits)

theorem primordial_spectrum_at_k_positivity_witness:
  "primordial_spectrum_at_k first_row_spline ppm_table_example 0 linear_mode (- 1) (\<lambda>_. 7)
     = (Some K_not_positive, \<lambda>_. 7)
   \<and> primordial_spectrum_at_k first_row_spline ppm_table_example 0 logarithmic (- 1) (\<lambda>_. 7)
     = spectrum_at_lnk first_row_spline ppm_table_example 0 logarithmic (- 1) (\<lambda>_. 7)
   \<and> fst (primordial_spectrum_at_k first_row_spline ppm_table_example 0 logarithmic (- 1) (\<lambda>_. 7))
       = None"
proof -
  have "fst (primordial_spectrum_at_k first_row_spline ppm_table_example 0 logarithmic (- 1) (\<lambda>_. 7))
       = None"
    by (simp add: primordial_spectrum_at_k_def spectrum_at_lnk_def ppm_table_example_def
        ppm_blank_def Let_def)
  then show ?thesis
    using primordial_spectrum_at_k_positivity
        [of linear_mode "- 1" first_row_spline ppm_table_example 0 "\<lambda>_. 7"]
      primordial_spectrum_at_k_positivity
        [of logarithmic "- 1" first_row_spline ppm_table_example 0 "\<lambda>_. 7"]
    by simp
qed

subsection \<open>The cross-correlation angle\<close>

text \<open>
  The table filled by \<^verbatim>\<open>primordial_init\<close> holds, for a pair of distinct initial
  conditions, a value between -1 and 1.
\<close>

lemma clamp_quotient:
  fixes pk s :: real
  assumes "\<not> pk > s" "\<not> pk < - s"
  shows "- 1 \<le> pk / s \<and> pk / s \<le> 1"
proof (cases "s = 0")
  case True
  then show ?thesis by simp
next
  case False
  then have "0 < s" using assms by linarith
  then show ?thesis using assms by (simp add: field_simps)
qed

lemma init_table_cell_clamped:
  assumes "index_ic1 \<noteq> index_ic2"
  shows "- 1 \<le> lnpk (init_table_cell index_k k index_md index_ic1 index_ic2 ppm) index_md
                  (index_k * ic_ic_size ppm index_md
                   + index_symmetric_matrix index_ic1 index_ic2 (ic_size ppm index_md))
       \<and> lnpk (init_table_cell index_k k index_md index_ic1 index_ic2 ppm) index_md
                  (index_k * ic_ic_size ppm index_md
                   + index_symmetric_matrix index_ic1 index_ic2 (ic_size ppm index_md)) \<le> 1"
  using assms clamp_quotient
  by (simp add: init_table_cell_def Let_def upd2_def)

text \<open>
  Claim C2 (the direct computation contradicts it). For the analytic spectrum with an
  adiabatic and an isocurvature mode of amplitude 3, tilt 1, fully correlated
  (\<open>c_ad_bi = 1\<close>), the query \<open>ln k = 2\<close> in logarithmic mode lies outside the table
  \<open>[0, 1]\<close>. The direct computation replaces the diagonal entries by their logarithms
  before it divides the off-diagonal entry by the root of their product, and does not
  clamp: it returns \<open>3 / ln 3 > 1\<close> where the correlation angle is 1.
\<close>

theorem direct_angle_not_clamped:
  "\<not> isl (primordial_analytic_spectrum_init ppt_ad_bi (ppm_ad_bi 3 1 0))
   \<and> fst (primordial_spectrum_at_k first_row_spline
            (projr (primordial_analytic_spectrum_init ppt_ad_bi (ppm_ad_bi 3 1 0)))
            0 logarithmic 2 (\<lambda>_. 0)) = None
   \<and> snd (primordial_spectrum_at_k first_row_spline
            (projr (primordial_analytic_spectrum_init ppt_ad_bi (ppm_ad_bi 3 1 0)))
            0 logarithmic 2 (\<lambda>_. 0)) (index_symmetric_matrix 0 1 2) = 3 / ln 3
   \<and> 1 < 3 / ln (3::real)"
proof -
  define ppm where "ppm = projr (primordial_analytic_spectrum_init ppt_ad_bi (ppm_ad_bi 3 1 0))"
  have ok: "\<not> isl (primordial_analytic_spectrum_init ppt_ad_bi (ppm_ad_bi 3 1 0))"
    by (rule init_ex) simp_all
  have v: "amplitude ppm 0 1 = 3" "tilt ppm 0 1 = 1" "running ppm 0 1 = 0" "is_non_zero ppm 0 1"
    "amplitude ppm 0 0 = 3" "amplitude ppm 0 2 = 3" "k_pivot ppm = 1"
    unfolding ppm_def using init_ex_vals [of 3 1 0] by simp_all
  have w: "tilt ppm 0 0 = 1" "tilt ppm 0 2 = 1" "running ppm 0 0 = 0" "running ppm 0 2 = 0"
    "is_non_zero ppm 0 0" "is_non_zero ppm 0 2" "ic_size ppm 0 = 2" "lnk ppm = [0, 1]"
    "primordial_spec_type ppm = analytic_Pk"
    unfolding ppm_def
    by (simp_all add: primordial_analytic_spectrum_init_def analytic_md_body_def upt_2
      analytic_diag_body_def analytic_diag_select_def analytic_cross_body_def
      analytic_cross_select_def analytic_cross_store_def ppt_ad_bi_def ppm_ad_bi_def ppm_blank_def
      scalars_md_def tensors_md_def ism_2 upd2_def Let_def)
  have s: "primordial_spectrum_at_k first_row_spline ppm 0 logarithmic 2 (\<lambda>_. 0)
             = (None, at_k_log_cross ppm 0 (at_k_log_diag ppm 0 (at_k_direct ppm 0 2 (\<lambda>_. 0))))"
    using w by (simp add: primordial_spectrum_at_k_def spectrum_at_lnk_def Let_def)
  have c: "at_k_log_cross ppm 0 (at_k_log_diag ppm 0 (at_k_direct ppm 0 2 (\<lambda>_. 0)))
             (index_symmetric_matrix 0 1 (ic_size ppm 0)) = 3 / ln 3"
    using v w by (subst direct_log_cross) (simp_all add: ism_2 primordial_analytic_spectrum_def)
  have "ln (3::real) < 3" by (rule ln_less_self) simp
  moreover have "0 < ln (3::real)" by simp
  ultimately have "1 < 3 / ln (3::real)" by simp
  then show ?thesis using ok s c w unfolding ppm_def by simp
qed

section \<open>Verified properties: arithmetic of the doubles\<close>

lemma numeral_double: "(numeral k :: double) = Fin (numeral k)"
proof (induction k)
  case One
  show ?case by (simp add: one_double_def)
next
  case (Bit0 k)
  have "(numeral (num.Bit0 k) :: double) = numeral k + numeral k"
    by (simp only: numeral.simps)
  also have "\<dots> = Fin (numeral k + numeral k)"
    unfolding Bit0 by (simp add: plus_double_def value_of_def)
  also have "numeral k + numeral k = (numeral (num.Bit0 k) :: real)"
    by (simp only: numeral.simps)
  finally show ?case .
next
  case (Bit1 k)
  have "(numeral (num.Bit1 k) :: double) = numeral k + numeral k + 1"
    by (simp only: numeral.simps)
  also have "\<dots> = Fin (numeral k + numeral k + 1)"
    unfolding Bit1 one_double_def by (simp add: plus_double_def value_of_def)
  also have "numeral k + numeral k + 1 = (numeral (num.Bit1 k) :: real)"
    by (simp only: numeral.simps)
  finally show ?case .
qed

lemma Fin_plus: "Fin a + Fin b = Fin (a + b)"
  by (simp add: plus_double_def value_of_def)

lemma Fin_uminus: "- Fin a = (if a = 0 then NegZero else Fin (- a))"
  by (simp add: uminus_double_def)

lemma Fin_minus: "Fin a - Fin b = Fin (a - b)"
  by (simp add: minus_double_def plus_double_def uminus_double_def value_of_def)

lemma Fin_times:
  "Fin a * Fin b = (if (a = 0 \<and> b < 0) \<or> (b = 0 \<and> a < 0) then NegZero else Fin (a * b))"
  by (auto simp: times_double_def is_zero_def is_inf_def sign_bit_def signed_zero_def
      value_of_def)

lemma Fin_divide:
  "Fin a / Fin b =
     (if b = 0 then (if a = 0 then NaN else if a < 0 then MInf else PInf)
      else if a = 0 \<and> b < 0 then NegZero else Fin (a / b))"
  by (auto simp: divide_double_def is_zero_def is_inf_def sign_bit_def signed_zero_def
      signed_inf_def value_of_def)

lemma Fin_abs: "\<bar>Fin a\<bar> = Fin \<bar>a\<bar>"
  by (simp add: abs_double_def)

lemma Fin_less: "Fin a < Fin b \<longleftrightarrow> a < b"
  by (simp add: less_double_def value_of_def)

lemma Fin_less_eq: "Fin a \<le> Fin b \<longleftrightarrow> a \<le> b"
  by (simp add: less_eq_double_def value_of_def)

lemma Fin_sqrt: "sqrt_double (Fin a) = (if a < 0 then NaN else Fin (sqrt a))"
  by (simp add: sqrt_double_def)

lemma NaN_arith:
  "NaN + x = NaN" "x + NaN = NaN" "NaN - x = NaN" "x - NaN = NaN" "NaN * x = NaN" "x * NaN = NaN"
  "NaN / x = NaN" "x / NaN = NaN" "- NaN = NaN" "\<bar>NaN\<bar> = NaN" "sqrt_double NaN = NaN"
  by (simp_all add: plus_double_def minus_double_def uminus_double_def times_double_def
      divide_double_def abs_double_def sqrt_double_def split: double.splits)

lemma NaN_compare:
  "\<not> NaN < x" "\<not> x < NaN" "\<not> NaN \<le> x" "\<not> x \<le> NaN"
  by (simp_all add: less_double_def less_eq_double_def)

lemma NegZero_arith:
  "NegZero + Fin a = Fin a" "Fin a + NegZero = Fin a" "NegZero + NegZero = NegZero"
  "- NegZero = Fin 0" "\<bar>NegZero\<bar> = Fin 0" "sqrt_double NegZero = NegZero"
  "Fin a - NegZero = Fin a" "NegZero - Fin a = (if a = 0 then NegZero else Fin (- a))"
  "NegZero * Fin a = (if a < 0 then Fin 0 else NegZero)"
  "Fin a * NegZero = (if a < 0 then Fin 0 else NegZero)"
  "NegZero / Fin a = (if a = 0 then NaN else if a < 0 then Fin 0 else NegZero)"
  "Fin a / NegZero = (if a = 0 then NaN else if a < 0 then PInf else MInf)"
  by (auto simp: plus_double_def minus_double_def uminus_double_def times_double_def
      divide_double_def abs_double_def sqrt_double_def is_zero_def is_inf_def sign_bit_def
      signed_zero_def signed_inf_def value_of_def)

lemma NegZero_compare:
  "NegZero < Fin a \<longleftrightarrow> 0 < a" "Fin a < NegZero \<longleftrightarrow> a < 0"
  "NegZero \<le> Fin a \<longleftrightarrow> 0 \<le> a" "Fin a \<le> NegZero \<longleftrightarrow> a \<le> 0"
  by (simp_all add: less_double_def less_eq_double_def value_of_def)

lemma Inf_arith:
  "PInf + Fin a = PInf" "Fin a + PInf = PInf" "MInf + Fin a = MInf" "Fin a + MInf = MInf"
  "PInf - Fin a = PInf" "MInf - Fin a = MInf" "Fin a - PInf = MInf" "Fin a - MInf = PInf"
  "- PInf = MInf" "- MInf = PInf" "\<bar>PInf\<bar> = PInf" "\<bar>MInf\<bar> = PInf"
  "sqrt_double PInf = PInf" "sqrt_double MInf = NaN"
  "Fin a / PInf = (if a < 0 then NegZero else Fin 0)"
  "Fin a / MInf = (if a < 0 then Fin 0 else NegZero)"
  "PInf / Fin a = (if a < 0 then MInf else PInf)"
  "MInf / Fin a = (if a < 0 then PInf else MInf)"
  "PInf * Fin a = (if a = 0 then NaN else if a < 0 then MInf else PInf)"
  "Fin a * PInf = (if a = 0 then NaN else if a < 0 then MInf else PInf)"
  "MInf * Fin a = (if a = 0 then NaN else if a < 0 then PInf else MInf)"
  "Fin a * MInf = (if a = 0 then NaN else if a < 0 then PInf else MInf)"
  "PInf / PInf = NaN" "PInf / MInf = NaN" "MInf / PInf = NaN" "MInf / MInf = NaN"
  "PInf + MInf = NaN" "MInf + PInf = NaN" "PInf + PInf = PInf" "MInf + MInf = MInf"
  "PInf * PInf = PInf" "MInf * MInf = PInf" "PInf * MInf = MInf" "MInf * PInf = MInf"
  by (auto simp: plus_double_def minus_double_def uminus_double_def times_double_def
      divide_double_def abs_double_def sqrt_double_def is_zero_def is_inf_def sign_bit_def
      signed_zero_def signed_inf_def value_of_def)

lemma Inf_compare:
  "Fin a < PInf" "MInf < Fin a" "\<not> PInf < x" "\<not> x < MInf" "x \<noteq> NaN \<Longrightarrow> x \<le> PInf"
  "x \<noteq> NaN \<Longrightarrow> MInf \<le> x" "\<not> PInf \<le> Fin a" "\<not> Fin a \<le> MInf" "MInf < PInf"
  by (simp_all add: less_double_def less_eq_double_def)

lemmas double_arith =
  zero_double_def one_double_def numeral_double Fin_plus Fin_uminus Fin_minus Fin_times
  Fin_divide Fin_abs Fin_less Fin_less_eq Fin_sqrt NaN_arith NaN_compare NegZero_arith
  NegZero_compare Inf_arith Inf_compare macro_MIN_def

section \<open>Verified properties: the inflation simulator\<close>

subsection \<open>Loops with fuel\<close>

lemma loop_fuel_error:
  "loop_fuel n c b s0 = Some (Inl e) \<Longrightarrow>
   \<exists>m s. after_passes c (\<lambda>s. passed (Some (b s))) m s0 = Some s \<and> c s \<and> b s = Inl e"
proof (induction n arbitrary: s0)
  case 0
  then show ?case by (simp split: if_splits)
next
  case (Suc n)
  show ?case
  proof (cases "b s0")
    case (Inl e')
    then have "c s0" and "e' = e" using Suc.prems by (auto split: if_splits)
    then have "after_passes c (\<lambda>s. passed (Some (b s))) 0 s0 = Some s0 \<and> c s0 \<and> b s0 = Inl e"
      using Inl by simp
    then show ?thesis by blast
  next
    case (Inr s1)
    then have c0: "c s0" and rest: "loop_fuel n c b s1 = Some (Inl e)"
      using Suc.prems by (auto split: if_splits)
    from Suc.IH [OF rest] obtain m s
      where "after_passes c (\<lambda>s. passed (Some (b s))) m s1 = Some s" "c s" "b s = Inl e"
      by blast
    then have "after_passes c (\<lambda>s. passed (Some (b s))) (Suc m) s0 = Some s \<and> c s \<and> b s = Inl e"
      using c0 Inr by (simp add: passed_def)
    then show ?thesis by blast
  qed
qed

lemma loop_fuel_result:
  "loop_fuel n c b s0 = Some (Inr s) \<Longrightarrow>
   \<exists>m. after_passes c (\<lambda>s. passed (Some (b s))) m s0 = Some s \<and> \<not> c s"
proof (induction n arbitrary: s0)
  case 0
  then have "after_passes c (\<lambda>s. passed (Some (b s))) 0 s0 = Some s \<and> \<not> c s"
    by (simp split: if_splits)
  then show ?case by blast
next
  case (Suc n)
  show ?case
  proof (cases "c s0")
    case False
    then have "after_passes c (\<lambda>s. passed (Some (b s))) 0 s0 = Some s \<and> \<not> c s"
      using Suc.prems by simp
    then show ?thesis by blast
  next
    case True
    then obtain s1 where b: "b s0 = Inr s1" and rest: "loop_fuel n c b s1 = Some (Inr s)"
      using Suc.prems by (auto split: sum.splits)
    from Suc.IH [OF rest] obtain m
      where "after_passes c (\<lambda>s. passed (Some (b s))) m s1 = Some s" "\<not> c s" by blast
    then have "after_passes c (\<lambda>s. passed (Some (b s))) (Suc m) s0 = Some s \<and> \<not> c s"
      using True b by (simp add: passed_def)
    then show ?thesis by blast
  qed
qed

lemma after_passes_error:
  "after_passes c (\<lambda>s. passed (Some (b s))) m s0 = Some s \<Longrightarrow> c s \<Longrightarrow> b s = Inl e \<Longrightarrow>
   loop_fuel (Suc m) c b s0 = Some (Inl e)"
proof (induction m arbitrary: s0)
  case 0
  then show ?case by simp
next
  case (Suc m)
  from Suc.prems(1) obtain s1 where c0: "c s0" and b: "b s0 = Inr s1"
    and rest: "after_passes c (\<lambda>s. passed (Some (b s))) m s1 = Some s"
    by (auto simp: passed_def split: if_splits sum.splits option.splits)
  have "loop_fuel (Suc m) c b s1 = Some (Inl e)" using rest Suc.prems(2,3) by (rule Suc.IH)
  then show ?case using c0 b by simp
qed

lemma after_passes_invariant:
  assumes "after_passes c nxt m s0 = Some s" and "P s0"
    and "\<And>s s'. P s \<Longrightarrow> c s \<Longrightarrow> nxt s = Some s' \<Longrightarrow> P s'"
  shows "P s"
  using assms(1,2)
proof (induction m arbitrary: s0)
  case 0
  then show ?case by simp
next
  case (Suc m)
  from Suc.prems(1) obtain s1 where c0: "c s0" and n: "nxt s0 = Some s1"
    and rest: "after_passes c nxt m s1 = Some s"
    by (auto split: if_splits option.splits)
  have "P s1" using Suc.prems(2) c0 n by (rule assms(3))
  with rest show ?case by (rule Suc.IH)
qed

subsection \<open>The errors of the background evolver\<close>

lemma potential_error:
  "primordial_inflation_potential ppm phi = Inl e \<Longrightarrow> e = Unknown_potential"
  by (auto simp: primordial_inflation_potential_def split: potential_shape.splits)

lemma check_potential_error:
  "primordial_inflation_check_potential ppm phi = Inl e \<Longrightarrow>
   e = Unknown_potential \<or> e = Potential_not_positive \<or> e = Potential_slope_not_negative"
  by (auto simp: primordial_inflation_check_potential_def dest: potential_error
      split: sum.splits prod.splits if_splits)

lemma check_hubble_error:
  "primordial_inflation_check_hubble ppm phi = Inl e \<Longrightarrow>
   e = Hubble_negative \<or> e = Hubble_slope_positive"
  by (auto simp: primordial_inflation_check_hubble_def split: prod.splits if_splits)

lemma get_epsilon_error:
  "primordial_inflation_get_epsilon ppm phi = Inl e \<Longrightarrow> e = Unknown_potential \<or> e = Bad_spec_type"
  by (auto simp: primordial_inflation_get_epsilon_def dest: potential_error
      split: primordial_spectrum_type.splits sum.splits prod.splits)

lemma derivs_background_error:
  "derivs_background ppm y dy pw = Inl e \<Longrightarrow> e = Unknown_potential \<or> e = Bad_spec_type"
  by (auto simp: derivs_background_def Let_def dest: potential_error
      split: sum.splits prod.splits if_splits integration_direction.splits)

lemma derivs_error:
  "primordial_inflation_derivs ppm tau y dy pw = Inl e \<Longrightarrow> e = Unknown_potential \<or> e = Bad_spec_type"
  by (auto simp: primordial_inflation_derivs_def dest: derivs_background_error
      split: sum.splits prod.splits if_splits)

lemma refresh_error:
  "evolve_refresh ppm ppr target direction epsilon tau_end y dy pw = Inl e \<Longrightarrow>
   e = Unknown_potential \<or> e = Bad_spec_type"
  by (auto simp: evolve_refresh_def Let_def dest: derivs_error split: sum.splits prod.splits)

lemma start_error:
  "evolve_start ppm ppr y dy target check_epsilon direction time = Inl e \<Longrightarrow>
   e = Unknown_potential \<or> e = Bad_spec_type \<or> e = End_inflation_needs_V_end"
  by (auto simp: evolve_start_def Let_def dest: refresh_error get_epsilon_error
      split: sum.splits if_splits)

lemma advance_error:
  "evolve_advance gi ppm ppr s = Inl e \<Longrightarrow>
   e = Unknown_potential \<or> e = Potential_not_positive \<or> e = Potential_slope_not_negative
   \<or> e = Hubble_negative \<or> e = Hubble_slope_positive \<or> e = Step_too_small
   \<or> e = Integrator_error"
  by (auto simp: evolve_advance_def Let_def dest: check_potential_error check_hubble_error
      split: sum.splits if_splits option.splits prod.splits)

lemma finish_error:
  "evolve_finish ppm target stop direction s = Inl e \<Longrightarrow>
   e = Unknown_potential \<or> e = Bad_spec_type \<or> e = Potential_not_positive
   \<or> e = Potential_slope_not_negative"
  by (auto simp: evolve_finish_def Let_def dest: check_potential_error derivs_error
      split: sum.splits if_splits prod.splits target_quantity.splits)

lemma step_crossing:
  "evolve_step gi ppm ppr target check_epsilon direction s = Inl Epsilon_crossing \<longleftrightarrow>
   check_epsilon
   \<and> (\<exists>y1 pw1 tau1 eps_new. evolve_advance gi ppm ppr s = Inr (y1, pw1, tau1)
        \<and> primordial_inflation_get_epsilon ppm (y1 (index_in_phi ppm)) = Inr eps_new
        \<and> eps_new > 1 \<and> es_epsilon s \<le> 1)"
  by (auto simp: evolve_step_def Let_def dest: advance_error get_epsilon_error refresh_error
      split: sum.splits if_splits prod.splits)

lemma refresh_fields:
  "evolve_refresh ppm ppr target direction epsilon tau_end y dy pw = Inr s \<Longrightarrow>
   es_y s = y \<and> es_epsilon s = epsilon \<and> es_tau_end s = tau_end"
  by (auto simp: evolve_refresh_def Let_def split: sum.splits prod.splits)

lemma start_epsilon:
  "evolve_start ppm ppr y dy target True direction time = Inr s0 \<Longrightarrow>
   es_y s0 = y \<and> primordial_inflation_get_epsilon ppm (y (index_in_phi ppm)) = Inr (es_epsilon s0)"
  by (auto simp: evolve_start_def Let_def dest: refresh_fields split: sum.splits if_splits)

lemma step_epsilon:
  "evolve_step gi ppm ppr target True direction s = Inr s' \<Longrightarrow>
   primordial_inflation_get_epsilon ppm (es_y s' (index_in_phi ppm)) = Inr (es_epsilon s')"
  by (auto simp: evolve_step_def Let_def dest: refresh_fields
      split: sum.splits if_splits prod.splits)

lemma passes_epsilon:
  assumes "evolve_passes gi ppm ppr target stop True direction m s0 = Some s"
    and "primordial_inflation_get_epsilon ppm (es_y s0 (index_in_phi ppm)) = Inr (es_epsilon s0)"
  shows "primordial_inflation_get_epsilon ppm (es_y s (index_in_phi ppm)) = Inr (es_epsilon s)"
  using assms unfolding evolve_passes_def
proof (rule after_passes_invariant)
  fix s s'
  assume "passed (Some (evolve_step gi ppm ppr target True direction s)) = Some s'"
  then have "evolve_step gi ppm ppr target True direction s = Inr s'"
    by (auto simp: passed_def split: sum.splits)
  then show "primordial_inflation_get_epsilon ppm (es_y s' (index_in_phi ppm)) = Inr (es_epsilon s')"
    by (rule step_epsilon)
qed



lemma evolve_background_start_error:
  "evolve_start ppm ppr y dy target check_epsilon direction time = Inl e \<Longrightarrow>
   primordial_inflation_evolve_background gi fuel ppm ppr y dy target stop check_epsilon
     direction time = Some (Inl e)"
  by (simp add: primordial_inflation_evolve_background_def)

lemma evolve_background_started:
  "evolve_start ppm ppr y dy target check_epsilon direction time = Inr s0 \<Longrightarrow>
   primordial_inflation_evolve_background gi fuel ppm ppr y dy target stop check_epsilon
     direction time =
   (case loop_fuel fuel (evolve_cond direction (if target = target_end_inflation then 0 else stop))
           (evolve_step gi ppm ppr target check_epsilon direction) s0 of
      None \<Rightarrow> None
    | Some (Inl e) \<Rightarrow> Some (Inl e)
    | Some (Inr s) \<Rightarrow>
        Some (evolve_finish ppm target (if target = target_end_inflation then 0 else stop)
                direction s))"
  by (simp add: primordial_inflation_evolve_background_def Let_def)

lemma evolve_background_crossing_loop:
  assumes "primordial_inflation_evolve_background gi fuel ppm ppr y dy target stop check_epsilon
             direction time = Some (Inl Epsilon_crossing)"
  shows "\<exists>s0. evolve_start ppm ppr y dy target check_epsilon direction time = Inr s0
           \<and> loop_fuel fuel (evolve_cond direction (if target = target_end_inflation then 0 else stop))
                (evolve_step gi ppm ppr target check_epsilon direction) s0
              = Some (Inl Epsilon_crossing)"
proof (cases "evolve_start ppm ppr y dy target check_epsilon direction time")
  case (Inl e)
  then have "e = Epsilon_crossing"
    using assms evolve_background_start_error [OF Inl, of gi fuel stop] by simp
  then show ?thesis using start_error [OF Inl] by simp
next
  case (Inr s0)
  let ?loop = "loop_fuel fuel (evolve_cond direction (if target = target_end_inflation then 0 else stop))
                (evolve_step gi ppm ppr target check_epsilon direction) s0"
  have eq: "(case ?loop of None \<Rightarrow> None | Some (Inl e) \<Rightarrow> Some (Inl e)
              | Some (Inr s) \<Rightarrow>
                  Some (evolve_finish ppm target (if target = target_end_inflation then 0 else stop)
                          direction s)) = Some (Inl Epsilon_crossing)"
    using assms evolve_background_started [OF Inr, of gi fuel stop] by simp
  have "?loop = Some (Inl Epsilon_crossing)"
  proof (cases ?loop)
    case None
    then show ?thesis using eq by simp
  next
    case (Some res)
    show ?thesis
    proof (cases res)
      case (Inl e)
      then show ?thesis using eq Some by simp
    next
      case (Inr s)
      then have "evolve_finish ppm target (if target = target_end_inflation then 0 else stop)
                   direction s = Inl Epsilon_crossing"
        using eq Some by simp
      then show ?thesis using finish_error by blast
    qed
  qed
  then show ?thesis using Inr by simp
qed


subsection \<open>Indices and frames\<close>

lemma indices_V:
  assumes "primordial_spec_type ppm0 = inflation_V \<or> primordial_spec_type ppm0 = inflation_V_end"
    and "ppm = primordial_inflation_indices ppm0"
  shows "index_in_a ppm = 0" "index_in_phi ppm = 1" "index_in_dphi ppm = 2" "in_bg_size ppm = 3"
    "primordial_spec_type ppm = primordial_spec_type ppm0"
    "index_in_ksi_re ppm = 3" "index_in_ksi_im ppm = 4" "index_in_dksi_re ppm = 5"
    "index_in_dksi_im ppm = 6" "index_in_ah_re ppm = 7" "index_in_ah_im ppm = 8"
    "index_in_dah_re ppm = 9" "index_in_dah_im ppm = 10" "in_size ppm = 11"
    "potential ppm = potential ppm0"
  using assms by (auto simp: primordial_inflation_indices_def Let_def)

lemma derivs_background_keeps_N:
  "derivs_background ppm y dy pw = Inr (dy1, pw1) \<Longrightarrow> pw_N pw1 = pw_N pw"
  by (auto simp: derivs_background_def Let_def
      split: sum.splits prod.splits if_splits integration_direction.splits)

lemma derivs_keeps_N:
  "primordial_inflation_derivs ppm tau y dy pw = Inr (dy1, pw1) \<Longrightarrow> pw_N pw1 = pw_N pw"
  by (auto simp: primordial_inflation_derivs_def dest: derivs_background_keeps_N
      split: sum.splits prod.splits if_splits)

lemma refresh_keeps_N:
  "evolve_refresh ppm ppr target direction epsilon tau_end y dy pw = Inr s \<Longrightarrow>
   pw_N (es_pipaw s) = pw_N pw"
  by (auto simp: evolve_refresh_def Let_def dest: derivs_keeps_N split: sum.splits prod.splits)

lemma derivs_background_backward_frame:
  assumes V: "primordial_spec_type ppm0 = inflation_V \<or> primordial_spec_type ppm0 = inflation_V_end"
    and ppm: "ppm = primordial_inflation_indices ppm0"
    and b: "pw_integrate pw = backward"
  shows "derivs_background ppm (y(index_in_dphi ppm := v)) dy pw = derivs_background ppm y dy pw"
    and "derivs_background ppm y dy pw = Inr (dy1, pw1) \<Longrightarrow>
           dy1 (index_in_dphi ppm) = dy (index_in_dphi ppm)"
proof -
  note ix = indices_V [OF V ppm]
  have t: "primordial_spec_type ppm = inflation_V \<or> primordial_spec_type ppm = inflation_V_end"
    using V ix by simp
  show "derivs_background ppm (y(index_in_dphi ppm := v)) dy pw = derivs_background ppm y dy pw"
    using t b ix(1-3)
    by (cases "primordial_inflation_potential ppm (y (index_in_phi ppm))")
       (auto simp: derivs_background_def Let_def split: prod.splits)
  show "derivs_background ppm y dy pw = Inr (dy1, pw1) \<Longrightarrow>
           dy1 (index_in_dphi ppm) = dy (index_in_dphi ppm)"
    using t b ix(1-3)
    by (auto simp: derivs_background_def Let_def split: sum.splits prod.splits)
qed

lemma derivs_backward_frame:
  assumes V: "primordial_spec_type ppm0 = inflation_V \<or> primordial_spec_type ppm0 = inflation_V_end"
    and ppm: "ppm = primordial_inflation_indices ppm0"
    and b: "pw_integrate pw = backward"
  shows "primordial_inflation_derivs ppm tau (y(index_in_dphi ppm := v)) dy pw
           = primordial_inflation_derivs ppm tau y dy pw"
    and "primordial_inflation_derivs ppm tau y dy pw = Inr (dy1, pw1) \<Longrightarrow>
           dy1 (index_in_dphi ppm) = dy (index_in_dphi ppm)"
proof -
  note ix = indices_V [OF V ppm]
  have pert: "derivs_perturbations ppm (y(index_in_dphi ppm := v)) d p
                = derivs_perturbations ppm y d p" for d p
    using ix by (simp add: derivs_perturbations_def Let_def)
  show "primordial_inflation_derivs ppm tau (y(index_in_dphi ppm := v)) dy pw
           = primordial_inflation_derivs ppm tau y dy pw"
    unfolding primordial_inflation_derivs_def
    by (cases "derivs_background ppm y dy pw")
       (auto simp: derivs_background_backward_frame(1) [OF V ppm b] pert split: prod.splits)
  assume d: "primordial_inflation_derivs ppm tau y dy pw = Inr (dy1, pw1)"
  then obtain dy0 where bg: "derivs_background ppm y dy pw = Inr (dy0, pw1)"
    and res: "dy1 = dy0 \<or> dy1 = derivs_perturbations ppm y dy0 pw1"
    by (auto simp: primordial_inflation_derivs_def split: sum.splits prod.splits if_splits)
  have "dy0 (index_in_dphi ppm) = dy (index_in_dphi ppm)"
    using bg by (rule derivs_background_backward_frame(2) [OF V ppm b])
  moreover have "derivs_perturbations ppm y dy0 pw1 (index_in_dphi ppm) = dy0 (index_in_dphi ppm)"
    using ix by (simp add: derivs_perturbations_def Let_def)
  ultimately show "dy1 (index_in_dphi ppm) = dy (index_in_dphi ppm)" using res by auto
qed

subsection \<open>The slow-roll check\<close>

text \<open>
  Claim C5. With \<^verbatim>\<open>check_epsilon\<close> enabled, a call of
  \<^verbatim>\<open>primordial_inflation_evolve_background\<close> fails with the slow-roll error exactly when
  \<open>epsilon\<close> crosses from at most 1 to more than 1 between two consecutive points of the
  run: there is a state \<open>s\<close> reached after \<open>m\<close> accepted steps (\<open>m = 0\<close> is the starting
  point), the loop goes on from it, the next step is accepted by the checks and the
  integrator and gives the vector \<open>y1\<close>, and \<open>epsilon\<close> is at most 1 at \<open>s\<close> and more than 1
  at \<open>y1\<close>. Without such a crossing no amount of fuel produces the error; in particular
  not when \<open>epsilon\<close> is above 1 from the start. The comparisons are those of doubles:
  where the potential (or \<open>H\<close>) vanishes \<open>epsilon\<close> is infinite, which is above 1 and not
  at most 1, or a NaN, which is neither.
\<close>

theorem evolve_background_epsilon_crossing:
  "(\<exists>fuel. primordial_inflation_evolve_background gi fuel ppm ppr y dy target stop True
              direction time = Some (Inl Epsilon_crossing))
   \<longleftrightarrow>
   (\<exists>s0 m s y1 pw1 tau1 eps_old eps_new.
      evolve_start ppm ppr y dy target True direction time = Inr s0
      \<and> evolve_passes gi ppm ppr target (if target = target_end_inflation then 0 else stop)
           True direction m s0 = Some s
      \<and> evolve_cond direction (if target = target_end_inflation then 0 else stop) s
      \<and> evolve_advance gi ppm ppr s = Inr (y1, pw1, tau1)
      \<and> primordial_inflation_get_epsilon ppm (es_y s (index_in_phi ppm)) = Inr eps_old
      \<and> primordial_inflation_get_epsilon ppm (y1 (index_in_phi ppm)) = Inr eps_new
      \<and> eps_old \<le> 1 \<and> 1 < eps_new)"
  (is "?L \<longleftrightarrow> ?R")
proof
  define stop1 where "stop1 = (if target = target_end_inflation then 0 else stop)"
  assume ?L
  then obtain fuel where res: "primordial_inflation_evolve_background gi fuel ppm ppr y dy target
      stop True direction time = Some (Inl Epsilon_crossing)" by blast
  from evolve_background_crossing_loop [OF res] obtain s0
    where s0: "evolve_start ppm ppr y dy target True direction time = Inr s0"
      and loop: "loop_fuel fuel (evolve_cond direction stop1)
                (evolve_step gi ppm ppr target True direction) s0 = Some (Inl Epsilon_crossing)"
    unfolding stop1_def by blast
  from loop_fuel_error [OF loop] obtain m s
    where m: "evolve_passes gi ppm ppr target stop1 True direction m s0 = Some s"
      and c: "evolve_cond direction stop1 s"
      and st: "evolve_step gi ppm ppr target True direction s = Inl Epsilon_crossing"
    unfolding evolve_passes_def by blast
  from st obtain y1 pw1 tau1 eps_new
    where adv: "evolve_advance gi ppm ppr s = Inr (y1, pw1, tau1)"
      and en: "primordial_inflation_get_epsilon ppm (y1 (index_in_phi ppm)) = Inr eps_new"
      and cross: "eps_new > 1" "es_epsilon s \<le> 1"
    unfolding step_crossing by blast
  have e0: "primordial_inflation_get_epsilon ppm (es_y s0 (index_in_phi ppm)) = Inr (es_epsilon s0)"
    using start_epsilon [OF s0] by simp
  have eo: "primordial_inflation_get_epsilon ppm (es_y s (index_in_phi ppm)) = Inr (es_epsilon s)"
    using m e0 by (rule passes_epsilon)
  have "evolve_start ppm ppr y dy target True direction time = Inr s0
      \<and> evolve_passes gi ppm ppr target stop1 True direction m s0 = Some s
      \<and> evolve_cond direction stop1 s
      \<and> evolve_advance gi ppm ppr s = Inr (y1, pw1, tau1)
      \<and> primordial_inflation_get_epsilon ppm (es_y s (index_in_phi ppm)) = Inr (es_epsilon s)
      \<and> primordial_inflation_get_epsilon ppm (y1 (index_in_phi ppm)) = Inr eps_new
      \<and> es_epsilon s \<le> 1 \<and> 1 < eps_new"
    using s0 m c adv eo en cross by simp
  then show ?R unfolding stop1_def by blast
next
  define stop1 where "stop1 = (if target = target_end_inflation then 0 else stop)"
  assume ?R
  then obtain s0 m s y1 pw1 tau1 eps_old eps_new
    where s0: "evolve_start ppm ppr y dy target True direction time = Inr s0"
      and m: "evolve_passes gi ppm ppr target stop1 True direction m s0 = Some s"
      and c: "evolve_cond direction stop1 s"
      and adv: "evolve_advance gi ppm ppr s = Inr (y1, pw1, tau1)"
      and eo: "primordial_inflation_get_epsilon ppm (es_y s (index_in_phi ppm)) = Inr eps_old"
      and en: "primordial_inflation_get_epsilon ppm (y1 (index_in_phi ppm)) = Inr eps_new"
      and cross: "eps_old \<le> 1" "1 < eps_new"
    unfolding stop1_def by blast
  have e0: "primordial_inflation_get_epsilon ppm (es_y s0 (index_in_phi ppm)) = Inr (es_epsilon s0)"
    using start_epsilon [OF s0] by simp
  have "primordial_inflation_get_epsilon ppm (es_y s (index_in_phi ppm)) = Inr (es_epsilon s)"
    using m e0 by (rule passes_epsilon)
  then have "es_epsilon s = eps_old" using eo by simp
  then have "evolve_step gi ppm ppr target True direction s = Inl Epsilon_crossing"
    unfolding step_crossing using adv en cross by simp
  then have "loop_fuel (Suc m) (evolve_cond direction stop1)
                (evolve_step gi ppm ppr target True direction) s0 = Some (Inl Epsilon_crossing)"
    using m c unfolding evolve_passes_def by (intro after_passes_error)
  then have "primordial_inflation_evolve_background gi (Suc m) ppm ppr y dy target stop True
              direction time = Some (Inl Epsilon_crossing)"
    using evolve_background_started [OF s0, of gi "Suc m" stop] unfolding stop1_def by simp
  then show ?L by blast
qed


subsection \<open>Backward integration and the field momentum\<close>

lemma start_frame:
  "evolve_start ppm ppr y dy target check_epsilon direction time = Inr s0 \<Longrightarrow>
   es_y s0 = y \<and> pw_N (es_pipaw s0) = evolve_N ppm direction"
  by (auto simp: evolve_start_def Let_def pipaw_new_def dest: refresh_fields refresh_keeps_N
      split: sum.splits if_splits)

lemma advance_frame:
  assumes "integrator_frame gi" and "evolve_advance gi ppm ppr s = Inr (y1, pw1, tau1)"
  shows "pw_N pw1 = pw_N (es_pipaw s) \<and> (\<forall>i. pw_N (es_pipaw s) \<le> int i \<longrightarrow> y1 i = es_y s i)"
proof -
  from assms(2) have "gi (primordial_inflation_derivs ppm) (es_tau_end s) (es_tau_end s + es_dtau s)
      (es_y s) (es_pipaw s) (primordial_inflation_tol_integration ppr)
      (smallest_allowed_variation ppr) = Some (y1, pw1)"
    by (auto simp: evolve_advance_def Let_def split: sum.splits if_splits option.splits)
  then show ?thesis using assms(1) unfolding integrator_frame_def by blast
qed

lemma step_frame:
  assumes "integrator_frame gi"
    and "evolve_step gi ppm ppr target check_epsilon direction s = Inr s'"
  shows "pw_N (es_pipaw s') = pw_N (es_pipaw s)
         \<and> (\<forall>i. pw_N (es_pipaw s) \<le> int i \<longrightarrow> es_y s' i = es_y s i)"
proof -
  from assms(2) obtain y1 pw1 tau1 eps
    where adv: "evolve_advance gi ppm ppr s = Inr (y1, pw1, tau1)"
      and ref: "evolve_refresh ppm ppr target direction eps tau1 y1 (es_dy s) pw1 = Inr s'"
    by (auto simp: evolve_step_def Let_def split: sum.splits prod.splits if_splits)
  have "es_y s' = y1" and "pw_N (es_pipaw s') = pw_N pw1"
    using refresh_fields [OF ref] refresh_keeps_N [OF ref] by simp_all
  then show ?thesis using advance_frame [OF assms(1) adv] by simp
qed

lemma passes_frame:
  assumes "integrator_frame gi"
    and "evolve_passes gi ppm ppr target stop check_epsilon direction m s0 = Some s"
    and "pw_N (es_pipaw s0) \<le> int j"
  shows "pw_N (es_pipaw s) = pw_N (es_pipaw s0) \<and> es_y s j = es_y s0 j"
  using assms(2) unfolding evolve_passes_def
proof (rule after_passes_invariant)
  show "pw_N (es_pipaw s0) = pw_N (es_pipaw s0) \<and> es_y s0 j = es_y s0 j" by simp
next
  fix s s'
  assume inv: "pw_N (es_pipaw s) = pw_N (es_pipaw s0) \<and> es_y s j = es_y s0 j"
    and "passed (Some (evolve_step gi ppm ppr target check_epsilon direction s)) = Some s'"
  then have "evolve_step gi ppm ppr target check_epsilon direction s = Inr s'"
    by (auto simp: passed_def split: sum.splits)
  from step_frame [OF assms(1) this] show
    "pw_N (es_pipaw s') = pw_N (es_pipaw s0) \<and> es_y s' j = es_y s0 j"
    using inv assms(3) by simp
qed

lemma finish_backward_frame:
  assumes V: "primordial_spec_type ppm0 = inflation_V \<or> primordial_spec_type ppm0 = inflation_V_end"
    and ppm: "ppm = primordial_inflation_indices ppm0"
    and fin: "evolve_finish ppm target stop backward s = Inr (y1, dy1)"
  shows "y1 (index_in_dphi ppm) = es_y s (index_in_dphi ppm)"
  using fin indices_V(1-3) [OF V ppm]
  by (auto simp: evolve_finish_def Let_def split: sum.splits prod.splits target_quantity.splits)

lemma evolve_background_result:
  assumes "primordial_inflation_evolve_background gi fuel ppm ppr y dy target stop check_epsilon
             direction time = Some (Inr res)"
  shows "\<exists>s0 m s. evolve_start ppm ppr y dy target check_epsilon direction time = Inr s0
           \<and> evolve_passes gi ppm ppr target (if target = target_end_inflation then 0 else stop)
                check_epsilon direction m s0 = Some s
           \<and> \<not> evolve_cond direction (if target = target_end_inflation then 0 else stop) s
           \<and> evolve_finish ppm target (if target = target_end_inflation then 0 else stop)
                direction s = Inr res"
proof (cases "evolve_start ppm ppr y dy target check_epsilon direction time")
  case (Inl e)
  then show ?thesis
    using assms evolve_background_start_error [OF Inl, of gi fuel stop] by simp
next
  case (Inr s0)
  let ?stop = "if target = target_end_inflation then 0 else stop"
  let ?loop = "loop_fuel fuel (evolve_cond direction ?stop)
                (evolve_step gi ppm ppr target check_epsilon direction) s0"
  have eq: "(case ?loop of None \<Rightarrow> None | Some (Inl e) \<Rightarrow> Some (Inl e)
              | Some (Inr s) \<Rightarrow> Some (evolve_finish ppm target ?stop direction s))
            = Some (Inr res)"
    using assms evolve_background_started [OF Inr, of gi fuel stop] by simp
  then obtain s where l: "?loop = Some (Inr s)"
    and f: "evolve_finish ppm target ?stop direction s = Inr res"
    by (auto split: option.splits sum.splits)
  from loop_fuel_result [OF l] obtain m
    where "evolve_passes gi ppm ppr target ?stop check_epsilon direction m s0 = Some s"
      and "\<not> evolve_cond direction ?stop s"
    unfolding evolve_passes_def by blast
  then show ?thesis using Inr f by blast
qed

text \<open>
  Claim C7. For the potential-based types, with the indices set by
  \<^verbatim>\<open>primordial_inflation_indices\<close> and an integrator that respects the size it is given:
  a backward call integrates a system of \<open>in_bg_size - 1\<close> equations; the backward branch
  of the derivative function gives the same result whatever \<open>y[index_in_dphi]\<close> holds and
  leaves \<open>dy[index_in_dphi]\<close> as it was; and a backward call of
  \<^verbatim>\<open>primordial_inflation_evolve_background\<close> that returns has left \<open>y[index_in_dphi]\<close>
  unchanged, last trapezoidal step included.
\<close>

theorem backward_drops_field_momentum:
  assumes "integrator_frame gi"
    and "primordial_spec_type ppm0 = inflation_V \<or> primordial_spec_type ppm0 = inflation_V_end"
    and "ppm = primordial_inflation_indices ppm0"
  shows "evolve_N ppm backward = int (in_bg_size ppm) - 1
    \<and> (pw_integrate pw = backward \<longrightarrow>
         primordial_inflation_derivs ppm tau (y(index_in_dphi ppm := v)) dy pw
           = primordial_inflation_derivs ppm tau y dy pw
         \<and> (\<forall>dy1 pw1. primordial_inflation_derivs ppm tau y dy pw = Inr (dy1, pw1) \<longrightarrow>
               dy1 (index_in_dphi ppm) = dy (index_in_dphi ppm)))
    \<and> (\<forall>y' dy'. primordial_inflation_evolve_background gi fuel ppm ppr y dy target stop
                   check_epsilon backward time = Some (Inr (y', dy')) \<longrightarrow>
          y' (index_in_dphi ppm) = y (index_in_dphi ppm))"
proof (intro conjI impI allI)
  note ix = indices_V [OF assms(2,3)]
  show N: "evolve_N ppm backward = int (in_bg_size ppm) - 1"
    using assms(2) ix by (simp add: evolve_N_def)
  {
    assume b: "pw_integrate pw = backward"
    show "primordial_inflation_derivs ppm tau (y(index_in_dphi ppm := v)) dy pw
           = primordial_inflation_derivs ppm tau y dy pw"
      using b by (rule derivs_backward_frame(1) [OF assms(2,3)])
    fix dy1 pw1
    assume "primordial_inflation_derivs ppm tau y dy pw = Inr (dy1, pw1)"
    then show "dy1 (index_in_dphi ppm) = dy (index_in_dphi ppm)"
      by (rule derivs_backward_frame(2) [OF assms(2,3) b])
  }
  fix y' dy'
  assume "primordial_inflation_evolve_background gi fuel ppm ppr y dy target stop
            check_epsilon backward time = Some (Inr (y', dy'))"
  from evolve_background_result [OF this] obtain s0 m s
    where s0: "evolve_start ppm ppr y dy target check_epsilon backward time = Inr s0"
      and m: "evolve_passes gi ppm ppr target (if target = target_end_inflation then 0 else stop)
                check_epsilon backward m s0 = Some s"
      and f: "evolve_finish ppm target (if target = target_end_inflation then 0 else stop)
                backward s = Inr (y', dy')"
    by blast
  have st: "es_y s0 = y" "pw_N (es_pipaw s0) = evolve_N ppm backward"
    using start_frame [OF s0] by simp_all
  have "pw_N (es_pipaw s0) \<le> int (index_in_dphi ppm)" using st N ix by simp
  from passes_frame [OF assms(1) m this]
  have "es_y s (index_in_dphi ppm) = y (index_in_dphi ppm)" using st by simp
  then show "y' (index_in_dphi ppm) = y (index_in_dphi ppm)"
    using finish_backward_frame [OF assms(2,3) f] by simp
qed


subsection \<open>Sample runs\<close>

lemma pow_numerals:
  "pow x 2 = x * (x * 1)" "pow x 3 = x * (x * (x * 1))" "pow x 4 = x * (x * (x * (x * 1)))"
  by (simp_all add: eval_nat_numeral)

lemma ppm_V_example_fields:
  "primordial_spec_type ppm_V_example = inflation_V" "potential ppm_V_example = polynomial"
  "V0 ppm_V_example = 1" "V1 ppm_V_example = - 1" "V2 ppm_V_example = 0" "V3 ppm_V_example = 0"
  "V4 ppm_V_example = 0" "phi_pivot ppm_V_example = 0"
  "index_in_a ppm_V_example = 0" "index_in_phi ppm_V_example = 1" "index_in_dphi ppm_V_example = 2"
  "in_bg_size ppm_V_example = 3" "lnk ppm_V_example = [0, 1]"
  by (simp_all add: ppm_V_example_def primordial_inflation_indices_def ppm_blank_def Let_def)

lemma example_potential:
  "primordial_inflation_potential ppm_V_example (Fin p) = Inr (Fin (1 - p), Fin (- 1), Fin 0)"
  by (simp add: primordial_inflation_potential_def ppm_V_example_fields pow_numerals double_arith)

lemma example_epsilon:
  "p \<noteq> 1 \<Longrightarrow>
   primordial_inflation_get_epsilon ppm_V_example (Fin p)
     = Inr (Fin (1 / 16 / pi * (- 1 / (1 - p)) ^ 2))"
  by (simp add: primordial_inflation_get_epsilon_def ppm_V_example_fields example_potential
      pow_numerals double_arith power2_eq_square)

lemma y_start_example_vals:
  "y_start_example 0 = Fin 1" "y_start_example (Suc 0) = Fin 0" "y_start_example 1 = Fin 0"
  "y_start_example 2 = Fin 0"
  by (simp_all add: y_start_example_def double_arith)

lemma example_start:
  "\<exists>s0. evolve_start ppm_V_example ppr_example y_start_example (\<lambda>_. 0) target_phi True forward
          conformal = Inr s0
        \<and> es_y s0 = y_start_example \<and> es_quantity s0 = Fin 0 \<and> es_tau_end s0 = Fin 0
        \<and> es_dtau s0 = Fin 0 \<and> es_epsilon s0 = Fin (1 / 16 / pi)
        \<and> pw_N (es_pipaw s0) = 3"
  by (simp add: evolve_start_def evolve_refresh_def primordial_inflation_derivs_def
      derivs_background_def evolve_quantity_def evolve_dtau_def evolve_N_def pipaw_new_def
      example_epsilon example_potential ppm_V_example_fields y_start_example_vals ppr_example_def
      pow_numerals double_arith Let_def)

lemma example_advance:
  assumes "es_y s = y_start_example" "es_tau_end s = Fin 0" "es_dtau s = Fin 0"
    "pw_N (es_pipaw s) = 3"
  shows "evolve_advance (landing_integrator y_land_example) ppm_V_example ppr_example s
           = Inr (\<lambda>i. if int i < 3 then y_land_example i else y_start_example i,
                  es_pipaw s, Fin 0)"
  using assms
  by (simp add: evolve_advance_def primordial_inflation_check_potential_def example_potential
      ppm_V_example_fields landing_integrator_def y_start_example_vals ppr_example_def
      double_arith Let_def)

theorem evolve_background_epsilon_crossing_witness:
  "\<exists>fuel. primordial_inflation_evolve_background (landing_integrator y_land_example) fuel
            ppm_V_example ppr_example y_start_example (\<lambda>_. 0) target_phi 1 True forward conformal
          = Some (Inl Epsilon_crossing)"
proof -
  obtain s0 where s0:
    "evolve_start ppm_V_example ppr_example y_start_example (\<lambda>_. 0) target_phi True forward
       conformal = Inr s0"
    and f: "es_y s0 = y_start_example" "es_quantity s0 = Fin 0" "es_tau_end s0 = Fin 0"
      "es_dtau s0 = Fin 0" "es_epsilon s0 = Fin (1 / 16 / pi)" "pw_N (es_pipaw s0) = 3"
    using example_start by blast
  have p: "evolve_passes (landing_integrator y_land_example) ppm_V_example ppr_example target_phi
             (if target_phi = target_end_inflation then 0 else 1) True forward 0 s0 = Some s0"
    by (simp add: evolve_passes_def)
  have c: "evolve_cond forward (if target_phi = target_end_inflation then 0 else 1) s0"
    using f by (simp add: evolve_cond_def sign_dtau_of_def double_arith)
  have a: "evolve_advance (landing_integrator y_land_example) ppm_V_example ppr_example s0
           = Inr (\<lambda>i. if int i < 3 then y_land_example i else y_start_example i,
                  es_pipaw s0, Fin 0)"
    using f by (intro example_advance)
  have eo: "primordial_inflation_get_epsilon ppm_V_example (es_y s0 (index_in_phi ppm_V_example))
              = Inr (Fin (1 / 16 / pi))"
    using f by (simp add: example_epsilon ppm_V_example_fields y_start_example_vals)
  have en: "primordial_inflation_get_epsilon ppm_V_example
              ((\<lambda>i. if int i < 3 then y_land_example i else y_start_example i)
                 (index_in_phi ppm_V_example))
              = Inr (Fin (100 / 16 / pi))"
    by (simp add: example_epsilon ppm_V_example_fields y_land_example_def power2_eq_square)
  have b1: "Fin (1 / 16 / pi) \<le> 1" using pi_ge_two by (simp add: double_arith field_simps)
  have b2: "1 < Fin (100 / 16 / pi)" using pi_less_4 by (simp add: double_arith field_simps)
  show ?thesis
    unfolding evolve_background_epsilon_crossing
    using s0 p c a eo en b1 b2 by blast
qed

lemma ppm_V_unit_example_fields:
  "primordial_spec_type ppm_V_unit_example = inflation_V" "potential ppm_V_unit_example = polynomial"
  "V0 ppm_V_unit_example = Fin (3 / (8 * pi))" "V1 ppm_V_unit_example = - 1"
  "V2 ppm_V_unit_example = 0"
  "V3 ppm_V_unit_example = 0" "V4 ppm_V_unit_example = 0" "phi_pivot ppm_V_unit_example = 0"
  "index_in_a ppm_V_unit_example = 0" "index_in_phi ppm_V_unit_example = 1"
  "index_in_dphi ppm_V_unit_example = 2" "in_bg_size ppm_V_unit_example = 3"
  by (simp_all add: ppm_V_unit_example_def primordial_inflation_indices_def ppm_blank_def Let_def)

lemma unit_potential:
  "primordial_inflation_potential ppm_V_unit_example (Fin p)
     = Inr (Fin (3 / (8 * pi) - p), Fin (- 1), Fin 0)"
  by (simp add: primordial_inflation_potential_def ppm_V_unit_example_fields pow_numerals
      double_arith)

lemma sqrt_sixteenth: "sqrt (1 / 16) = 1 / 4"
  by (rule real_sqrt_unique) (simp_all add: power2_eq_square)

lemma landing_integrator_frame: "integrator_frame (landing_integrator y_land)"
  by (auto simp: integrator_frame_def landing_integrator_def)

lemma y_back_example_vals:
  "y_back_example 0 = Fin 1" "y_back_example (Suc 0) = Fin 0" "y_back_example 1 = Fin 0"
  "y_back_example 2 = Fin 5"
  by (simp_all add: y_back_example_def double_arith)

lemma back_start:
  "\<exists>s0. evolve_start ppm_V_unit_example ppr_example y_back_example (\<lambda>_. 0) target_aH False
          backward conformal = Inr s0
        \<and> es_y s0 = y_back_example \<and> es_quantity s0 = Fin (1 / 2) \<and> es_tau_end s0 = Fin 0
        \<and> es_dtau s0 = Fin (- 1 / 2)
        \<and> pw_N (es_pipaw s0) = 2 \<and> pw_integrate (es_pipaw s0) = backward"
  by (simp add: evolve_start_def evolve_refresh_def primordial_inflation_derivs_def
      derivs_background_def evolve_quantity_def evolve_dtau_def evolve_N_def pipaw_new_def
      unit_potential ppm_V_unit_example_fields y_back_example_vals ppr_example_def
      sign_dtau_of_def double_arith Let_def)

lemma back_step:
  assumes "es_y s = y_back_example" "es_tau_end s = Fin 0" "es_dtau s = Fin (- 1 / 2)"
    "pw_N (es_pipaw s) = 2" "pw_integrate (es_pipaw s) = backward"
  shows "\<exists>s1. evolve_step (landing_integrator y_land_back_example) ppm_V_unit_example ppr_example
            target_aH False backward s = Inr s1
          \<and> es_quantity s1 = Fin (1 / 8) \<and> es_aH s1 = Fin (1 / 4) \<and> es_y s1 1 = Fin 0
          \<and> es_y s1 0 = Fin (1 / 4) \<and> es_dy s1 0 = Fin (1 / 16)
          \<and> es_dy s1 1 = Fin (1 / 12)"
  using assms
  by (simp add: evolve_step_def evolve_advance_def primordial_inflation_check_potential_def
      evolve_refresh_def primordial_inflation_derivs_def derivs_background_def
      evolve_quantity_def evolve_dtau_def unit_potential ppm_V_unit_example_fields
      y_back_example_vals ppr_example_def sign_dtau_of_def
      landing_integrator_def y_land_back_example_def sqrt_sixteenth double_arith Let_def not_le)

lemma back_finish:
  assumes "es_aH s1 = Fin (1 / 4)" "es_y s1 1 = Fin 0" "es_y s1 0 = Fin (1 / 4)"
    "es_dy s1 0 = Fin (1 / 16)" "es_dy s1 1 = Fin (1 / 12)"
  shows "\<exists>res. evolve_finish ppm_V_unit_example target_aH (Fin (1 / 4)) backward s1 = Inr res"
  using assms
  by (simp add: evolve_finish_def primordial_inflation_derivs_def derivs_background_def
      unit_potential ppm_V_unit_example_fields double_arith Let_def
      split: integration_direction.splits)

theorem backward_drops_field_momentum_witness:
  "integrator_frame (landing_integrator y_land_back_example)
   \<and> evolve_N ppm_V_unit_example backward = int (in_bg_size ppm_V_unit_example) - 1
   \<and> (\<exists>y' dy'. primordial_inflation_evolve_background (landing_integrator y_land_back_example)
                  1 ppm_V_unit_example ppr_example y_back_example (\<lambda>_. 0) target_aH
                  (Fin (1 / 4)) False backward conformal = Some (Inr (y', dy'))
               \<and> y' (index_in_dphi ppm_V_unit_example) = 5)"
proof -
  have fr: "integrator_frame (landing_integrator y_land_back_example)"
    by (rule landing_integrator_frame)
  have V: "primordial_spec_type
             (ppm_blank\<lparr>primordial_spec_type := inflation_V, potential := polynomial,
                        V0 := Fin (3 / (8 * pi)), V1 := - 1, lnk := [0, 1]\<rparr>) = inflation_V
           \<or> primordial_spec_type
             (ppm_blank\<lparr>primordial_spec_type := inflation_V, potential := polynomial,
                        V0 := Fin (3 / (8 * pi)), V1 := - 1, lnk := [0, 1]\<rparr>) = inflation_V_end"
    by simp
  note t = backward_drops_field_momentum [OF fr V ppm_V_unit_example_def]
  obtain s0 where s0: "evolve_start ppm_V_unit_example ppr_example y_back_example (\<lambda>_. 0)
          target_aH False backward conformal = Inr s0"
    and f0: "es_y s0 = y_back_example" "es_quantity s0 = Fin (1 / 2)" "es_tau_end s0 = Fin 0"
      "es_dtau s0 = Fin (- 1 / 2)"
      "pw_N (es_pipaw s0) = 2" "pw_integrate (es_pipaw s0) = backward"
    using back_start by blast
  obtain s1 where s1: "evolve_step (landing_integrator y_land_back_example) ppm_V_unit_example
            ppr_example target_aH False backward s0 = Inr s1"
    and f1: "es_quantity s1 = Fin (1 / 8)" "es_aH s1 = Fin (1 / 4)" "es_y s1 1 = Fin 0"
      "es_y s1 0 = Fin (1 / 4)" "es_dy s1 0 = Fin (1 / 16)" "es_dy s1 1 = Fin (1 / 12)"
    using back_step [OF f0(1,3,4,5,6)] by blast
  obtain res where fin:
    "evolve_finish ppm_V_unit_example target_aH (Fin (1 / 4)) backward s1 = Inr res"
    using back_finish [OF f1(2,3,4,5,6)] by blast
  have c0: "evolve_cond backward (Fin (1 / 4)) s0"
    using f0 by (simp add: evolve_cond_def sign_dtau_of_def double_arith)
  have c1: "\<not> evolve_cond backward (Fin (1 / 4)) s1"
    using f1 by (simp add: evolve_cond_def sign_dtau_of_def double_arith)
  have "loop_fuel 1 (evolve_cond backward (Fin (1 / 4)))
          (evolve_step (landing_integrator y_land_back_example) ppm_V_unit_example ppr_example
             target_aH False backward) s0 = Some (Inr s1)"
    using c0 c1 s1 by (simp add: One_nat_def)
  then have run: "primordial_inflation_evolve_background (landing_integrator y_land_back_example)
                  1 ppm_V_unit_example ppr_example y_back_example (\<lambda>_. 0) target_aH
                  (Fin (1 / 4)) False backward conformal = Some (Inr res)"
    using evolve_background_started [OF s0, of "landing_integrator y_land_back_example" 1
        "Fin (1 / 4)"] fin
    by simp
  obtain y' dy' where res: "res = (y', dy')" by (cases res)
  have "y' (index_in_dphi ppm_V_unit_example) = y_back_example (index_in_dphi ppm_V_unit_example)"
    using t [THEN conjunct2, THEN conjunct2, rule_format, of 1 ppr_example y_back_example
             "\<lambda>_. 0" target_aH "Fin (1 / 4)" False conformal y' dy'] run res
    by simp
  then have "y' (index_in_dphi ppm_V_unit_example) = 5"
    by (simp add: ppm_V_unit_example_fields y_back_example_vals double_arith)
  then show ?thesis using fr t [THEN conjunct1] run res by blast
qed

subsection \<open>The attractor search\<close>

declare attractor_loop.simps [simp del]









lemma attractor_start_facts:
  assumes "attractor_start ppm phi_0 precision y dy = Inr ((V_0, dV_0), s0)"
  shows "\<not> V_0 \<le> 0" "\<not> 0 \<le> dV_0" "at_counter s0 = 0" "at_phi s0 = phi_0"
    "at_dphidt_0new s0 = - dV_0 / 3 / sqrt_double ((8 * Fin pi / 3) * V_0)"
    "at_dphidt_0old s0 = at_dphidt_0new s0 / (precision + 2)"
    "at_y s0 = y" "at_dy s0 = dy"
    "\<exists>ddV_0. primordial_inflation_potential ppm phi_0 = Inr (V_0, dV_0, ddV_0)"
  using assms
  by (auto simp: attractor_start_def primordial_inflation_check_potential_def Let_def
      split: sum.splits prod.splits if_splits)

lemma first_iterate_finite:
  assumes "0 < v" "d < 0"
  shows "- Fin d / 3 / sqrt_double ((8 * Fin pi / 3) * Fin v)
           = Fin (- d / 3 / sqrt ((8 * pi / 3) * v))"
    and "0 < - d / 3 / sqrt ((8 * pi / 3) * v)"
proof -
  have s: "0 < sqrt ((8 * pi / 3) * v)" using assms(1) by simp
  show "0 < - d / 3 / sqrt ((8 * pi / 3) * v)" using s assms(2) by (simp add: field_simps)
  have "\<not> 8 * pi * v < 0" using assms(1) by (simp add: mult_less_0_iff)
  then show "- Fin d / 3 / sqrt_double ((8 * Fin pi / 3) * Fin v)
           = Fin (- d / 3 / sqrt ((8 * pi / 3) * v))"
    using assms s by (simp add: double_arith)
qed

lemma entered_finite:
  assumes "0 < n" "precision \<noteq> NaN"
  shows "precision \<le> \<bar>Fin n / (Fin n / (precision + 2)) - 1\<bar>"
proof (cases precision)
  case (Fin p)
  show ?thesis
  proof (cases "p + 2 = 0")
    case True
    then have "p = - 2" by simp
    then show ?thesis using assms Fin by (simp add: double_arith)
  next
    case False
    have "n / (n / (p + 2)) = p + 2" using assms(1) False by simp
    then show ?thesis using assms Fin False by (simp add: double_arith)
  qed
next
  case NegZero
  then show ?thesis using assms by (simp add: double_arith)
next
  case PInf
  then show ?thesis using assms by (simp add: double_arith)
next
  case MInf
  then show ?thesis using assms by (simp add: double_arith)
next
  case NaN
  then show ?thesis using assms by simp
qed

lemma not_entered_nan: "\<not> precision \<le> \<bar>NaN / x - 1\<bar>" "\<not> NaN \<le> x"
  by (simp_all add: double_arith)

lemma quotient_by_own_quotient:
  assumes "x = PInf \<or> x = MInf \<or> x = Fin 0 \<or> x = NegZero \<or> x = NaN"
  shows "x / (x / z) = NaN"
  using assms
  by (cases z)
     (auto simp: divide_double_def is_zero_def is_inf_def sign_bit_def signed_zero_def
        signed_inf_def value_of_def)

lemma attractor_start_entered:
  assumes "attractor_start ppm phi_0 precision y dy = Inr ((V_0, dV_0), s0)"
  shows "precision \<le> \<bar>at_dphidt_0new s0 / at_dphidt_0old s0 - 1\<bar>
         \<longleftrightarrow> is_finite V_0 \<and> is_finite dV_0 \<and> precision \<noteq> NaN"
proof -
  note f = attractor_start_facts [OF assms]
  define new where "new = - dV_0 / 3 / sqrt_double ((8 * Fin pi / 3) * V_0)"
  have test: "(precision \<le> \<bar>at_dphidt_0new s0 / at_dphidt_0old s0 - 1\<bar>)
              = (precision \<le> \<bar>new / (new / (precision + 2)) - 1\<bar>)"
    unfolding f(6) f(5) new_def ..
  show ?thesis
  proof (cases "is_finite V_0 \<and> is_finite dV_0")
    case True
    then obtain v d where v: "V_0 = Fin v \<or> V_0 = NegZero" "V_0 = Fin v \<or> v = 0"
      and d: "dV_0 = Fin d \<or> dV_0 = NegZero" "dV_0 = Fin d \<or> d = 0"
      by (cases V_0; cases dV_0) (auto simp: is_finite_def)
    have V: "V_0 = Fin v" "0 < v" using v f(1) by (auto simp: double_arith)
    have D: "dV_0 = Fin d" "d < 0" using d f(2) by (auto simp: double_arith)
    define n where "n = - d / 3 / sqrt ((8 * pi / 3) * v)"
    have n: "new = Fin n" "0 < n"
      using first_iterate_finite [OF V(2) D(2)] unfolding new_def n_def V D by simp_all
    show ?thesis
    proof (cases "precision = NaN")
      case False
      then show ?thesis
        unfolding test n(1) using entered_finite [OF n(2) False] True by simp
    next
      case nan: True
      then show ?thesis by (simp add: double_arith)
    qed
  next
    case False
    have "new = PInf \<or> new = MInf \<or> new = Fin 0 \<or> new = NegZero \<or> new = NaN"
      using False f(1,2) unfolding new_def
      by (cases V_0; cases dV_0) (auto simp: is_finite_def double_arith)
    then have "new / (new / (precision + 2)) = NaN" by (rule quotient_by_own_quotient)
    then show ?thesis unfolding test using False by (auto simp: double_arith)
  qed
qed




lemma find_attractor_started:
  "attractor_start ppm phi_0 precision y dy = Inr ((V_0, dV_0), s0) \<Longrightarrow>
   primordial_inflation_find_attractor gi fuel ppm ppr phi_0 precision y dy =
     (case attractor_loop gi fuel ppm ppr phi_0 precision V_0 dV_0 s0 of
        None \<Rightarrow> None
      | Some (Inl e) \<Rightarrow> Some (Inl e)
      | Some (Inr s) \<Rightarrow>
          Some (Inr (sqrt_double ((8 * Fin pi / 3)
                       * (0.5 * at_dphidt_0new s * at_dphidt_0new s + V_0)),
                     at_dphidt_0new s, at_y s, at_dy s)))"
  by (simp add: primordial_inflation_find_attractor_def Let_def split: option.splits sum.splits)








text \<open>
  Two runs of the search on the potential \<open>V = 1 - phi\<close> with a step size of 0, so that the
  background evolver makes one pass and leaves the landing point of the integrator to the
  last trapezoidal step. Landing on \<open>(a, phi, dphi) = (1, 0, 1)\<close> the search converges
  after one pass. Landing on \<open>(1, 0, 0)\<close> the last step divides \<open>0\<close> by \<open>dy[phi] = 0\<close>:
  the vector and the new iterate are NaN, the test of the loop fails and the search returns
  \<^verbatim>\<open>_SUCCESS_\<close> with NaN.
\<close>

lemma zero_step:
  assumes "0 < u" "w \<noteq> 0 \<or> x \<noteq> 0"
  shows "Fin 0 * macro_MIN (Fin 1 / Fin u) \<bar>Fin w / Fin x\<bar> = Fin 0"
  using assms by (auto simp: double_arith abs_if not_less)

lemma still_derivs:
  assumes "y 0 = Fin 1" "y 1 = Fin phi" "y 2 = Fin w" "phi < 1" "0 \<le> w"
    "pw_integrate pw = forward" "pw_N pw = 3"
  shows "\<exists>dy1 pw1. primordial_inflation_derivs ppm_V_example tau y dy pw = Inr (dy1, pw1)
           \<and> dy1 0 = Fin (sqrt (8 * pi / 3 * (w * w / 2 + (1 - phi))))
           \<and> dy1 1 = Fin w
           \<and> dy1 2 = Fin (1 - 2 * sqrt (8 * pi / 3 * (w * w / 2 + (1 - phi))) * w)
           \<and> pw_N pw1 = 3 \<and> pw_integrate pw1 = forward"
proof -
  have q: "0 < w * w / 2 + (1 - phi)" using assms(4,5) by (intro add_nonneg_pos) simp_all
  then have p: "0 < 8 * pi / 3 * (w * w / 2 + (1 - phi))" by simp
  then have n: "\<not> 8 * pi / 3 * (w * w / 2 + (1 - phi)) < 0" by simp
  have "0 < pi * (w * w / 2 + (1 - phi))" using q by simp
  then have n2: "\<not> pi * (w * w / 2 + (1 - phi)) < 0" by simp
  have h: "sqrt (8 * pi / 3 * (w * w / 2 + (1 - phi))) \<noteq> 0" using q by simp
  show ?thesis
    using assms n n2 h
    by (simp add: primordial_inflation_derivs_def derivs_background_def example_potential
        ppm_V_example_fields pow_numerals double_arith Let_def)
qed

lemma still_refresh:
  assumes "y 0 = Fin 1" "y 1 = Fin phi" "y 2 = Fin w" "phi < 1" "0 \<le> w"
    "pw_integrate pw = forward" "pw_N pw = 3"
  shows "\<exists>s. evolve_refresh ppm_V_example ppr_still_example target_phi forward eps tau y dy pw
               = Inr s
           \<and> es_y s = y \<and> es_dtau s = Fin 0 \<and> es_quantity s = Fin phi \<and> es_tau_end s = tau
           \<and> es_epsilon s = eps \<and> es_dy s 1 = Fin w
           \<and> (\<exists>a x. es_dy s 0 = Fin a \<and> es_dy s 2 = Fin x)
           \<and> pw_N (es_pipaw s) = 3 \<and> pw_integrate (es_pipaw s) = forward"
proof -
  define h where "h = sqrt (8 * pi / 3 * (w * w / 2 + (1 - phi)))"
  have q: "0 < w * w / 2 + (1 - phi)" using assms(4,5) by (intro add_nonneg_pos) simp_all
  then have hp: "0 < h" by (simp add: h_def)
  obtain dy1 pw1 where d: "primordial_inflation_derivs ppm_V_example tau y dy pw = Inr (dy1, pw1)"
    and v: "dy1 0 = Fin h" "dy1 1 = Fin w" "dy1 2 = Fin (1 - 2 * h * w)"
      "pw_N pw1 = 3" "pw_integrate pw1 = forward"
    using still_derivs [OF assms, of tau dy] unfolding h_def by blast
  have aH: "dy1 (index_in_a ppm_V_example) / y (index_in_a ppm_V_example) = Fin h"
    using v assms by (simp add: ppm_V_example_fields double_arith)
  have dt: "evolve_dtau ppm_V_example ppr_still_example forward y dy1 (Fin h) = Fin 0"
    using v assms hp
    by (simp add: evolve_dtau_def ppm_V_example_fields ppr_still_example_def zero_double_def
        one_double_def zero_step)
  have qu: "evolve_quantity ppm_V_example target_phi y dy1 (Fin h) (Fin 0) = Fin phi"
    using v assms by (simp add: evolve_quantity_def ppm_V_example_fields double_arith)
  show ?thesis
    using v assms(1-3) by (simp add: evolve_refresh_def d aH dt qu Let_def)
qed


lemma still_start:
  assumes "y 0 = Fin 1" "y 1 = Fin phi" "y 2 = Fin w" "phi < 0" "0 \<le> w"
  shows "\<exists>s0. evolve_start ppm_V_example ppr_still_example y dy target_phi True forward
          conformal = Inr s0
        \<and> es_y s0 = y \<and> es_quantity s0 = Fin phi \<and> es_tau_end s0 = Fin 0
        \<and> es_dtau s0 = Fin 0
        \<and> pw_N (es_pipaw s0) = 3 \<and> pw_integrate (es_pipaw s0) = forward
        \<and> es_epsilon s0 = Fin (1 / 16 / pi * (- 1 / (1 - phi)) ^ 2)"
proof -
  have e: "primordial_inflation_get_epsilon ppm_V_example (y (index_in_phi ppm_V_example))
             = Inr (Fin (1 / 16 / pi * (- 1 / (1 - phi)) ^ 2))"
    using assms by (simp add: ppm_V_example_fields example_epsilon)
  have lt: "phi < 1" using assms(4) by simp
  have N: "pw_integrate (pipaw_new (evolve_N ppm_V_example forward) forward conformal 0) = forward"
    "pw_N (pipaw_new (evolve_N ppm_V_example forward) forward conformal 0) = 3"
    by (simp_all add: pipaw_new_def evolve_N_def ppm_V_example_fields)
  from still_refresh [OF assms(1-3) lt assms(5) N,
      of "Fin (1 / 16 / pi * (- 1 / (1 - phi)) ^ 2)" 0 dy]
  show ?thesis
    by (auto simp: evolve_start_def e Let_def zero_double_def)
qed

lemma still_step:
  assumes "es_y s 1 = Fin phi" "phi < 0" "es_tau_end s = Fin 0" "es_dtau s = Fin 0"
    "pw_N (es_pipaw s) = 3" "pw_integrate (es_pipaw s) = forward"
    "es_epsilon s = Fin (1 / 16 / pi * (- 1 / (1 - phi)) ^ 2)"
    and land: "y_land 0 = Fin 1" "y_land 1 = Fin 0" "y_land 2 = Fin w" "0 \<le> w"
  shows "\<exists>s1. evolve_step (landing_integrator y_land) ppm_V_example ppr_still_example
            target_phi True forward s = Inr s1
          \<and> es_quantity s1 = Fin 0 \<and> es_y s1 0 = Fin 1 \<and> es_y s1 1 = Fin 0
          \<and> es_y s1 2 = Fin w \<and> es_dy s1 1 = Fin w
          \<and> (\<exists>a x. es_dy s1 0 = Fin a \<and> es_dy s1 2 = Fin x)
          \<and> pw_N (es_pipaw s1) = 3 \<and> pw_integrate (es_pipaw s1) = forward"
proof -
  define y1 where "y1 = (\<lambda>i. if int i < 3 then y_land i else es_y s i)"
  have yv: "y1 0 = Fin 1" "y1 1 = Fin 0" "y1 2 = Fin w"
    by (simp_all add: y1_def land land(2) [unfolded One_nat_def])
  have yS: "y1 (Suc 0) = Fin 0" using yv(2) by simp
  have a: "evolve_advance (landing_integrator y_land) ppm_V_example
             ppr_still_example s = Inr (y1, es_pipaw s, Fin 0)"
    using assms(1-7)
    by (simp add: evolve_advance_def primordial_inflation_check_potential_def example_potential
        ppm_V_example_fields landing_integrator_def ppr_still_example_def ppr_example_def
        y1_def double_arith Let_def)
  have e: "primordial_inflation_get_epsilon ppm_V_example (y1 (index_in_phi ppm_V_example))
             = Inr (Fin (1 / 16 / pi))"
    using example_epsilon [of 0] by (simp add: ppm_V_example_fields yS)
  have b: "\<not> 1 < Fin (1 / 16 / pi)" using pi_ge_two by (simp add: double_arith field_simps)
  from still_refresh [OF yv _ land(4) assms(6,5), of "Fin (1 / 16 / pi)" "Fin 0" "es_dy s"]
  obtain s1 where r: "evolve_refresh ppm_V_example ppr_still_example target_phi forward
                        (Fin (1 / 16 / pi)) (Fin 0) y1 (es_dy s) (es_pipaw s) = Inr s1"
    and f: "es_y s1 = y1" "es_quantity s1 = Fin 0" "es_dy s1 1 = Fin w"
      "\<exists>a x. es_dy s1 0 = Fin a \<and> es_dy s1 2 = Fin x"
      "pw_N (es_pipaw s1) = 3" "pw_integrate (es_pipaw s1) = forward"
    by auto
  have "evolve_step (landing_integrator y_land) ppm_V_example ppr_still_example
            target_phi True forward s = Inr s1"
    using b r e by (simp add: evolve_step_def a Let_def)
  then show ?thesis using f yv by simp
qed


lemma derivs_forward_total:
  "pw_integrate pw = forward \<Longrightarrow>
   \<exists>dy1 pw1. primordial_inflation_derivs ppm_V_example tau y dy pw = Inr (dy1, pw1)"
  by (simp add: primordial_inflation_derivs_def derivs_background_def
      primordial_inflation_potential_def ppm_V_example_fields Let_def)

lemma nan_finish:
  assumes "es_y s1 0 = Fin 1" "es_y s1 1 = Fin 0" "es_y s1 2 = Fin 0" "es_dy s1 1 = Fin 0"
    "es_dy s1 0 = Fin a" "es_dy s1 2 = Fin x" "pw_integrate (es_pipaw s1) = forward"
  shows "\<exists>y' dy'. evolve_finish ppm_V_example target_phi (Fin 0) forward s1 = Inr (y', dy')
           \<and> y' 0 = NaN \<and> y' 1 = NaN \<and> y' 2 = NaN"
proof -
  define y3 where "y3 = (es_y s1)(0 := NaN, 1 := NaN, 2 := NaN)"
  obtain dy1 pw1 where d: "primordial_inflation_derivs ppm_V_example (es_tau_end s1) y3 (es_dy s1)
                             (es_pipaw s1) = Inr (dy1, pw1)"
    using derivs_forward_total [OF assms(7)] by blast
  have "evolve_finish ppm_V_example target_phi (Fin 0) forward s1 = Inr (y3, dy1)"
    using assms(1-6) d
    by (simp add: evolve_finish_def ppm_V_example_fields double_arith Let_def y3_def)
  then show ?thesis by (simp add: y3_def)
qed

lemma still_loop:
  assumes "y 0 = Fin 1" "y 1 = Fin phi" "y 2 = Fin v" "phi < 0" "0 \<le> v"
    and land: "y_land 0 = Fin 1" "y_land 1 = Fin 0" "y_land 2 = Fin w" "0 \<le> w"
  shows "\<exists>s0 s1 a x.
           evolve_start ppm_V_example ppr_still_example y dy target_phi True forward conformal
             = Inr s0
         \<and> loop_fuel 1 (evolve_cond forward (Fin 0))
             (evolve_step (landing_integrator y_land) ppm_V_example ppr_still_example
                target_phi True forward) s0 = Some (Inr s1)
         \<and> es_y s1 0 = Fin 1 \<and> es_y s1 1 = Fin 0 \<and> es_y s1 2 = Fin w \<and> es_dy s1 1 = Fin w
         \<and> es_dy s1 0 = Fin a \<and> es_dy s1 2 = Fin x
         \<and> pw_N (es_pipaw s1) = 3 \<and> pw_integrate (es_pipaw s1) = forward"
proof -
  obtain s0 where s0: "evolve_start ppm_V_example ppr_still_example y dy target_phi True forward
          conformal = Inr s0"
    and f0: "es_y s0 = y" "es_quantity s0 = Fin phi" "es_tau_end s0 = Fin 0"
      "es_dtau s0 = Fin 0" "pw_N (es_pipaw s0) = 3"
      "pw_integrate (es_pipaw s0) = forward"
      "es_epsilon s0 = Fin (1 / 16 / pi * (- 1 / (1 - phi)) ^ 2)"
    using still_start [OF assms(1-5)] by blast
  have y1: "es_y s0 1 = Fin phi" using f0 assms by simp
  obtain s1 a x where s1: "evolve_step (landing_integrator y_land) ppm_V_example
            ppr_still_example target_phi True forward s0 = Inr s1"
    and f1: "es_quantity s1 = Fin 0" "es_y s1 0 = Fin 1" "es_y s1 1 = Fin 0"
      "es_y s1 2 = Fin w" "es_dy s1 1 = Fin w" "es_dy s1 0 = Fin a" "es_dy s1 2 = Fin x"
      "pw_N (es_pipaw s1) = 3" "pw_integrate (es_pipaw s1) = forward"
    using still_step [OF y1 assms(4) f0(3,4,5,6,7) land] by blast
  have c0: "evolve_cond forward (Fin 0) s0"
    using f0 assms by (simp add: evolve_cond_def sign_dtau_of_def double_arith)
  have c1: "\<not> evolve_cond forward (Fin 0) s1"
    using f1 by (simp add: evolve_cond_def sign_dtau_of_def double_arith)
  have "loop_fuel 1 (evolve_cond forward (Fin 0))
          (evolve_step (landing_integrator y_land) ppm_V_example ppr_still_example
             target_phi True forward) s0 = Some (Inr s1)"
    using c0 c1 s1 by (simp add: One_nat_def)
  then show ?thesis using s0 f1 by blast
qed


lemma nan_evolve:
  assumes "y 0 = Fin 1" "y 1 = Fin phi" "y 2 = Fin w" "phi < 0" "0 \<le> w"
  shows "\<exists>y' dy'. primordial_inflation_evolve_background (landing_integrator y_start_example) 1
           ppm_V_example ppr_still_example y dy target_phi (Fin 0) True forward conformal
           = Some (Inr (y', dy')) \<and> y' 0 = NaN \<and> y' 1 = NaN \<and> y' 2 = NaN"
proof -
  obtain s0 s1 a x where s0: "evolve_start ppm_V_example ppr_still_example y dy target_phi True
          forward conformal = Inr s0"
    and l: "loop_fuel 1 (evolve_cond forward (Fin 0))
             (evolve_step (landing_integrator y_start_example) ppm_V_example
                ppr_still_example target_phi True forward) s0 = Some (Inr s1)"
    and f1: "es_y s1 0 = Fin 1" "es_y s1 1 = Fin 0"
      "es_y s1 2 = Fin 0" "es_dy s1 1 = Fin 0" "es_dy s1 0 = Fin a" "es_dy s1 2 = Fin x"
      "pw_N (es_pipaw s1) = 3" "pw_integrate (es_pipaw s1) = forward"
    using still_loop [OF assms y_start_example_vals(1,3,4), of dy] by force
  obtain y' dy' where fin: "evolve_finish ppm_V_example target_phi (Fin 0) forward s1 = Inr (y', dy')"
    and v: "y' 0 = NaN" "y' 1 = NaN" "y' 2 = NaN"
    using nan_finish [OF f1(1-6,8)] by blast
  have "primordial_inflation_evolve_background (landing_integrator y_start_example) 1
           ppm_V_example ppr_still_example y dy target_phi (Fin 0) True forward conformal
           = Some (Inr (y', dy'))"
    using evolve_background_started [OF s0, of "landing_integrator y_start_example" 1 "Fin 0"]
      fin l
    by simp
  then show ?thesis using v by blast
qed


lemma example_first_pass:
  assumes r: "0 < q"
    and ev: "primordial_inflation_evolve_background gi 1 ppm_V_example ppr_still_example
               (y_start_example(0 := Fin 1, 1 := Fin (- 1 / 16 / pi),
                  2 := Fin (1 / 3 / sqrt (8 * pi / 3 * (1 - (- 1 / 16 / pi))))))
               y_zero_example target_phi (Fin 0) True forward conformal = Some (Inr (y', dy'))"
  shows "attractor_start ppm_V_example (Fin 0) (Fin q) y_start_example y_zero_example
           = Inr ((Fin 1, Fin (- 1)),
                  \<lparr>at_counter = 0, at_phi = Fin 0, at_dphidt_0new = Fin (1 / 3 / sqrt (8 * pi / 3)),
                   at_dphidt_0old = Fin (1 / 3 / sqrt (8 * pi / 3) / (q + 2)),
                   at_y = y_start_example, at_dy = y_zero_example\<rparr>)
         \<and> attractor_loop gi 1 ppm_V_example ppr_still_example (Fin 0) (Fin q) (Fin 1) (Fin (- 1))
             \<lparr>at_counter = 0, at_phi = Fin 0, at_dphidt_0new = Fin (1 / 3 / sqrt (8 * pi / 3)),
              at_dphidt_0old = Fin (1 / 3 / sqrt (8 * pi / 3) / (q + 2)),
              at_y = y_start_example, at_dy = y_zero_example\<rparr>
           = attractor_loop gi 1 ppm_V_example ppr_still_example (Fin 0) (Fin q) (Fin 1) (Fin (- 1))
             \<lparr>at_counter = 1, at_phi = Fin (- 1 / 16 / pi), at_dphidt_0new = y' 2 / y' 0,
              at_dphidt_0old = Fin (1 / 3 / sqrt (8 * pi / 3)), at_y = y', at_dy = dy'\<rparr>"
proof -
  define d0 where "d0 = 1 / 3 / sqrt (8 * pi / 3)"
  define s0 where "s0 = \<lparr>at_counter = 0, at_phi = Fin 0, at_dphidt_0new = Fin d0,
                          at_dphidt_0old = Fin (d0 / (q + 2)), at_y = y_start_example,
                          at_dy = y_zero_example\<rparr>"
  have d0pos: "0 < d0" by (simp add: d0_def)
  have st: "attractor_start ppm_V_example (Fin 0) (Fin q) y_start_example y_zero_example
              = Inr ((Fin 1, Fin (- 1)), s0)"
    using r by (simp add: attractor_start_def primordial_inflation_check_potential_def
        example_potential double_arith Let_def s0_def d0_def)
  have c0: "attractor_continue (Fin q) s0"
    using attractor_start_entered [OF st] by (simp add: attractor_continue_def is_finite_def)
  define phi1 where "phi1 = - 1 / 16 / pi"
  have neg: "phi1 < 0" by (simp add: phi1_def)
  define w where "w = 1 / 3 / sqrt (8 * pi / 3 * (1 - phi1))"
  have wpos: "0 < w" using neg by (simp add: w_def)
  define y3 where "y3 = y_start_example(0 := Fin 1, 1 := Fin phi1, 2 := Fin w)"
  define s1 where "s1 = \<lparr>at_counter = 1, at_phi = Fin phi1, at_dphidt_0new = y' 2 / y' 0,
                          at_dphidt_0old = Fin d0, at_y = y', at_dy = dy'\<rparr>"
  have ev': "primordial_inflation_evolve_background gi 1 ppm_V_example ppr_still_example y3
               y_zero_example target_phi (Fin 0) True forward conformal = Some (Inr (y', dy'))"
    using ev by (simp only: y3_def w_def phi1_def)
  have ph: "at_phi s0 + Fin (- 1) / Fin 1 / 16 / Fin pi = Fin phi1"
    by (simp add: s0_def phi1_def double_arith)
  have cp: "primordial_inflation_check_potential ppm_V_example (Fin phi1)
              = Inr (Fin (1 - phi1), Fin (- 1), Fin 0)"
    using neg by (simp add: primordial_inflation_check_potential_def example_potential
        double_arith)
  have dp: "- Fin (- 1) / 3 / sqrt_double ((8 * Fin pi / 3) * Fin (1 - phi1)) = Fin w"
  proof -
    have "0 < pi * (1 - phi1)" using neg by (intro mult_pos_pos) simp_all
    then have n: "\<not> pi * (1 - phi1) < 0" by (simp only: not_less less_imp_le)
    have "phi1 \<noteq> 1" using neg by simp
    then show ?thesis using n by (simp add: w_def double_arith)
  qed
  have yy: "(at_y s0)(index_in_a ppm_V_example := 1, index_in_phi ppm_V_example := Fin phi1,
               index_in_dphi ppm_V_example := 1 * Fin w) = y3"
    using wpos by (simp add: s0_def y3_def ppm_V_example_fields double_arith)
  have b: "attractor_body gi 1 ppm_V_example ppr_still_example (Fin 0) (Fin 1) (Fin (- 1)) s0
             = Some (Inr s1)"
  proof -
    have mx: "\<not> primordial_inflation_attractor_maxit ppr_still_example \<le> at_counter s0 + 1"
      by (simp add: s0_def ppr_still_example_def ppr_example_def)
    have v': "y' (index_in_dphi ppm_V_example) / y' (index_in_a ppm_V_example) = y' 2 / y' 0"
      by (simp add: ppm_V_example_fields)
    have f: "at_counter s0 + 1 = 1" "at_dphidt_0new s0 = Fin d0" "at_dy s0 = y_zero_example"
      by (simp_all add: s0_def)
    show ?thesis
      unfolding attractor_body_def Let_def ph cp
      using mx by (simp add: dp yy ev' [unfolded One_nat_def] v' f s1_def)
  qed
  have "attractor_loop gi 1 ppm_V_example ppr_still_example (Fin 0) (Fin q) (Fin 1) (Fin (- 1)) s0
        = attractor_loop gi 1 ppm_V_example ppr_still_example (Fin 0) (Fin q) (Fin 1) (Fin (- 1)) s1"
    using c0 b by (subst attractor_loop.simps) simp
  then show ?thesis using st unfolding s0_def s1_def d0_def phi1_def by simp
qed


lemma find_attractor_nan_example:
  "\<exists>y' dy'. primordial_inflation_find_attractor (landing_integrator y_start_example) 1
       ppm_V_example ppr_still_example (Fin 0) (Fin (1 / 100)) y_start_example y_zero_example
     = Some (Inr (NaN, NaN, y', dy'))
     \<and> y' 0 = NaN \<and> y' 1 = NaN \<and> y' 2 = NaN"
proof -
  define d0 where "d0 = 1 / 3 / sqrt (8 * pi / 3)"
  define y3 where "y3 = y_start_example(0 := Fin 1, 1 := Fin (- 1 / 16 / pi),
                          2 := Fin (1 / 3 / sqrt (8 * pi / 3 * (1 - (- 1 / 16 / pi)))))"
  have "y3 0 = Fin 1" "y3 1 = Fin (- 1 / 16 / pi)"
    "y3 2 = Fin (1 / 3 / sqrt (8 * pi / 3 * (1 - (- 1 / 16 / pi))))"
    "- 1 / 16 / pi < 0" "0 \<le> 1 / 3 / sqrt (8 * pi / 3 * (1 - (- 1 / 16 / pi)))"
    by (simp_all add: y3_def)
  from nan_evolve [OF this, of y_zero_example] obtain y' dy'
    where ev: "primordial_inflation_evolve_background (landing_integrator y_start_example) 1
           ppm_V_example ppr_still_example y3 y_zero_example target_phi (Fin 0) True forward
           conformal = Some (Inr (y', dy'))"
      and v: "y' 0 = NaN" "y' 1 = NaN" "y' 2 = NaN"
    by blast
  define s1 where "s1 = \<lparr>at_counter = 1, at_phi = Fin (- 1 / 16 / pi), at_dphidt_0new = y' 2 / y' 0,
                          at_dphidt_0old = Fin d0, at_y = y', at_dy = dy'\<rparr>"
  have pos: "(0::real) < 1 / 100" by simp
  note fp = example_first_pass [OF pos ev [unfolded y3_def], folded d0_def, folded s1_def]
  have c1: "\<not> attractor_continue (Fin (1 / 100)) s1"
    by (simp add: attractor_continue_def s1_def v double_arith)
  have "attractor_loop (landing_integrator y_start_example) 1 ppm_V_example
             ppr_still_example (Fin 0) (Fin (1 / 100)) (Fin 1) (Fin (- 1)) s1 = Some (Inr s1)"
    using c1 by (subst attractor_loop.simps) simp
  then have l: "attractor_loop (landing_integrator y_start_example) 1 ppm_V_example
             ppr_still_example (Fin 0) (Fin (1 / 100)) (Fin 1) (Fin (- 1))
             \<lparr>at_counter = 0, at_phi = Fin 0, at_dphidt_0new = Fin d0,
              at_dphidt_0old = Fin (d0 / (1 / 100 + 2)),
              at_y = y_start_example, at_dy = y_zero_example\<rparr> = Some (Inr s1)"
    using fp [THEN conjunct2] by simp
  have "primordial_inflation_find_attractor (landing_integrator y_start_example) 1
       ppm_V_example ppr_still_example (Fin 0) (Fin (1 / 100)) y_start_example y_zero_example
     = Some (Inr (NaN, NaN, y', dy'))"
    unfolding find_attractor_started [OF fp [THEN conjunct1]] l
    by (simp add: s1_def v double_arith)
  then show ?thesis using v by blast
qed

lemma example_epsilon_zero_potential:
  "primordial_inflation_get_epsilon ppm_V_example (Fin 1) = Inr PInf"
  by (simp add: primordial_inflation_get_epsilon_def ppm_V_example_fields example_potential
      pow_numerals double_arith)


subsection \<open>The reset of the running vector\<close>

lemma spectra_init_background_momentum:
  assumes "primordial_spec_type ppm0 = inflation_V \<or> primordial_spec_type ppm0 = inflation_V_end"
    and "ppm = primordial_inflation_indices ppm0"
  shows "spectra_init_background ppm y_ini y (index_in_a ppm) = y_ini (index_in_a ppm)"
    and "spectra_init_background ppm y_ini y (index_in_phi ppm) = y_ini (index_in_phi ppm)"
    and "spectra_init_background ppm y_ini y (index_in_dphi ppm) = y (index_in_dphi ppm)"
    and "solve_inflation_pivot_state ppm a_pivot dphidt_pivot y (index_in_dphi ppm)
           = y (index_in_dphi ppm)"
  using indices_V(1-3) [OF assms]
  by (auto simp: spectra_init_background_def solve_inflation_pivot_state_def Let_def)

text \<open>
  Claim C1 (the code contradicts it). For the type \<^verbatim>\<open>inflation_V\<close>, with \<^verbatim>\<open>y_ini\<close>
  holding 1 and the running vector holding 2 everywhere: the statements at the top of
  the loop over wavenumbers reset the scale factor and the field to 1 and leave the
  field momentum at 2, the value of the previous pass; before the check after the pivot
  the scale factor is set to \<open>a_pivot = 3\<close> and the momentum stays 2 instead of
  \<open>a_pivot * dphidt_pivot = 12\<close>.
\<close>

theorem field_momentum_not_reset:
  "primordial_spec_type ppm_V_example = inflation_V
   \<and> spectra_init_background ppm_V_example (\<lambda>_. 1) (\<lambda>_. 2) (index_in_a ppm_V_example) = 1
   \<and> spectra_init_background ppm_V_example (\<lambda>_. 1) (\<lambda>_. 2) (index_in_phi ppm_V_example) = 1
   \<and> spectra_init_background ppm_V_example (\<lambda>_. 1) (\<lambda>_. 2) (index_in_dphi ppm_V_example) = 2
   \<and> solve_inflation_pivot_state ppm_V_example 3 4 (\<lambda>_. 2) (index_in_a ppm_V_example) = 3
   \<and> solve_inflation_pivot_state ppm_V_example 3 4 (\<lambda>_. 2) (index_in_dphi ppm_V_example) = 2"
  by (simp add: spectra_init_background_def solve_inflation_pivot_state_def
      ppm_V_example_fields Let_def)

end
